theory Spec2Isabelle
  imports Complex_Main
begin

section \<open>Conventions of the embedding\<close>

text \<open>
  The development embeds the numerical core of the repository: the sparsity-pattern
  learner and the CSR matrix of \<^verbatim>\<open>ChCSR3Matrix.h\<close>, and the two versions of the
  interior-point solver (\<^verbatim>\<open>chrono_mumps/ChInteriorPoint.cpp\<close> and the older
  \<^verbatim>\<open>chrono_mkl/ChInteriorPoint.cpp\<close>).

  \<^item> A \<^verbatim>\<open>double\<close> is modelled as a \<^typ>\<open>real\<close>: rounding, infinities and NaN are
    outside the model. No theorem below depends on a division by zero.
  \<^item> A \<^verbatim>\<open>ChMatrixDynamic<double>\<close> column vector is a \<^typ>\<open>real list\<close>.
  \<^item> \<^verbatim>\<open>int\<close> indices are \<^typ>\<open>int\<close>, \<^verbatim>\<open>size_t\<close> sizes are \<^typ>\<open>nat\<close>.
  \<^item> An access outside a \<^verbatim>\<open>std::vector\<close> is undefined behaviour in C++; the
    model returns \<^term>\<open>None\<close> there.
\<close>

type_synonym vec = "real list"

section \<open>Newton step length\<close>

text \<open>
  \<^verbatim>\<open>ChInteriorPoint::find_Newton_step_length\<close> (the same body as
  \<^verbatim>\<open>findNewtonStepLength\<close> of the MKL version): \<^verbatim>\<open>alpha\<close> starts at 1, every row
  with a negative direction component proposes \<^verbatim>\<open>-eta * vect / Dvect\<close>, the smallest
  proposal wins, and a non-positive result is replaced by 0.
\<close>

definition step_length_row :: "vec \<Rightarrow> vec \<Rightarrow> real \<Rightarrow> nat \<Rightarrow> real \<Rightarrow> real" where
  "step_length_row vect Dvect eta row_sel alpha =
     (if Dvect ! row_sel < 0
      then (let alfa_temp = - eta * vect ! row_sel / Dvect ! row_sel
            in if alfa_temp < alpha then alfa_temp else alpha)
      else alpha)"

definition find_Newton_step_length :: "vec \<Rightarrow> vec \<Rightarrow> real \<Rightarrow> real" where
  "find_Newton_step_length vect Dvect eta =
     (let alpha = fold (step_length_row vect Dvect eta) [0..<length vect] 1
      in if alpha > 0 then alpha else 0)"

text \<open>
  The specification's reading of a step length: \<open>\<alpha>\<close> is feasible when
  \<open>v + \<alpha> \<cdot> \<Delta>v \<ge> 0\<close> componentwise, and it is the largest step of the unit interval
  when it is feasible, lies in \<open>(0, 1]\<close> and no feasible step of \<open>(0, 1]\<close> is larger.
\<close>

definition feasible_step :: "vec \<Rightarrow> vec \<Rightarrow> real \<Rightarrow> bool" where
  "feasible_step v Dv \<alpha> = (\<forall>i<length v. 0 \<le> v ! i + \<alpha> * Dv ! i)"

definition largest_unit_step :: "vec \<Rightarrow> vec \<Rightarrow> real \<Rightarrow> bool" where
  "largest_unit_step v Dv \<alpha> =
     (0 < \<alpha> \<and> \<alpha> \<le> 1 \<and> feasible_step v Dv \<alpha> \<and>
      (\<forall>\<beta>. 0 < \<beta> \<and> \<beta> \<le> 1 \<and> feasible_step v Dv \<beta> \<longrightarrow> \<beta> \<le> \<alpha>))"

section \<open>Sparsity-pattern learner\<close>

text \<open>
  \<^verbatim>\<open>ChSparsityPatternLearner\<close>: one list of trailing indices per leading index.
  The fields \<^verbatim>\<open>m_num_rows\<close>, \<^verbatim>\<open>m_num_cols\<close> and \<^verbatim>\<open>m_nnz\<close> are inherited from
  \<^verbatim>\<open>ChSparseMatrix\<close>.
\<close>

record ChSparseMatrix =
  m_num_rows :: int
  m_num_cols :: int
  m_nnz :: int

record ChSparsityPatternLearner = ChSparseMatrix +
  row_lists :: "int list list"
  row_major_format :: bool

definition leading_dimension :: "ChSparsityPatternLearner \<Rightarrow> int" where
  "leading_dimension l = (if row_major_format l then m_num_rows l else m_num_cols l)"

text \<open>The constructor: \<^verbatim>\<open>row_lists.resize(*leading_dimension)\<close>.\<close>

definition new_learner :: "int \<Rightarrow> int \<Rightarrow> bool \<Rightarrow> ChSparsityPatternLearner" where
  "new_learner nrows ncols row_major_format_in =
     \<lparr>m_num_rows = nrows, m_num_cols = ncols, m_nnz = 0,
      row_lists = replicate (nat (if row_major_format_in then nrows else ncols)) [],
      row_major_format = row_major_format_in\<rparr>"

text \<open>
  \<^verbatim>\<open>SetElement\<close>: \<^verbatim>\<open>row_lists[insrow].push_back(inscol)\<close>; the value and the
  overwrite flag are ignored.
\<close>

definition SetElement ::
  "int \<Rightarrow> int \<Rightarrow> real \<Rightarrow> bool \<Rightarrow> ChSparsityPatternLearner \<Rightarrow> ChSparsityPatternLearner option" where
  "SetElement insrow inscol insval overwrite l =
     (if 0 \<le> insrow \<and> insrow < int (length (row_lists l))
      then Some (l\<lparr>row_lists :=
                   (row_lists l)[nat insrow := row_lists l ! nat insrow @ [inscol]]\<rparr>)
      else None)"

text \<open>A sequence of \<^verbatim>\<open>SetElement\<close> calls, stopping at the first undefined one.\<close>

fun SetElements ::
  "(int \<times> int \<times> real \<times> bool) list \<Rightarrow> ChSparsityPatternLearner \<Rightarrow> ChSparsityPatternLearner option" where
  "SetElements [] l = Some l"
| "SetElements ((insrow, inscol, insval, overwrite) # calls) l =
     (case SetElement insrow inscol insval overwrite l of
        None \<Rightarrow> None
      | Some l' \<Rightarrow> SetElements calls l')"

text \<open>
  \<^verbatim>\<open>GetSparsityPattern\<close>: every list is sorted (\<^verbatim>\<open>std::list::sort\<close>) and its
  consecutive duplicates are removed (\<^verbatim>\<open>std::list::unique\<close>); the lists are updated
  in place and returned.
\<close>

definition GetSparsityPattern ::
  "ChSparsityPatternLearner \<Rightarrow> int list list \<times> ChSparsityPatternLearner" where
  "GetSparsityPattern l =
     (let pattern = map (\<lambda>list_iter. remdups_adj (sort list_iter)) (row_lists l)
      in (pattern, l\<lparr>row_lists := pattern\<rparr>))"

text \<open>
  \<^verbatim>\<open>GetNNZ\<close> of the learner: the list sizes are added up in an \<^verbatim>\<open>int\<close>; a sum
  beyond \<^verbatim>\<open>INT_MAX\<close> is not representable and modelled as \<^term>\<open>None\<close>. The result is
  also stored in \<^verbatim>\<open>m_nnz\<close>.
\<close>

definition INT_MAX :: int where
  "INT_MAX = 2147483647"

fun nnz_loop :: "int list list \<Rightarrow> int \<Rightarrow> int option" where
  "nnz_loop [] nnz_temp = Some nnz_temp"
| "nnz_loop (list_iter # rest) nnz_temp =
     (if nnz_temp + int (length list_iter) \<le> INT_MAX
      then nnz_loop rest (nnz_temp + int (length list_iter))
      else None)"

definition learner_GetNNZ ::
  "ChSparsityPatternLearner \<Rightarrow> (int \<times> ChSparsityPatternLearner) option" where
  "learner_GetNNZ l =
     (case nnz_loop (row_lists l) 0 of
        None \<Rightarrow> None
      | Some nnz_temp \<Rightarrow> Some (nnz_temp, l\<lparr>m_nnz := nnz_temp\<rparr>))"

text \<open>The (row, column) pairs a sequence of calls inserts.\<close>

definition inserted_pairs :: "(int \<times> int \<times> real \<times> bool) list \<Rightarrow> (int \<times> int) set" where
  "inserted_pairs calls = set (map (\<lambda>(insrow, inscol, insval, overwrite). (insrow, inscol)) calls)"

section \<open>CSR matrix\<close>

text \<open>
  \<^verbatim>\<open>ChCSR3Matrix\<close>: the three CSR arrays and the per-slot flag
  \<^verbatim>\<open>initialized_element\<close>. The array \<^verbatim>\<open>values\<close> is named \<open>values_arr\<close> here.
\<close>

record ChCSR3Matrix = ChSparseMatrix +
  csr_row_major_format :: bool
  isCompressed :: bool
  leadIndex :: "int list"
  trailIndex :: "int list"
  values_arr :: "real list"
  initialized_element :: "bool list"

definition csr_leading_dimension :: "ChCSR3Matrix \<Rightarrow> int" where
  "csr_leading_dimension M = (if csr_row_major_format M then m_num_rows M else m_num_cols M)"

text \<open>\<^verbatim>\<open>GetTrailingIndexLength\<close>: \<^verbatim>\<open>leadIndex[*leading_dimension]\<close>.\<close>

definition GetTrailingIndexLength :: "ChCSR3Matrix \<Rightarrow> int option" where
  "GetTrailingIndexLength M =
     (if 0 \<le> csr_leading_dimension M \<and> csr_leading_dimension M < int (length (leadIndex M))
      then Some (leadIndex M ! nat (csr_leading_dimension M))
      else None)"

text \<open>\<^verbatim>\<open>GetNNZ\<close> of the CSR matrix returns \<^verbatim>\<open>GetTrailingIndexLength()\<close>.\<close>

definition GetNNZ :: "ChCSR3Matrix \<Rightarrow> int option" where
  "GetNNZ M = GetTrailingIndexLength M"

text \<open>The number of slots whose flag is set.\<close>

definition initialized_count :: "ChCSR3Matrix \<Rightarrow> int" where
  "initialized_count M = int (length (filter (\<lambda>flag. flag) (initialized_element M)))"

text \<open>
  A 1 x 2 row-major matrix whose single row owns two slots: the first holds the element
  (0, 0) = 5, the second is a reserved hole.
\<close>

definition holed_matrix :: ChCSR3Matrix where
  "holed_matrix =
     \<lparr>m_num_rows = 1, m_num_cols = 2, m_nnz = 0,
      csr_row_major_format = True, isCompressed = False,
      leadIndex = [0, 2], trailIndex = [0, -1], values_arr = [5, 0],
      initialized_element = [True, False]\<rparr>"

section \<open>Dense vectors and the sparse matrix seen through its elements\<close>

text \<open>
  The members of \<^verbatim>\<open>ChMatrix\<close> the solver calls are part of the Chrono core, which is
  outside the sources at hand; they are modelled by their usual meaning on column
  vectors. \<^verbatim>\<open>Resize\<close> keeps the content when the size is unchanged and yields a
  zero vector otherwise (``every ChMatrix is initialized with zeros by default'').
\<close>

definition Resize :: "nat \<Rightarrow> vec \<Rightarrow> vec" where
  "Resize k v = (if length v = k then v else replicate k 0)"

definition FillElem :: "real \<Rightarrow> vec \<Rightarrow> vec" where
  "FillElem a v = replicate (length v) a"

definition MatrScale :: "real \<Rightarrow> vec \<Rightarrow> vec" where
  "MatrScale a v = map (\<lambda>e. e * a) v"

definition MatrScale_vec :: "vec \<Rightarrow> vec \<Rightarrow> vec" where
  "MatrScale_vec w v = map2 (\<lambda>e f. e * f) v w"

definition MatrAdd_scalar :: "real \<Rightarrow> vec \<Rightarrow> vec" where
  "MatrAdd_scalar a v = map (\<lambda>e. e + a) v"

definition vec_add :: "vec \<Rightarrow> vec \<Rightarrow> vec" where
  "vec_add v w = map2 (\<lambda>e f. e + f) v w"

definition vec_sub :: "vec \<Rightarrow> vec \<Rightarrow> vec" where
  "vec_sub v w = map2 (\<lambda>e f. e - f) v w"

definition MatrDot :: "vec \<Rightarrow> vec \<Rightarrow> real" where
  "MatrDot v w = sum_list (map2 (\<lambda>e f. e * f) v w)"

definition NormTwo :: "vec \<Rightarrow> real" where
  "NormTwo v = sqrt (sum_list (map (\<lambda>e. e * e) v))"

text \<open>
  The sparse matrix \<^verbatim>\<open>BigMat\<close> is used by the solver through \<^verbatim>\<open>SetElement\<close>,
  \<^verbatim>\<open>GetElement\<close> and the clipped product only, so it is modelled by its elements: an
  absent element reads as 0.
\<close>

type_synonym mat = "nat \<Rightarrow> nat \<Rightarrow> real"

definition mat_SetElement :: "nat \<Rightarrow> nat \<Rightarrow> real \<Rightarrow> mat \<Rightarrow> mat" where
  "mat_SetElement row col insval M = (\<lambda>i j. if i = row \<and> j = col then insval else M i j)"

text \<open>
  Modelled from the spec: the body of \<^verbatim>\<open>MatMultiplyClipped\<close> is not in the sources.
  With both offsets 0, as the solver calls it, the output entry \<open>i\<close> is the sum over the
  stored columns \<open>j\<close> of the window \<open>[colStart, colEnd]\<close> of
  \<open>values * x_in[j - colStart]\<close>, for the rows \<open>rowStart + i\<close> of \<open>[rowStart, rowEnd]\<close>.
  The bounds are \<^verbatim>\<open>int\<close>s, so a window such as \<open>[0, n - 1]\<close> with \<open>n = 0\<close> is empty.
\<close>

definition MatMultiplyClipped :: "mat \<Rightarrow> vec \<Rightarrow> int \<Rightarrow> int \<Rightarrow> int \<Rightarrow> int \<Rightarrow> vec" where
  "MatMultiplyClipped M vect_in start_row end_row start_col end_col =
     map (\<lambda>row. sum_list (map (\<lambda>col. M (nat row) (nat col) * vect_in ! nat (col - start_col))
                              [start_col..end_col]))
         [start_row..end_row]"

section \<open>State of the interior-point solver\<close>

datatype KKT_SOLUTION_METHOD = STANDARD | AUGMENTED | NORMAL

record IPresidual_t =
  rp_nnorm :: real
  rd_nnorm :: real

text \<open>
  The preprocessor switches of \<^verbatim>\<open>chrono_mumps/ChInteriorPoint.cpp\<close>. The file sets
  \<^verbatim>\<open>SKIP_CONTACTS_UV true\<close>, \<^verbatim>\<open>ADD_COMPLIANCE false\<close>,
  \<^verbatim>\<open>REUSE_OLD_SOLUTIONS false\<close>; the functions below take them as a parameter.
\<close>

record macros =
  SKIP_CONTACTS_UV :: bool
  ADD_COMPLIANCE :: bool
  REUSE_OLD_SOLUTIONS :: bool

definition source_macros :: macros where
  "source_macros = \<lparr>SKIP_CONTACTS_UV = True, ADD_COMPLIANCE = False, REUSE_OLD_SOLUTIONS = False\<rparr>"

text \<open>
  The system descriptor is an external collaborator: it reports the sizes and writes the
  matrix of the chosen layout, the compliance block and the vectors \<open>f\<close> and \<open>b\<close>.
\<close>

record descriptor =
  CountActiveVariables :: nat
  CountActiveConstraints :: nat
  matrix_form :: "KKT_SOLUTION_METHOD \<Rightarrow> mat"
  small_form :: mat
  compliance_form :: mat
  f_form :: vec
  b_form :: vec

text \<open>
  The linear engine (MUMPS, Pardiso) is external as well: a function from the matrix and the
  right-hand side to the vector it leaves in the buffer.
\<close>

type_synonym engine = "mat \<Rightarrow> vec \<Rightarrow> vec"

text \<open>
  The members of \<^verbatim>\<open>ChInteriorPoint\<close>. The one-letter members \<^verbatim>\<open>m\<close>, \<^verbatim>\<open>n\<close>,
  \<^verbatim>\<open>x\<close>, \<^verbatim>\<open>y\<close>, \<^verbatim>\<open>b\<close>, \<^verbatim>\<open>c\<close>, \<^verbatim>\<open>E\<close> carry the prefix \<open>ip_\<close>. The
  temporary members \<^verbatim>\<open>x_pred\<close>, \<^verbatim>\<open>y_pred\<close>, \<^verbatim>\<open>lam_pred\<close>, \<^verbatim>\<open>x_corr\<close>,
  \<^verbatim>\<open>y_corr\<close>, \<^verbatim>\<open>lam_corr\<close> are written before they are read in every function and
  appear as local bindings. \<open>engine_calls\<close> counts the calls of the linear engine, the
  only effect of the solver outside its own members. The MKL version shares the record:
  its \<^verbatim>\<open>rhs\<close> is \<open>rhs_sol\<close>, its \<^verbatim>\<open>rpd_pred\<close> is \<open>rpd\<close>, its
  \<^verbatim>\<open>qp_solve_type\<close> is \<open>KKT_solve_method\<close>; \<open>sol\<close> and \<open>rpd_corr\<close> are its own.
\<close>

record ChInteriorPoint =
  ip_m :: nat
  ip_n :: nat
  solver_call :: nat
  iteration_count :: nat
  iteration_count_max :: nat
  EQUAL_STEP_LENGTH :: bool
  ADAPTIVE_ETA :: bool
  ONLY_PREDICT :: bool
  IPtolerances :: IPresidual_t
  IPres :: IPresidual_t
  mu_tolerance :: real
  KKT_solve_method :: KKT_SOLUTION_METHOD
  ip_x :: vec
  ip_y :: vec
  lam :: vec
  Dx :: vec
  Dy :: vec
  Dlam :: vec
  ip_b :: vec
  ip_c :: vec
  rp :: vec
  rd :: vec
  rpd :: vec
  rpd_corr :: vec
  mu :: real
  rhs_sol :: vec
  sol :: vec
  BigMat :: mat
  SmallMat :: mat
  ip_E :: mat
  vectn :: vec
  vectm :: vec
  sol_chrono :: vec
  engine_calls :: nat

text \<open>\<^verbatim>\<open>SetTolerances\<close> of the header.\<close>

definition SetTolerances :: "real \<Rightarrow> real \<Rightarrow> real \<Rightarrow> ChInteriorPoint \<Rightarrow> ChInteriorPoint" where
  "SetTolerances rp_tol rd_tol complementarity_tol st =
     st\<lparr>IPtolerances := \<lparr>rp_nnorm = rp_tol, rd_nnorm = rd_tol\<rparr>,
        mu_tolerance := complementarity_tol\<rparr>"

section \<open>The MUMPS version of the solver\<close>

subsection \<open>Products with the blocks of \<open>BigMat\<close>\<close>

text \<open>
  In the \<^verbatim>\<open>NORMAL\<close> layout the three products only print a message: the output
  vector keeps its content.
\<close>

definition multiplyA :: "ChInteriorPoint \<Rightarrow> vec \<Rightarrow> vec \<Rightarrow> vec" where
  "multiplyA st vect_in vect_out =
     (case KKT_solve_method st of
        STANDARD \<Rightarrow> MatMultiplyClipped (BigMat st) vect_in
                      (int (ip_n st)) (int (ip_n st) + int (ip_m st) - 1) 0 (int (ip_n st) - 1)
      | AUGMENTED \<Rightarrow> MatMultiplyClipped (BigMat st) vect_in
                      (int (ip_n st)) (int (ip_n st) + int (ip_m st) - 1) 0 (int (ip_n st) - 1)
      | NORMAL \<Rightarrow> vect_out)"

definition multiplyNegAT :: "ChInteriorPoint \<Rightarrow> vec \<Rightarrow> vec \<Rightarrow> vec" where
  "multiplyNegAT st vect_in vect_out =
     (case KKT_solve_method st of
        STANDARD \<Rightarrow> MatMultiplyClipped (BigMat st) vect_in 0 (int (ip_n st) - 1)
                      (int (ip_n st) + int (ip_m st)) (int (ip_n st) + 2 * int (ip_m st) - 1)
      | AUGMENTED \<Rightarrow> MatMultiplyClipped (BigMat st) vect_in 0 (int (ip_n st) - 1)
                      (int (ip_n st)) (int (ip_n st) + int (ip_m st) - 1)
      | NORMAL \<Rightarrow> vect_out)"

definition multiplyG :: "ChInteriorPoint \<Rightarrow> vec \<Rightarrow> vec \<Rightarrow> vec" where
  "multiplyG st vect_in vect_out =
     (case KKT_solve_method st of
        STANDARD \<Rightarrow> MatMultiplyClipped (BigMat st) vect_in 0 (int (ip_n st) - 1) 0 (int (ip_n st) - 1)
      | AUGMENTED \<Rightarrow> MatMultiplyClipped (BigMat st) vect_in 0 (int (ip_n st) - 1) 0 (int (ip_n st) - 1)
      | NORMAL \<Rightarrow> vect_out)"

text \<open>\<^verbatim>\<open>E.MatMultiply(Dlam, vectm)\<close>: the full product with the \<open>m \<times> m\<close> block.\<close>

definition E_MatMultiply :: "ChInteriorPoint \<Rightarrow> vec \<Rightarrow> vec" where
  "E_MatMultiply st vect_in =
     MatMultiplyClipped (ip_E st) vect_in 0 (int (ip_m st) - 1) 0 (int (ip_m st) - 1)"

subsection \<open>Residuals\<close>

definition fullupdate_residual :: "macros \<Rightarrow> ChInteriorPoint \<Rightarrow> ChInteriorPoint" where
  "fullupdate_residual cfg st =
     (let st = st\<lparr>rp := multiplyA st (ip_x st) (rp st)\<rparr>;
          st = st\<lparr>rp := vec_sub (rp st) (ip_y st)\<rparr>;
          st = st\<lparr>rp := vec_sub (rp st) (ip_b st)\<rparr>;
          st = (if ADD_COMPLIANCE cfg
                then (let st = st\<lparr>vectm := E_MatMultiply st (Dlam st)\<rparr>
                      in st\<lparr>rp := vec_add (rp st) (vectm st)\<rparr>)
                else st);
          st = st\<lparr>rd := multiplyG st (ip_x st) (rd st)\<rparr>;
          st = st\<lparr>rd := vec_add (rd st) (ip_c st)\<rparr>;
          st = st\<lparr>vectn := multiplyNegAT st (lam st) (vectn st)\<rparr>;
          st = st\<lparr>rd := vec_add (rd st) (vectn st)\<rparr>
      in st\<lparr>mu := MatrDot (ip_y st) (lam st) / real (ip_m st)\<rparr>)"

text \<open>\<^verbatim>\<open>VerifyKKTconditions\<close>; the printing of the \<^verbatim>\<open>print\<close> branch is left out.\<close>

definition VerifyKKTconditions :: "ChInteriorPoint \<Rightarrow> ChInteriorPoint" where
  "VerifyKKTconditions st =
     st\<lparr>IPres := \<lparr>rp_nnorm = NormTwo (rp st) / real (ip_m st),
                   rd_nnorm = NormTwo (rd st) / real (ip_n st)\<rparr>\<rparr>"

text \<open>
  \<^verbatim>\<open>check_exit_conditions\<close>: the first block of the source is guarded by
  \<^verbatim>\<open>if (false)\<close> and never runs; the second, guarded by \<^verbatim>\<open>if (true)\<close>, is the
  function. The result is the answer and the state with \<^verbatim>\<open>IPres\<close> refreshed.
\<close>

definition check_exit_conditions :: "ChInteriorPoint \<Rightarrow> bool \<times> ChInteriorPoint" where
  "check_exit_conditions st =
     (let relative_duality_gap = MatrDot (ip_y st) (lam st);
          st = VerifyKKTconditions st
      in (relative_duality_gap < mu_tolerance st \<and>
          rp_nnorm (IPres st) < rp_nnorm (IPtolerances st) \<and>
          rd_nnorm (IPres st) < rd_nnorm (IPtolerances st), st))"

subsection \<open>The perturbed KKT system\<close>

text \<open>
  \<^verbatim>\<open>mumps_engine.SetProblem(BigMat, rhs_sol)\<close> followed by \<^verbatim>\<open>MumpsCall()\<close>: the
  engine overwrites the right-hand side with what it computed; its status is not read.
\<close>

definition call_engine :: "engine \<Rightarrow> ChInteriorPoint \<Rightarrow> ChInteriorPoint" where
  "call_engine eng st =
     st\<lparr>rhs_sol := eng (BigMat st) (rhs_sol st), engine_calls := engine_calls st + 1\<rparr>"

text \<open>The \<^verbatim>\<open>STANDARD\<close> case of \<^verbatim>\<open>KKTsolve\<close> up to the call of the engine.\<close>

definition KKT_STANDARD_assemble :: "real \<Rightarrow> ChInteriorPoint \<Rightarrow> ChInteriorPoint" where
  "KKT_STANDARD_assemble sigma st =
     (let st = st\<lparr>BigMat :=
            fold (\<lambda>diag_sel M.
                    mat_SetElement (ip_n st + diag_sel) (ip_n st + diag_sel) (- 1)
                      (mat_SetElement (ip_n st + ip_m st + diag_sel) (ip_n st + ip_m st + diag_sel)
                         (ip_y st ! diag_sel)
                         (mat_SetElement (ip_n st + ip_m st + diag_sel) (ip_n st + diag_sel)
                            (lam st ! diag_sel) M)))
                 [0..<ip_m st] (BigMat st)\<rparr>;
          st = (if sigma \<noteq> 0
                then (let st = st\<lparr>vectm := Dlam st\<rparr>;
                          st = st\<lparr>vectm := MatrScale_vec (Dy st) (vectm st)\<rparr>;
                          st = st\<lparr>vectm := MatrAdd_scalar (- sigma * mu st) (vectm st)\<rparr>
                      in st\<lparr>rpd := vec_add (rpd st) (vectm st)\<rparr>)
                else (let st = st\<lparr>rpd := ip_y st\<rparr>
                      in st\<lparr>rpd := MatrScale_vec (lam st) (rpd st)\<rparr>));
          st = st\<lparr>rhs_sol :=
            fold (\<lambda>row_sel r. r[row_sel := - rd st ! row_sel]) [0..<ip_n st] (rhs_sol st)\<rparr>
      in st\<lparr>rhs_sol :=
            fold (\<lambda>row_sel r. (r[row_sel + ip_n st := - rp st ! row_sel])
                                 [row_sel + ip_n st + ip_m st := - rpd st ! row_sel])
                 [0..<ip_m st] (rhs_sol st)\<rparr>)"

definition KKT_STANDARD_extract :: "ChInteriorPoint \<Rightarrow> ChInteriorPoint" where
  "KKT_STANDARD_extract st =
     (let st = st\<lparr>Dx :=
            fold (\<lambda>row_sel d. d[row_sel := rhs_sol st ! row_sel]) [0..<ip_n st] (Dx st)\<rparr>;
          st = st\<lparr>Dy :=
            fold (\<lambda>row_sel d. d[row_sel := rhs_sol st ! (row_sel + ip_n st)]) [0..<ip_m st] (Dy st)\<rparr>
      in st\<lparr>Dlam :=
            fold (\<lambda>row_sel d. d[row_sel := rhs_sol st ! (row_sel + ip_n st + ip_m st)])
                 [0..<ip_m st] (Dlam st)\<rparr>)"

text \<open>
  The \<^verbatim>\<open>AUGMENTED\<close> case up to the call of the engine: the diagonal of the lower
  right block, then the right-hand side. The dumps to files are left out.
\<close>

definition KKT_AUGMENTED_assemble :: "macros \<Rightarrow> real \<Rightarrow> ChInteriorPoint \<Rightarrow> ChInteriorPoint" where
  "KKT_AUGMENTED_assemble cfg sigma st =
     (let st = (if ADD_COMPLIANCE cfg
                then st\<lparr>BigMat :=
                  fold (\<lambda>diag_sel M.
                          mat_SetElement (ip_n st + diag_sel) (ip_n st + diag_sel)
                            (ip_y st ! diag_sel / lam st ! diag_sel + ip_E st diag_sel diag_sel) M)
                       [0..<ip_m st] (BigMat st)\<rparr>
                else st\<lparr>BigMat :=
                  fold (\<lambda>diag_sel M.
                          mat_SetElement (ip_n st + diag_sel) (ip_n st + diag_sel)
                            (ip_y st ! diag_sel / lam st ! diag_sel) M)
                       [0..<ip_m st] (BigMat st)\<rparr>);
          st = st\<lparr>rhs_sol :=
            fold (\<lambda>row_sel r. r[row_sel := - rd st ! row_sel]) [0..<ip_n st] (rhs_sol st)\<rparr>
      in (if sigma \<noteq> 0
          then st\<lparr>rhs_sol :=
            fold (\<lambda>row_sel r. r[row_sel + ip_n st :=
                      - rp st ! row_sel - ip_y st ! row_sel + sigma * mu st / lam st ! row_sel])
                 [0..<ip_m st] (rhs_sol st)\<rparr>
          else st\<lparr>rhs_sol :=
            fold (\<lambda>row_sel r. r[row_sel + ip_n st := - rp st ! row_sel - ip_y st ! row_sel])
                 [0..<ip_m st] (rhs_sol st)\<rparr>))"

definition KKT_AUGMENTED_extract :: "macros \<Rightarrow> ChInteriorPoint \<Rightarrow> ChInteriorPoint" where
  "KKT_AUGMENTED_extract cfg st =
     (let st = st\<lparr>Dx :=
            fold (\<lambda>row_sel d. d[row_sel := rhs_sol st ! row_sel]) [0..<ip_n st] (Dx st)\<rparr>;
          st = st\<lparr>Dlam :=
            fold (\<lambda>row_sel d. d[row_sel := rhs_sol st ! (row_sel + ip_n st)]) [0..<ip_m st] (Dlam st)\<rparr>;
          st = st\<lparr>Dy := multiplyA st (Dx st) (Dy st)\<rparr>;
          st = st\<lparr>Dy := vec_add (Dy st) (rp st)\<rparr>
      in (if ADD_COMPLIANCE cfg
          then (let st = st\<lparr>vectm := E_MatMultiply st (Dlam st)\<rparr>
                in st\<lparr>Dy := vec_add (Dy st) (vectm st)\<rparr>)
          else st))"

text \<open>
  The \<^verbatim>\<open>NORMAL\<close> case: no system is solved. The accumulator \<^verbatim>\<open>temp\<close> is an
  \<^verbatim>\<open>int\<close>, so every \<^verbatim>\<open>+=\<close> truncates towards zero, and \<^verbatim>\<open>SetElement\<close> with
  \<^verbatim>\<open>overwrite = false\<close> adds to the stored element.
\<close>

definition trunc_to_int :: "real \<Rightarrow> int" where
  "trunc_to_int r = (if 0 \<le> r then \<lfloor>r\<rfloor> else \<lceil>r\<rceil>)"

definition KKT_NORMAL :: "ChInteriorPoint \<Rightarrow> ChInteriorPoint" where
  "KKT_NORMAL st =
     st\<lparr>BigMat :=
       fold (\<lambda>row_sel M.
         fold (\<lambda>col_sel M.
           snd (fold (\<lambda>el_sel (temp, M).
                  (let temp = trunc_to_int (real_of_int temp +
                                lam st ! el_sel / ip_y st ! el_sel *
                                SmallMat st el_sel row_sel * SmallMat st el_sel col_sel)
                   in (temp, if temp \<noteq> 0
                             then mat_SetElement row_sel col_sel (M row_sel col_sel + real_of_int temp) M
                             else M)))
                [0..<ip_m st] (0, M)))
           [0..<ip_n st] M)
         [0..<ip_n st] (BigMat st)\<rparr>"

definition KKTsolve :: "engine \<Rightarrow> macros \<Rightarrow> real \<Rightarrow> ChInteriorPoint \<Rightarrow> ChInteriorPoint" where
  "KKTsolve eng cfg sigma st =
     (case KKT_solve_method st of
        STANDARD \<Rightarrow> KKT_STANDARD_extract (call_engine eng (KKT_STANDARD_assemble sigma st))
      | AUGMENTED \<Rightarrow> KKT_AUGMENTED_extract cfg (call_engine eng (KKT_AUGMENTED_assemble cfg sigma st))
      | NORMAL \<Rightarrow> KKT_NORMAL st)"

subsection \<open>One iteration\<close>

text \<open>
  \<^verbatim>\<open>iterate\<close>, in the two phases its comments name. The prediction phase hands the
  local \<^verbatim>\<open>mu_pred\<close> to the correction phase. The block guarded by
  \<^verbatim>\<open>ONLY_PREDICT\<close> has no \<^verbatim>\<open>return\<close>: the correction phase follows it.
\<close>

definition iterate_prediction ::
  "engine \<Rightarrow> macros \<Rightarrow> ChInteriorPoint \<Rightarrow> real \<times> ChInteriorPoint" where
  "iterate_prediction eng cfg st =
     (let st = KKTsolve eng cfg 0 st;
          alfa_pred_prim = find_Newton_step_length (ip_y st) (Dy st) 1;
          alfa_pred_dual = find_Newton_step_length (lam st) (Dlam st) 1;
          alfa_pred = min alfa_pred_prim alfa_pred_dual;
          alfa_pred_prim = (if EQUAL_STEP_LENGTH st then alfa_pred else alfa_pred_prim);
          alfa_pred_dual = (if EQUAL_STEP_LENGTH st then alfa_pred else alfa_pred_dual);
          y_pred = vec_add (MatrScale alfa_pred_prim (Dy st)) (ip_y st);
          lam_pred = vec_add (MatrScale alfa_pred_dual (Dlam st)) (lam st);
          mu_pred = MatrDot y_pred lam_pred / real (ip_m st);
          st = (if ONLY_PREDICT st
                then (let x_pred = vec_add (MatrScale alfa_pred_prim (Dx st)) (ip_x st);
                          st = st\<lparr>ip_x := x_pred\<rparr>;
                          st = st\<lparr>ip_y := y_pred\<rparr>;
                          st = st\<lparr>lam := lam_pred\<rparr>;
                          st = st\<lparr>rp := MatrScale (1 - alfa_pred_prim) (rp st)\<rparr>;
                          st = st\<lparr>vectn := multiplyG st (Dx st) (vectn st)\<rparr>;
                          st = st\<lparr>vectn := MatrScale (alfa_pred_prim - alfa_pred_dual) (vectn st)\<rparr>;
                          st = st\<lparr>rd := MatrScale (1 - alfa_pred_dual) (rd st)\<rparr>;
                          st = st\<lparr>rd := vec_add (rd st) (vectn st)\<rparr>
                      in st\<lparr>mu := mu_pred\<rparr>)
                else st)
      in (mu_pred, st))"

text \<open>The damping factor of the correction phase.\<close>

definition corrector_eta :: "ChInteriorPoint \<Rightarrow> real" where
  "corrector_eta st =
     (if ADAPTIVE_ETA st then exp (- mu st * real (ip_m st)) * (1 / 10) + 9 / 10 else 95 / 100)"

definition iterate_correction ::
  "engine \<Rightarrow> macros \<Rightarrow> real \<Rightarrow> ChInteriorPoint \<Rightarrow> ChInteriorPoint" where
  "iterate_correction eng cfg mu_pred st =
     (let sigma = (mu_pred / mu st) * (mu_pred / mu st) * (mu_pred / mu st);
          st = KKTsolve eng cfg sigma st;
          eta = corrector_eta st;
          alfa_corr_prim = find_Newton_step_length (ip_y st) (Dy st) eta;
          alfa_corr_dual = find_Newton_step_length (lam st) (Dlam st) eta;
          alfa_corr = min alfa_corr_prim alfa_corr_dual;
          alfa_corr_prim = (if EQUAL_STEP_LENGTH st then alfa_corr else alfa_corr_prim);
          alfa_corr_dual = (if EQUAL_STEP_LENGTH st then alfa_corr else alfa_corr_dual);
          st = st\<lparr>ip_x := vec_add (MatrScale alfa_corr_prim (Dx st)) (ip_x st)\<rparr>;
          st = st\<lparr>ip_y := vec_add (MatrScale alfa_corr_prim (Dy st)) (ip_y st)\<rparr>;
          st = st\<lparr>lam := vec_add (MatrScale alfa_corr_dual (Dlam st)) (lam st)\<rparr>;
          st = st\<lparr>rp := MatrScale (1 - alfa_corr_prim) (rp st)\<rparr>;
          st = st\<lparr>rd := MatrScale (1 - alfa_corr_dual) (rd st)\<rparr>;
          st = st\<lparr>mu := MatrDot (ip_y st) (lam st) / real (ip_m st)\<rparr>
      in (if \<not> EQUAL_STEP_LENGTH st
          then (let st = st\<lparr>vectn := multiplyG st (Dx st) (vectn st)\<rparr>;
                    st = st\<lparr>vectn := MatrScale (alfa_corr_prim - alfa_corr_dual) (vectn st)\<rparr>
                in st\<lparr>rd := vec_add (rd st) (vectn st)\<rparr>)
          else st))"

definition iterate :: "engine \<Rightarrow> macros \<Rightarrow> ChInteriorPoint \<Rightarrow> ChInteriorPoint" where
  "iterate eng cfg st =
     (let (mu_pred, st) = iterate_prediction eng cfg st
      in iterate_correction eng cfg mu_pred st)"

subsection \<open>Sizes, loading and the starting point\<close>

text \<open>
  \<^verbatim>\<open>reset_dimensions\<close>. \<^verbatim>\<open>BigMat.Reset\<close> leaves a matrix all of whose elements read
  as 0. In the \<^verbatim>\<open>NORMAL\<close> case only a message is printed.
\<close>

definition reset_dimensions :: "macros \<Rightarrow> nat \<Rightarrow> nat \<Rightarrow> ChInteriorPoint \<Rightarrow> ChInteriorPoint" where
  "reset_dimensions cfg n_old m_old st =
     (let st = (if n_old \<noteq> ip_n st
                then st\<lparr>ip_x := Resize (ip_n st) (ip_x st),
                        Dx := Resize (ip_n st) (Dx st),
                        ip_c := Resize (ip_n st) (ip_c st),
                        rd := Resize (ip_n st) (rd st),
                        vectn := Resize (ip_n st) (vectn st)\<rparr>
                else st);
          st = (if m_old \<noteq> ip_m st
                then st\<lparr>ip_y := Resize (ip_m st) (ip_y st),
                        lam := Resize (ip_m st) (lam st),
                        Dy := Resize (ip_m st) (Dy st),
                        Dlam := Resize (ip_m st) (Dlam st),
                        ip_b := Resize (ip_m st) (ip_b st),
                        rp := Resize (ip_m st) (rp st),
                        rpd := Resize (ip_m st) (rpd st),
                        vectm := Resize (ip_m st) (vectm st)\<rparr>
                else st);
          st = (if SKIP_CONTACTS_UV cfg
                then st\<lparr>sol_chrono := Resize (ip_n st + 3 * ip_m st) (sol_chrono st)\<rparr>
                else st\<lparr>sol_chrono := Resize (ip_n st + ip_m st) (sol_chrono st)\<rparr>)
      in (case KKT_solve_method st of
            STANDARD \<Rightarrow> st\<lparr>BigMat := (\<lambda>i j. 0),
                            rhs_sol := Resize (2 * ip_m st + ip_n st) (rhs_sol st)\<rparr>
          | AUGMENTED \<Rightarrow> st\<lparr>BigMat := (\<lambda>i j. 0),
                            rhs_sol := Resize (ip_n st + ip_m st) (rhs_sol st)\<rparr>
          | NORMAL \<Rightarrow> st))"

text \<open>
  \<^verbatim>\<open>make_positive_definite\<close> negates the stored elements of the rows below \<open>n\<close> whose
  column lies in the block of \<open>-A\<^sup>T\<close>.
\<close>

definition make_positive_definite :: "ChInteriorPoint \<Rightarrow> ChInteriorPoint" where
  "make_positive_definite st =
     (let offset_AT_col = (if KKT_solve_method st = STANDARD then ip_n st + ip_m st else ip_n st)
      in st\<lparr>BigMat := (\<lambda>row_sel col.
              if row_sel < ip_n st \<and> offset_AT_col \<le> col \<and> col < offset_AT_col + ip_m st
              then BigMat st row_sel col * (- 1)
              else BigMat st row_sel col)\<rparr>)"

text \<open>The clamp of the starting point: \<^verbatim>\<open>v(i) = abs(v(i)) < 1 ? 1 : abs(v(i))\<close>.\<close>

definition clamp_abs :: "nat \<Rightarrow> vec \<Rightarrow> vec" where
  "clamp_abs k v =
     fold (\<lambda>row_sel w. w[row_sel := (if \<bar>w ! row_sel\<bar> < 1 then 1 else \<bar>w ! row_sel\<bar>)]) [0..<k] v"

definition starting_point_Nocedal ::
  "engine \<Rightarrow> macros \<Rightarrow> nat \<Rightarrow> nat \<Rightarrow> ChInteriorPoint \<Rightarrow> ChInteriorPoint" where
  "starting_point_Nocedal eng cfg n_old m_old st =
     (let st = (if n_old \<noteq> ip_n st \<or> solver_call st = 0 \<or> \<not> REUSE_OLD_SOLUTIONS cfg
                then st\<lparr>ip_x := FillElem 1 (ip_x st)\<rparr> else st);
          st = (if m_old \<noteq> ip_m st \<or> solver_call st = 0 \<or> \<not> REUSE_OLD_SOLUTIONS cfg
                then st\<lparr>lam := FillElem 1 (lam st)\<rparr> else st);
          st = st\<lparr>ip_y := multiplyA st (ip_x st) (ip_y st)\<rparr>;
          st = st\<lparr>ip_y := vec_sub (ip_y st) (ip_b st)\<rparr>;
          st = fullupdate_residual cfg st;
          st = KKTsolve eng cfg 0 st;
          st = st\<lparr>ip_y := vec_add (ip_y st) (Dy st)\<rparr>;
          st = st\<lparr>lam := vec_add (lam st) (Dlam st)\<rparr>;
          st = st\<lparr>ip_y := clamp_abs (ip_m st) (ip_y st)\<rparr>;
          st = st\<lparr>lam := clamp_abs (ip_m st) (lam st)\<rparr>
      in fullupdate_residual cfg st)"

text \<open>
  \<^verbatim>\<open>initialize\<close>: sizes, matrix, vectors (negated to the solver's convention), the
  direct solve when there is no constraint, the starting point otherwise.
\<close>

definition initialize ::
  "engine \<Rightarrow> macros \<Rightarrow> descriptor \<Rightarrow> ChInteriorPoint \<Rightarrow> ChInteriorPoint" where
  "initialize eng cfg sysd st =
     (let n_old = ip_n st;
          m_old = ip_m st;
          st = st\<lparr>ip_n := CountActiveVariables sysd\<rparr>;
          st = st\<lparr>ip_m := CountActiveConstraints sysd\<rparr>;
          st = reset_dimensions cfg n_old m_old st;
          st = (case KKT_solve_method st of
                  STANDARD \<Rightarrow> make_positive_definite (st\<lparr>BigMat := matrix_form sysd STANDARD\<rparr>)
                | AUGMENTED \<Rightarrow> make_positive_definite (st\<lparr>BigMat := matrix_form sysd AUGMENTED\<rparr>)
                | NORMAL \<Rightarrow> st\<lparr>SmallMat := small_form sysd, BigMat := matrix_form sysd NORMAL\<rparr>);
          st = st\<lparr>ip_c := f_form sysd, ip_b := b_form sysd\<rparr>;
          st = st\<lparr>ip_c := MatrScale (- 1) (ip_c st)\<rparr>;
          st = st\<lparr>ip_b := MatrScale (- 1) (ip_b st)\<rparr>
      in (if ip_m st = 0
          then (let st = st\<lparr>rhs_sol :=
                      fold (\<lambda>row_sel r. r[row_sel := - ip_c st ! row_sel]) [0..<ip_n st] (rhs_sol st)\<rparr>
                in call_engine eng st)
          else (let st = (if ADD_COMPLIANCE cfg \<and> ip_m st > 0
                          then st\<lparr>ip_E := (\<lambda>i j. compliance_form sysd i j * (- 1))\<rparr>
                          else st)
                in starting_point_Nocedal eng cfg n_old m_old st)))"

subsection \<open>Emitting the solution\<close>

definition generate_solution :: "macros \<Rightarrow> ChInteriorPoint \<Rightarrow> ChInteriorPoint" where
  "generate_solution cfg st =
     (let st = st\<lparr>sol_chrono :=
            fold (\<lambda>row_sel s. s[row_sel := ip_x st ! row_sel]) [0..<ip_n st] (sol_chrono st)\<rparr>
      in (if SKIP_CONTACTS_UV cfg
          then st\<lparr>sol_chrono :=
            fold (\<lambda>row_sel s. ((s[ip_n st + row_sel * 3 := - lam st ! row_sel])
                                   [ip_n st + row_sel * 3 + 1 := 0])
                                   [ip_n st + row_sel * 3 + 2 := 0])
                 [0..<ip_m st] (sol_chrono st)\<rparr>
          else st\<lparr>sol_chrono :=
            fold (\<lambda>row_sel s. s[row_sel + ip_n st := - lam st ! row_sel])
                 [0..<ip_m st] (sol_chrono st)\<rparr>))"

subsection \<open>The outer loop\<close>

text \<open>
  The loop of \<^verbatim>\<open>Solve\<close>:
  \<^verbatim>\<open>for (iteration_count = 1; iteration_count < iteration_count_max && !check_exit_conditions(); iteration_count++)\<close>
  with the body \<^verbatim>\<open>iterate(); update_history();\<close>. The exit test runs only when the
  counter is below the cap; the history file is left out.
\<close>

function solve_loop :: "engine \<Rightarrow> macros \<Rightarrow> ChInteriorPoint \<Rightarrow> ChInteriorPoint" where
  "solve_loop eng cfg st =
     (if iteration_count st < iteration_count_max st
      then (let (exit_now, st) = check_exit_conditions st
            in if \<not> exit_now
               then (let st = iterate eng cfg st
                     in solve_loop eng cfg (st\<lparr>iteration_count := iteration_count st + 1\<rparr>))
               else st)
      else st)"
  by pat_completeness auto
termination
proof (relation "measure (\<lambda>(eng, cfg, st). iteration_count_max st - iteration_count st)")
  show "wf (measure (\<lambda>(eng, cfg, st). iteration_count_max st - iteration_count st))"
    by simp
next
  fix eng :: engine and cfg :: macros and st st1 st2 :: ChInteriorPoint
    and chk :: "bool \<times> ChInteriorPoint" and exit_now :: bool
  assume below: "iteration_count st < iteration_count_max st"
    and chk: "chk = check_exit_conditions st"
    and pair: "(exit_now, st1) = chk"
    and "\<not> exit_now"
    and st2: "st2 = iterate eng cfg st1"
  have st1: "iteration_count st1 = iteration_count st \<and>
             iteration_count_max st1 = iteration_count_max st"
    using chk pair by (auto simp: check_exit_conditions_def VerifyKKTconditions_def Let_def)
  have sa: "iteration_count (KKT_STANDARD_assemble sigma s) = iteration_count s \<and>
            iteration_count_max (KKT_STANDARD_assemble sigma s) = iteration_count_max s \<and>
            KKT_solve_method (KKT_STANDARD_assemble sigma s) = KKT_solve_method s"
    for sigma s by (simp add: KKT_STANDARD_assemble_def Let_def)
  have se: "iteration_count (KKT_STANDARD_extract s) = iteration_count s \<and>
            iteration_count_max (KKT_STANDARD_extract s) = iteration_count_max s \<and>
            KKT_solve_method (KKT_STANDARD_extract s) = KKT_solve_method s"
    for s by (simp add: KKT_STANDARD_extract_def Let_def)
  have aa: "iteration_count (KKT_AUGMENTED_assemble cfg sigma s) = iteration_count s \<and>
            iteration_count_max (KKT_AUGMENTED_assemble cfg sigma s) = iteration_count_max s \<and>
            KKT_solve_method (KKT_AUGMENTED_assemble cfg sigma s) = KKT_solve_method s"
    for sigma s by (simp add: KKT_AUGMENTED_assemble_def Let_def)
  have ae: "iteration_count (KKT_AUGMENTED_extract cfg s) = iteration_count s \<and>
            iteration_count_max (KKT_AUGMENTED_extract cfg s) = iteration_count_max s \<and>
            KKT_solve_method (KKT_AUGMENTED_extract cfg s) = KKT_solve_method s"
    for s by (simp add: KKT_AUGMENTED_extract_def Let_def)
  have ce: "iteration_count (call_engine eng s) = iteration_count s \<and>
            iteration_count_max (call_engine eng s) = iteration_count_max s \<and>
            KKT_solve_method (call_engine eng s) = KKT_solve_method s"
    for s by (simp add: call_engine_def)
  have kn: "iteration_count (KKT_NORMAL s) = iteration_count s \<and>
            iteration_count_max (KKT_NORMAL s) = iteration_count_max s \<and>
            KKT_solve_method (KKT_NORMAL s) = KKT_solve_method s"
    for s by (simp add: KKT_NORMAL_def)
  have kkt: "iteration_count (KKTsolve eng cfg sigma s) = iteration_count s \<and>
             iteration_count_max (KKTsolve eng cfg sigma s) = iteration_count_max s"
    for sigma s
    by (cases "KKT_solve_method s") (simp_all add: KKTsolve_def sa se aa ae ce kn)
  have pred: "iteration_count (snd (iterate_prediction eng cfg s)) = iteration_count s \<and>
              iteration_count_max (snd (iterate_prediction eng cfg s)) = iteration_count_max s"
    for s by (simp add: iterate_prediction_def Let_def kkt)
  have corr: "iteration_count (iterate_correction eng cfg mp s) = iteration_count s \<and>
              iteration_count_max (iterate_correction eng cfg mp s) = iteration_count_max s"
    for mp s by (simp add: iterate_correction_def Let_def kkt)
  have it: "iteration_count (iterate eng cfg s) = iteration_count s \<and>
            iteration_count_max (iterate eng cfg s) = iteration_count_max s"
    for s using pred [of s] corr [of "fst (iterate_prediction eng cfg s)" "snd (iterate_prediction eng cfg s)"]
    by (simp add: iterate_def split_beta)
  show "((eng, cfg, st2\<lparr>iteration_count := iteration_count st2 + 1\<rparr>), eng, cfg, st)
          \<in> measure (\<lambda>(eng, cfg, st). iteration_count_max st - iteration_count st)"
    using below st1 it [of st1] st2 by simp
qed

declare solve_loop.simps [simp del]

text \<open>
  \<^verbatim>\<open>Solve\<close>. The result is the vector handed to \<^verbatim>\<open>FromVectorToUnknowns\<close> and the
  state left behind. \<^verbatim>\<open>initialize\<close> sets \<^verbatim>\<open>verbose\<close>, so the call
  \<^verbatim>\<open>VerifyKKTconditions(true)\<close> after the loop always runs.
\<close>

definition Solve ::
  "engine \<Rightarrow> macros \<Rightarrow> descriptor \<Rightarrow> ChInteriorPoint \<Rightarrow> vec \<times> ChInteriorPoint" where
  "Solve eng cfg sysd st =
     (let st = st\<lparr>solver_call := solver_call st + 1\<rparr>;
          st = initialize eng cfg sysd st
      in (if ip_m st = 0
          then (rhs_sol st, st)
          else (let st = SetTolerances (1 / 10 ^ 7) (1 / 10 ^ 8) (1 / 10 ^ 8) st;
                    st = st\<lparr>iteration_count := 1\<rparr>;
                    st = solve_loop eng cfg st;
                    st = VerifyKKTconditions st;
                    st = generate_solution cfg st
                in (sol_chrono st, st))))"

section \<open>The MKL version of the solver\<close>

text \<open>
  \<^verbatim>\<open>chrono_mkl/ChInteriorPoint.cpp\<close>, on the same record. It keeps the right-hand side
  (\<open>rhs_sol\<close>) and the solution (\<open>sol\<close>) apart; the Pardiso call reads the first and
  writes the second.
\<close>

definition mkl_reset_dimensions :: "ChInteriorPoint \<Rightarrow> ChInteriorPoint" where
  "mkl_reset_dimensions st =
     (let st = st\<lparr>ip_x := Resize (ip_n st) (ip_x st),
                   ip_y := Resize (ip_m st) (ip_y st),
                   lam := Resize (ip_m st) (lam st),
                   Dx := Resize (ip_n st) (Dx st),
                   Dy := Resize (ip_m st) (Dy st),
                   Dlam := Resize (ip_m st) (Dlam st),
                   ip_b := Resize (ip_m st) (ip_b st),
                   ip_c := Resize (ip_n st) (ip_c st),
                   rp := Resize (ip_m st) (rp st),
                   rd := Resize (ip_n st) (rd st),
                   rpd := Resize (ip_m st) (rpd st),
                   rpd_corr := Resize (ip_m st) (rpd_corr st),
                   vectn := Resize (ip_n st) (vectn st)\<rparr>
      in (case KKT_solve_method st of
            STANDARD \<Rightarrow> st\<lparr>BigMat := (\<lambda>i j. 0),
                            sol := Resize (2 * ip_m st + ip_n st) (sol st),
                            rhs_sol := Resize (2 * ip_n st + ip_m st) (rhs_sol st)\<rparr>
          | AUGMENTED \<Rightarrow> st\<lparr>BigMat := (\<lambda>i j. 0),
                            sol := Resize (ip_n st + ip_m st) (sol st),
                            rhs_sol := Resize (ip_n st + ip_m st) (rhs_sol st)\<rparr>
          | NORMAL \<Rightarrow> st))"

text \<open>\<^verbatim>\<open>mkl_engine.PardisoCall(13, 0)\<close> on the problem bound by \<^verbatim>\<open>SetProblem\<close>.\<close>

definition mkl_call_engine :: "engine \<Rightarrow> ChInteriorPoint \<Rightarrow> ChInteriorPoint" where
  "mkl_call_engine eng st =
     st\<lparr>sol := eng (BigMat st) (rhs_sol st), engine_calls := engine_calls st + 1\<rparr>"

text \<open>The \<^verbatim>\<open>AUGMENTED\<close> case of the MKL \<^verbatim>\<open>KKTsolve\<close> up to the Pardiso call.\<close>

definition mkl_KKT_AUGMENTED_assemble :: "real \<Rightarrow> ChInteriorPoint \<Rightarrow> ChInteriorPoint" where
  "mkl_KKT_AUGMENTED_assemble perturbation st =
     (let st = st\<lparr>BigMat :=
            fold (\<lambda>diag_sel M.
                    mat_SetElement (ip_n st + diag_sel) (ip_n st + diag_sel)
                      (lam st ! diag_sel * ip_y st ! diag_sel) M)
                 [0..<ip_m st] (BigMat st)\<rparr>;
          st = st\<lparr>rhs_sol :=
            fold (\<lambda>row_sel r. r[row_sel := - rd st ! row_sel]) [0..<ip_n st] (rhs_sol st)\<rparr>
      in st\<lparr>rhs_sol :=
            fold (\<lambda>row_sel r. r[row_sel + ip_n st :=
                      - rp st ! row_sel - ip_y st ! row_sel + perturbation / lam st ! row_sel])
                 [0..<ip_m st] (rhs_sol st)\<rparr>)"

definition mkl_KKT_AUGMENTED_extract :: "ChInteriorPoint \<Rightarrow> ChInteriorPoint" where
  "mkl_KKT_AUGMENTED_extract st =
     (let st = st\<lparr>Dx :=
            fold (\<lambda>row_sel d. d[row_sel := sol st ! row_sel]) [0..<ip_n st] (Dx st)\<rparr>;
          st = st\<lparr>Dlam :=
            fold (\<lambda>row_sel d. d[row_sel := sol st ! (row_sel + ip_n st)]) [0..<ip_m st] (Dlam st)\<rparr>;
          st = st\<lparr>Dy := MatMultiplyClipped (BigMat st) (Dx st)
                         (int (ip_n st)) (int (ip_n st) + int (ip_m st) - 1) 0 (int (ip_n st) - 1)\<rparr>
      in st\<lparr>Dy := vec_add (Dy st) (rp st)\<rparr>)"

definition mkl_KKTsolve :: "engine \<Rightarrow> real \<Rightarrow> ChInteriorPoint \<Rightarrow> ChInteriorPoint" where
  "mkl_KKTsolve eng perturbation st =
     (case KKT_solve_method st of
        STANDARD \<Rightarrow>
          st\<lparr>BigMat :=
            fold (\<lambda>diag_sel M.
                    mat_SetElement (ip_n st + ip_m st + diag_sel) (ip_n st + ip_m st + diag_sel)
                      (ip_y st ! diag_sel)
                      (mat_SetElement (ip_n st + ip_m st + diag_sel) (ip_n st + diag_sel)
                         (lam st ! diag_sel) M))
                 [0..<ip_m st] (BigMat st)\<rparr>
      | AUGMENTED \<Rightarrow>
          mkl_KKT_AUGMENTED_extract (mkl_call_engine eng (mkl_KKT_AUGMENTED_assemble perturbation st))
      | NORMAL \<Rightarrow> st)"

text \<open>The clamp of the MKL starting point: \<^verbatim>\<open>if (abs(v(i)) < 1) v(i) = 1\<close>.\<close>

definition mkl_clamp :: "nat \<Rightarrow> vec \<Rightarrow> vec" where
  "mkl_clamp k v =
     fold (\<lambda>row_sel w. if \<bar>w ! row_sel\<bar> < 1 then w[row_sel := 1] else w) [0..<k] v"

text \<open>
  \<^verbatim>\<open>Initialize\<close> of the MKL version, in three parts. The first reads the sizes
  (only when \<^verbatim>\<open>solver_call\<close> is 0, and \<^verbatim>\<open>solver_call\<close> is never incremented
  there), loads the matrix and the vectors and sets \<^verbatim>\<open>rpd_pred\<close>. The text dump is
  left out.
\<close>

definition mkl_Initialize_load :: "descriptor \<Rightarrow> ChInteriorPoint \<Rightarrow> ChInteriorPoint" where
  "mkl_Initialize_load sysd st =
     (let st = (if solver_call st = 0
                then (let st = st\<lparr>ip_n := CountActiveVariables sysd\<rparr>;
                          st = st\<lparr>ip_m := CountActiveConstraints sysd\<rparr>
                      in mkl_reset_dimensions st)
                else st);
          st = (case KKT_solve_method st of
                  STANDARD \<Rightarrow> st
                | AUGMENTED \<Rightarrow> st\<lparr>BigMat := matrix_form sysd AUGMENTED\<rparr>
                | NORMAL \<Rightarrow> st\<lparr>ip_c := f_form sysd, ip_b := b_form sysd\<rparr>);
          st = st\<lparr>ip_c := f_form sysd, ip_b := b_form sysd\<rparr>;
          st = st\<lparr>ip_c := MatrScale (- 1) (ip_c st)\<rparr>;
          st = st\<lparr>ip_b := MatrScale (- 1) (ip_b st)\<rparr>;
          st = st\<lparr>rpd := ip_y st\<rparr>
      in st\<lparr>rpd := MatrScale_vec (lam st) (rpd st)\<rparr>)"

text \<open>
  The last part, the residuals. \<^verbatim>\<open>PasteClippedMatrix\<close> copies the rows
  \<open>n .. n + m - 1\<close> of \<^verbatim>\<open>rhs\<close> over \<^verbatim>\<open>vectm\<close>.
\<close>

definition mkl_Initialize_residuals :: "ChInteriorPoint \<Rightarrow> ChInteriorPoint" where
  "mkl_Initialize_residuals st =
     (case KKT_solve_method st of
        STANDARD \<Rightarrow> st
      | AUGMENTED \<Rightarrow>
          (let st = st\<lparr>rp := MatMultiplyClipped (BigMat st) (ip_x st)
                     (int (ip_n st)) (int (ip_n st) + int (ip_m st) - 1) 0 (int (ip_n st) - 1)\<rparr>;
               st = st\<lparr>vectm := ip_y st\<rparr>;
               st = st\<lparr>vectm := MatrScale (- 1) (vectm st)\<rparr>;
               st = st\<lparr>vectm :=
                 fold (\<lambda>row_sel v. v[row_sel := rhs_sol st ! (ip_n st + row_sel)])
                      [0..<ip_m st] (vectm st)\<rparr>;
               st = st\<lparr>rp := vec_add (rp st) (vectm st)\<rparr>;
               st = st\<lparr>rd := MatMultiplyClipped (BigMat st) (ip_x st)
                     0 (int (ip_n st) - 1) 0 (int (ip_n st) - 1)\<rparr>;
               st = st\<lparr>rd := vec_add (rd st) (ip_c st)\<rparr>;
               st = st\<lparr>vectn := MatMultiplyClipped (BigMat st) (lam st)
                     0 (int (ip_n st) - 1) (int (ip_n st)) (int (ip_n st) + int (ip_m st) - 1)\<rparr>
           in st\<lparr>rd := vec_add (rd st) (vectn st)\<rparr>)
      | NORMAL \<Rightarrow> st)"

text \<open>
  The whole function: loading, the affine solve, the update of \<open>y\<close> and \<open>lam\<close>, the two
  clamping loops, the residuals.
\<close>

definition mkl_Initialize :: "engine \<Rightarrow> descriptor \<Rightarrow> ChInteriorPoint \<Rightarrow> ChInteriorPoint" where
  "mkl_Initialize eng sysd st =
     (let st = mkl_Initialize_load sysd st;
          st = mkl_KKTsolve eng 0 st;
          st = st\<lparr>ip_y := vec_add (ip_y st) (Dy st)\<rparr>;
          st = st\<lparr>lam := vec_add (lam st) (Dlam st)\<rparr>;
          st = st\<lparr>ip_y := mkl_clamp (ip_m st) (ip_y st)\<rparr>;
          st = st\<lparr>lam := mkl_clamp (ip_m st) (lam st)\<rparr>
      in mkl_Initialize_residuals st)"

text \<open>
  \<^verbatim>\<open>InteriorPointIterate\<close> of the MKL version: the block guarded by
  \<^verbatim>\<open>ONLY_PREDICT\<close> ends with \<^verbatim>\<open>return\<close>. Its \<^verbatim>\<open>mu\<close> is a local, computed with
  the divisor \<open>n\<close>.
\<close>

definition mkl_InteriorPointIterate :: "engine \<Rightarrow> ChInteriorPoint \<Rightarrow> ChInteriorPoint" where
  "mkl_InteriorPointIterate eng st =
     (let st = st\<lparr>rpd := ip_y st\<rparr>;
          st = st\<lparr>rpd := MatrScale_vec (lam st) (rpd st)\<rparr>;
          st = mkl_KKTsolve eng 0 st;
          alfa_pred_prim = find_Newton_step_length (ip_y st) (Dy st) 1;
          alfa_pred_dual = find_Newton_step_length (lam st) (Dlam st) 1;
          alfa_pred = min alfa_pred_prim alfa_pred_dual;
          alfa_pred_prim = (if EQUAL_STEP_LENGTH st then alfa_pred else alfa_pred_prim);
          alfa_pred_dual = (if EQUAL_STEP_LENGTH st then alfa_pred else alfa_pred_dual);
          y_pred = vec_add (MatrScale alfa_pred_prim (Dy st)) (ip_y st);
          lam_pred = vec_add (MatrScale alfa_pred_dual (Dlam st)) (lam st)
      in (if ONLY_PREDICT st
          then (let x_pred = vec_add (MatrScale alfa_pred_prim (Dx st)) (ip_x st);
                    st = st\<lparr>ip_x := x_pred\<rparr>;
                    st = st\<lparr>ip_y := y_pred\<rparr>;
                    st = st\<lparr>lam := lam_pred\<rparr>;
                    st = st\<lparr>rp := MatrScale (1 - alfa_pred_prim) (rp st)\<rparr>;
                    st = st\<lparr>vectn := MatMultiplyClipped (BigMat st) (Dx st)
                          0 (int (ip_n st) - 1) 0 (int (ip_n st) - 1)\<rparr>;
                    st = st\<lparr>vectn := MatrScale (alfa_pred_prim - alfa_pred_dual) (vectn st)\<rparr>;
                    st = st\<lparr>rd := MatrScale (1 - alfa_pred_dual) (rd st)\<rparr>
                in st\<lparr>rd := vec_add (rd st) (vectn st)\<rparr>)
          else (let mu_pred = MatrDot y_pred lam_pred / real (ip_n st);
                    mu_loc = MatrDot (ip_y st) (lam st) / real (ip_n st);
                    sigma = (mu_pred / mu_loc) * (mu_pred / mu_loc) * (mu_pred / mu_loc);
                    st = st\<lparr>rpd_corr := Dlam st\<rparr>;
                    st = st\<lparr>rpd_corr := MatrScale_vec (Dy st) (rpd_corr st)\<rparr>;
                    st = st\<lparr>rpd_corr := MatrAdd_scalar (- sigma * mu_loc) (rpd_corr st)\<rparr>;
                    st = st\<lparr>rpd_corr := vec_add (rpd_corr st) (rpd st)\<rparr>;
                    st = mkl_KKTsolve eng (sigma * mu_loc) st;
                    eta = (if ADAPTIVE_ETA st
                           then exp (- mu_loc * real (ip_n st)) * (1 / 10) + 9 / 10 else 95 / 100);
                    alfa_corr_prim = find_Newton_step_length (ip_y st) (Dy st) eta;
                    alfa_corr_dual = find_Newton_step_length (lam st) (Dlam st) eta;
                    alfa_corr = min alfa_corr_prim alfa_corr_dual;
                    alfa_corr_prim = (if EQUAL_STEP_LENGTH st then alfa_corr else alfa_corr_prim);
                    alfa_corr_dual = (if EQUAL_STEP_LENGTH st then alfa_corr else alfa_corr_dual);
                    st = st\<lparr>ip_x := vec_add (MatrScale alfa_corr_prim (Dx st)) (ip_x st)\<rparr>;
                    st = st\<lparr>ip_y := vec_add (MatrScale alfa_corr_prim (Dy st)) (ip_y st)\<rparr>;
                    st = st\<lparr>lam := vec_add (MatrScale alfa_corr_dual (Dlam st)) (lam st)\<rparr>;
                    st = st\<lparr>rp := MatrScale (1 - alfa_corr_prim) (rp st)\<rparr>;
                    st = st\<lparr>vectn := MatMultiplyClipped (BigMat st) (Dx st)
                          0 (int (ip_n st) - 1) 0 (int (ip_n st) - 1)\<rparr>;
                    st = st\<lparr>vectn := MatrScale (alfa_corr_prim - alfa_corr_dual) (vectn st)\<rparr>;
                    st = st\<lparr>rd := MatrScale (1 - alfa_corr_dual) (rd st)\<rparr>
                in st\<lparr>rd := vec_add (rd st) (vectn st)\<rparr>)))"

section \<open>A concrete engine and concrete states\<close>

text \<open>
  Cramer's rule for a system of two equations: an exact direct solver for the instances
  with one variable and one constraint that the evaluations below use.
\<close>

definition solve_2x2 :: engine where
  "solve_2x2 M r =
     (let det = M 0 0 * M 1 1 - M 0 1 * M 1 0
      in [(r ! 0 * M 1 1 - M 0 1 * r ! 1) / det, (M 0 0 * r ! 1 - M 1 0 * r ! 0) / det])"

section \<open>Predicates and projections used in the statements\<close>

text \<open>Componentwise positivity of a vector.\<close>

definition vec_pos :: "vec \<Rightarrow> bool" where
  "vec_pos v = list_all (\<lambda>a. 0 < a) v"

text \<open>
  The sizes \<^verbatim>\<open>reset_dimensions\<close> gives to the vectors of length \<open>m\<close> that one iteration
  reads.
\<close>

definition dimensions_ok :: "ChInteriorPoint \<Rightarrow> bool" where
  "dimensions_ok st =
     (length (ip_y st) = ip_m st \<and> length (lam st) = ip_m st \<and>
      length (Dy st) = ip_m st \<and> length (Dlam st) = ip_m st \<and> length (rp st) = ip_m st)"

text \<open>
  Two projections of the state: the members no KKT solve writes, and the members that
  stay fixed from the end of \<^verbatim>\<open>initialize\<close> to the end of the loop.
\<close>

definition KKT_kept where
  "KKT_kept st =
     ((ip_m st, ip_n st, solver_call st, iteration_count st, iteration_count_max st),
      (EQUAL_STEP_LENGTH st, ADAPTIVE_ETA st, ONLY_PREDICT st, KKT_solve_method st),
      (IPtolerances st, IPres st, mu_tolerance st, mu st),
      (ip_x st, ip_y st, lam st, ip_b st, ip_c st, rp st, rd st),
      (sol_chrono st, sol st, rpd_corr st, vectn st))"

definition solver_frame where
  "solver_frame st =
     ((ip_m st, ip_n st, solver_call st, iteration_count_max st),
      (EQUAL_STEP_LENGTH st, ADAPTIVE_ETA st, ONLY_PREDICT st, KKT_solve_method st),
      (IPtolerances st, mu_tolerance st, sol_chrono st))"

text \<open>
  Cramer's rule for a system of three equations, for the instances with one variable and
  two constraints.
\<close>

definition det3 ::
  "real \<Rightarrow> real \<Rightarrow> real \<Rightarrow> real \<Rightarrow> real \<Rightarrow> real \<Rightarrow> real \<Rightarrow> real \<Rightarrow> real \<Rightarrow> real" where
  "det3 a b c d e f g h i = a * (e * i - f * h) - b * (d * i - f * g) + c * (d * h - e * g)"

definition solve_3x3 :: engine where
  "solve_3x3 M r =
     (let det = det3 (M 0 0) (M 0 1) (M 0 2) (M 1 0) (M 1 1) (M 1 2) (M 2 0) (M 2 1) (M 2 2)
      in [det3 (r ! 0) (M 0 1) (M 0 2) (r ! 1) (M 1 1) (M 1 2) (r ! 2) (M 2 1) (M 2 2) / det,
          det3 (M 0 0) (r ! 0) (M 0 2) (M 1 0) (r ! 1) (M 1 2) (M 2 0) (r ! 2) (M 2 2) / det,
          det3 (M 0 0) (M 0 1) (r ! 0) (M 1 0) (M 1 1) (r ! 1) (M 2 0) (M 2 1) (r ! 2) / det])"

text \<open>
  A state with one variable and two constraints in the \<^verbatim>\<open>AUGMENTED\<close> layout:
  \<open>G = (2)\<close>, \<open>A = (1; 1)\<close>, \<open>b = (-1, -2)\<close>, \<open>c = (2)\<close>, at \<open>x = 0\<close>, \<open>y = (1, 2)\<close>,
  \<open>lam = (1, 1)\<close>, where both residuals vanish and \<open>mu = 3/2\<close>.
\<close>

definition example_state :: ChInteriorPoint where
  "example_state =
     \<lparr>ip_m = 2, ip_n = 1, solver_call = 1, iteration_count = 1, iteration_count_max = 50,
      EQUAL_STEP_LENGTH = False, ADAPTIVE_ETA = False, ONLY_PREDICT = False,
      IPtolerances = \<lparr>rp_nnorm = 1 / 10 ^ 7, rd_nnorm = 1 / 10 ^ 8\<rparr>,
      IPres = \<lparr>rp_nnorm = 0, rd_nnorm = 0\<rparr>, mu_tolerance = 1 / 10 ^ 8,
      KKT_solve_method = AUGMENTED,
      ip_x = [0], ip_y = [1, 2], lam = [1, 1], Dx = [0], Dy = [0, 0], Dlam = [0, 0],
      ip_b = [- 1, - 2], ip_c = [2], rp = [0, 0], rd = [0], rpd = [0, 0], rpd_corr = [0, 0],
      mu = 3 / 2, rhs_sol = [0, 0, 0], sol = [0, 0, 0],
      BigMat = (\<lambda>i j. if i = 0 \<and> j = 0 then 2
                      else if i = 0 \<and> (j = 1 \<or> j = 2) then - 1
                      else if j = 0 \<and> (i = 1 \<or> i = 2) then 1 else 0),
      SmallMat = (\<lambda>i j. 0), ip_E = (\<lambda>i j. 0),
      vectn = [0], vectm = [0, 0], sol_chrono = [0, 0, 0, 0, 0, 0, 0], engine_calls = 0\<rparr>"

text \<open>A descriptor with one variable and one constraint: \<open>G = (1)\<close>, \<open>A = (1)\<close>.\<close>

definition example_descriptor :: descriptor where
  "example_descriptor =
     \<lparr>CountActiveVariables = 1, CountActiveConstraints = 1,
      matrix_form = (\<lambda>k i j. if i = 0 \<and> j = 0 then 1
                             else if i = 0 \<and> j = 1 then - 1
                             else if i = 1 \<and> j = 0 then 1 else 0),
      small_form = (\<lambda>i j. 0), compliance_form = (\<lambda>i j. 0),
      f_form = [0], b_form = [0]\<rparr>"

text \<open>
  The size \<^verbatim>\<open>reset_dimensions\<close> gives the emitted vector, and the layout of the emitted
  vector: the first \<open>n\<close> entries are \<open>x\<close>; with \<^verbatim>\<open>SKIP_CONTACTS_UV\<close> the \<open>i\<close>-th
  multiplier occupies three entries \<open>-l\<^sub>i, 0, 0\<close>, otherwise one entry \<open>-l\<^sub>i\<close>.
\<close>

definition emitted_size :: "macros \<Rightarrow> nat \<Rightarrow> nat \<Rightarrow> nat" where
  "emitted_size cfg n m = (if SKIP_CONTACTS_UV cfg then n + 3 * m else n + m)"

definition emits :: "macros \<Rightarrow> nat \<Rightarrow> nat \<Rightarrow> vec \<Rightarrow> vec \<Rightarrow> vec \<Rightarrow> bool" where
  "emits cfg n m x l out =
     (length out = emitted_size cfg n m \<and>
      (\<forall>i<n. out ! i = x ! i) \<and>
      (if SKIP_CONTACTS_UV cfg
       then \<forall>i<m. out ! (n + 3 * i) = - l ! i \<and> out ! (n + 3 * i + 1) = 0 \<and>
                   out ! (n + 3 * i + 2) = 0
       else \<forall>i<m. out ! (n + i) = - l ! i))"

text \<open>
  A state in which the averaged complementarity measure \<open>mu = y\<^sup>T lam / m\<close> is below the
  complementarity tolerance while the product \<open>y\<^sup>T lam\<close> itself is not:
  \<open>y\<^sup>T lam = 1.5e-8\<close>, \<open>m = 2\<close>, \<open>mu = 0.75e-8\<close>, tolerance \<open>1e-8\<close>; both residuals vanish.
\<close>

definition gap_state :: ChInteriorPoint where
  "gap_state =
     example_state\<lparr>ip_y := [1, 1], lam := [3 / 400000000, 3 / 400000000],
                   ip_b := [- 1, - 1], ip_c := [3 / 200000000], mu := 3 / 400000000\<rparr>"

text \<open>
  The object the constructor of the MUMPS version leaves: sizes 0, \<^verbatim>\<open>solver_call\<close> 0,
  iteration cap 50, the three flags, tolerances \<open>1e-12\<close>, the \<^verbatim>\<open>AUGMENTED\<close> layout,
  \<^verbatim>\<open>mu\<close> 0. The vectors hold nothing yet; \<^verbatim>\<open>reset_dimensions\<close> gives them their sizes.
\<close>

definition fresh_state :: ChInteriorPoint where
  "fresh_state =
     \<lparr>ip_m = 0, ip_n = 0, solver_call = 0, iteration_count = 0, iteration_count_max = 50,
      EQUAL_STEP_LENGTH = False, ADAPTIVE_ETA = True, ONLY_PREDICT = False,
      IPtolerances = \<lparr>rp_nnorm = 1 / 10 ^ 12, rd_nnorm = 1 / 10 ^ 12\<rparr>,
      IPres = \<lparr>rp_nnorm = 0, rd_nnorm = 0\<rparr>, mu_tolerance = 1 / 10 ^ 12,
      KKT_solve_method = AUGMENTED,
      ip_x = [], ip_y = [], lam = [], Dx = [], Dy = [], Dlam = [],
      ip_b = [], ip_c = [], rp = [], rd = [], rpd = [], rpd_corr = [],
      mu = 0, rhs_sol = [], sol = [],
      BigMat = (\<lambda>i j. 0), SmallMat = (\<lambda>i j. 0), ip_E = (\<lambda>i j. 0),
      vectn = [], vectm = [], sol_chrono = [], engine_calls = 0\<rparr>"

text \<open>
  The object the constructor of the MKL version leaves when \<^verbatim>\<open>AUGMENTED\<close> is its
  argument: the same sizes and flags, iteration cap 10. That constructor does not set
  the tolerances, which play no part below.
\<close>

definition mkl_fresh_state :: ChInteriorPoint where
  "mkl_fresh_state = fresh_state\<lparr>iteration_count_max := 10\<rparr>"

text \<open>
  A descriptor with one variable and one constraint, in the form
  \<^verbatim>\<open>ConvertToMatrixForm\<close> gives: \<open>M = (1)\<close>, \<open>Cq = (1)\<close>, \<open>E = 0\<close>, \<open>f = (-3)\<close>, \<open>b = (1)\<close>.
\<close>

definition small_descriptor :: descriptor where
  "small_descriptor =
     \<lparr>CountActiveVariables = 1, CountActiveConstraints = 1,
      matrix_form = (\<lambda>k i j. if i = 0 \<and> j = 0 then 1
                             else if i = 0 \<and> j = 1 then 1
                             else if i = 1 \<and> j = 0 then 1 else 0),
      small_form = (\<lambda>i j. 0), compliance_form = (\<lambda>i j. 0),
      f_form = [- 3], b_form = [1]\<rparr>"

text \<open>
  The augmented system in the words of the specification: the entries \<open>(n + i, n + i)\<close>,
  \<open>i < m\<close>, of the matrix are \<open>y\<^sub>i / lam\<^sub>i\<close>, plus \<open>E\<^sub>i\<^sub>i\<close> with compliance, the others are
  those of \<^verbatim>\<open>BigMat\<close>; the right-hand side is \<open>[-rd; -rp - y + sigma mu / lam]\<close>.
\<close>

definition spec_augmented_matrix :: "macros \<Rightarrow> ChInteriorPoint \<Rightarrow> mat" where
  "spec_augmented_matrix cfg st =
     (\<lambda>i j. if i = j \<and> ip_n st \<le> i \<and> i < ip_n st + ip_m st
            then ip_y st ! (i - ip_n st) / lam st ! (i - ip_n st)
                 + (if ADD_COMPLIANCE cfg then ip_E st (i - ip_n st) (i - ip_n st) else 0)
            else BigMat st i j)"

definition spec_augmented_rhs :: "real \<Rightarrow> ChInteriorPoint \<Rightarrow> vec" where
  "spec_augmented_rhs sigma st =
     map (\<lambda>i. - rd st ! i) [0..<ip_n st] @
     map (\<lambda>i. - rp st ! i - ip_y st ! i + sigma * mu st / lam st ! i) [0..<ip_m st]"

text \<open>
  The state on which \<^verbatim>\<open>Solve\<close> calls \<^verbatim>\<open>generate_solution\<close> when there is a
  constraint: what the loop leaves, after \<^verbatim>\<open>VerifyKKTconditions\<close>.
\<close>

definition state_before_emission ::
  "engine \<Rightarrow> macros \<Rightarrow> descriptor \<Rightarrow> ChInteriorPoint \<Rightarrow> ChInteriorPoint" where
  "state_before_emission eng cfg sysd st =
     VerifyKKTconditions
       (solve_loop eng cfg
          ((SetTolerances (1 / 10 ^ 7) (1 / 10 ^ 8) (1 / 10 ^ 8)
              (initialize eng cfg sysd (st\<lparr>solver_call := solver_call st + 1\<rparr>)))
           \<lparr>iteration_count := 1\<rparr>))"

text \<open>The state \<^verbatim>\<open>example_state\<close> with the flag \<^verbatim>\<open>ONLY_PREDICT\<close> set.\<close>

definition only_predict_state :: ChInteriorPoint where
  "only_predict_state = example_state\<lparr>ONLY_PREDICT := True\<rparr>"

section \<open>Properties of the step length\<close>

lemma fold_step_le_start:
  "fold (step_length_row vect Dvect eta) rows a \<le> a"
proof (induction rows arbitrary: a)
  case Nil
  show ?case by simp
next
  case (Cons r rows)
  have "fold (step_length_row vect Dvect eta) rows (step_length_row vect Dvect eta r a)
          \<le> step_length_row vect Dvect eta r a"
    by (rule Cons.IH)
  also have "step_length_row vect Dvect eta r a \<le> a"
    by (simp add: step_length_row_def Let_def)
  finally show ?case by simp
qed

lemma fold_step_le_proposal:
  assumes "i \<in> set rows" and "Dvect ! i < 0"
  shows "fold (step_length_row vect Dvect eta) rows a \<le> - eta * vect ! i / Dvect ! i"
  using assms
proof (induction rows arbitrary: a)
  case Nil
  then show ?case by simp
next
  case (Cons r rows)
  show ?case
  proof (cases "i = r")
    case True
    have "fold (step_length_row vect Dvect eta) rows (step_length_row vect Dvect eta r a)
            \<le> step_length_row vect Dvect eta r a"
      by (rule fold_step_le_start)
    also have "step_length_row vect Dvect eta r a \<le> - eta * vect ! i / Dvect ! i"
      using True Cons.prems(2) by (simp add: step_length_row_def Let_def)
    finally show ?thesis by simp
  next
    case False
    with Cons.prems have "i \<in> set rows" by simp
    from Cons.IH [OF this Cons.prems(2)] show ?thesis by simp
  qed
qed

lemma fold_step_cases:
  "fold (step_length_row vect Dvect eta) rows a = a \<or>
   (\<exists>i\<in>set rows. Dvect ! i < 0 \<and>
      fold (step_length_row vect Dvect eta) rows a = - eta * vect ! i / Dvect ! i)"
proof (induction rows arbitrary: a)
  case Nil
  show ?case by simp
next
  case (Cons r rows)
  from Cons.IH [of "step_length_row vect Dvect eta r a"]
  show ?case
    by (auto simp: step_length_row_def Let_def split: if_splits)
qed

text \<open>
  Claim C3, as amended. For a componentwise positive \<open>v\<close>, a direction \<open>\<Delta>v\<close> of the same
  length and \<open>eta\<close> in \<open>(0, 1]\<close>, \<^verbatim>\<open>find_Newton_step_length\<close> returns the largest
  \<open>\<alpha>\<close> in \<open>(0, 1]\<close> such that \<open>v + (\<alpha> / eta) \<cdot> \<Delta>v \<ge> 0\<close> componentwise: the factor
  \<open>eta\<close> scales the admissible step before the cap at 1 is applied, and the result is
  strictly positive.
\<close>

theorem step_length_largest:
  assumes len: "length Dvect = length vect"
    and eta: "0 < eta" "eta \<le> 1"
    and pos: "list_all (\<lambda>a. 0 < a) vect"
  shows "largest_unit_step vect (map (\<lambda>d. d / eta) Dvect)
           (find_Newton_step_length vect Dvect eta)"
proof -
  let ?f = "fold (step_length_row vect Dvect eta) [0..<length vect] 1"
  have vpos: "0 < vect ! i" if "i < length vect" for i
    using pos that by (simp add: list_all_length)
  have prop_pos: "0 < - eta * vect ! i / Dvect ! i" if "i < length vect" "Dvect ! i < 0" for i
    using vpos [OF that(1)] that(2) eta(1)
    by (simp add: divide_neg_neg zero_less_mult_iff field_simps)
  have fpos: "0 < ?f"
    using fold_step_cases [of vect Dvect eta "[0..<length vect]" 1] prop_pos by auto
  have fle: "?f \<le> 1" by (rule fold_step_le_start)
  have r: "find_Newton_step_length vect Dvect eta = ?f"
    using fpos by (simp add: find_Newton_step_length_def Let_def)
  have feas: "feasible_step vect (map (\<lambda>d. d / eta) Dvect) ?f"
    unfolding feasible_step_def
  proof (intro allI impI)
    fix i assume i: "i < length vect"
    show "0 \<le> vect ! i + ?f * map (\<lambda>d. d / eta) Dvect ! i"
    proof (cases "Dvect ! i < 0")
      case True
      have "?f \<le> - eta * vect ! i / Dvect ! i"
        by (rule fold_step_le_proposal) (use i True in auto)
      then have "?f * (- Dvect ! i) \<le> eta * vect ! i"
        using True by (simp add: field_simps)
      then have "?f * (- Dvect ! i) / eta \<le> vect ! i"
        using eta(1) by (simp add: field_simps)
      then show ?thesis using i len by (simp add: field_simps)
    next
      case False
      then have "0 \<le> ?f * (Dvect ! i / eta)"
        using fpos eta(1) by simp
      then show ?thesis using vpos [OF i] i len by simp
    qed
  qed
  have best: "\<beta> \<le> ?f"
    if b: "0 < \<beta>" "\<beta> \<le> 1" "feasible_step vect (map (\<lambda>d. d / eta) Dvect) \<beta>" for \<beta>
  proof -
    from fold_step_cases [of vect Dvect eta "[0..<length vect]" 1]
    consider "?f = 1" | i where "i < length vect" "Dvect ! i < 0" "?f = - eta * vect ! i / Dvect ! i"
      by auto
    then show ?thesis
    proof cases
      case 1
      then show ?thesis using b(2) by simp
    next
      case (2 i)
      from b(3) 2(1) len have "0 \<le> vect ! i + \<beta> * (Dvect ! i / eta)"
        by (simp add: feasible_step_def)
      then have "\<beta> * (- Dvect ! i) \<le> eta * vect ! i"
        using eta(1) by (simp add: field_simps)
      then have "\<beta> \<le> - eta * vect ! i / Dvect ! i"
        using 2(2) by (simp add: field_simps)
      then show ?thesis using 2(3) by simp
    qed
  qed
  show ?thesis
    unfolding largest_unit_step_def r
    using fpos fle feas best by blast
qed

theorem step_length_largest_witness:
  "length [-1::real] = length [2::real] \<and> (0::real) < 9 / 10 \<and> (9 / 10 :: real) \<le> 1 \<and>
   list_all (\<lambda>a. 0 < a) [2::real] \<and>
   largest_unit_step [2] (map (\<lambda>d. d / (9 / 10)) [-1])
     (find_Newton_step_length [2] [-1] (9 / 10))"
  using step_length_largest [of "[-1]" "[2]" "9 / 10"] by simp

text \<open>
  Claim C3 as stated fails: for \<open>v = [2]\<close>, \<open>\<Delta>v = [-1]\<close> the largest feasible step of the
  unit interval is 1, so the claim promises \<open>eta \<cdot> 1 = 9/10\<close>; the function returns
  \<open>min 1 (9/10 \<cdot> 2) = 1\<close>.
\<close>

theorem step_length_cap_counterexample:
  "largest_unit_step [2] [-1] 1 \<and>
   find_Newton_step_length [2] [-1] (9 / 10) \<noteq> (9 / 10) * 1"
  by (simp add: largest_unit_step_def feasible_step_def find_Newton_step_length_def
      step_length_row_def Let_def)

section \<open>Properties of the sparsity-pattern learner and of the CSR matrix\<close>

lemma SetElement_lists:
  assumes "SetElement insrow inscol insval overwrite l = Some l'"
  shows "0 \<le> insrow \<and> insrow < int (length (row_lists l)) \<and>
         length (row_lists l') = length (row_lists l) \<and>
         (\<forall>r<length (row_lists l). set (row_lists l' ! r) =
            set (row_lists l ! r) \<union> (if int r = insrow then {inscol} else {}))"
  using assms
  by (auto simp: SetElement_def nth_list_update split: if_splits)

lemma SetElements_lists:
  assumes "SetElements calls l = Some l'"
  shows "length (row_lists l') = length (row_lists l) \<and>
         (\<forall>(r, c) \<in> inserted_pairs calls. 0 \<le> r \<and> r < int (length (row_lists l))) \<and>
         (\<forall>r<length (row_lists l). set (row_lists l' ! r) =
            set (row_lists l ! r) \<union> {c. (int r, c) \<in> inserted_pairs calls})"
  using assms
proof (induction calls arbitrary: l)
  case Nil
  then show ?case by (simp add: inserted_pairs_def)
next
  case (Cons call calls)
  obtain insrow inscol insval overwrite where call: "call = (insrow, inscol, insval, overwrite)"
    by (cases call) auto
  from Cons.prems call obtain l1 where
    l1: "SetElement insrow inscol insval overwrite l = Some l1" and
    rest: "SetElements calls l1 = Some l'"
    by (auto split: option.splits)
  note s = SetElement_lists [OF l1]
  note ih = Cons.IH [OF rest]
  have pairs: "inserted_pairs (call # calls) = insert (insrow, inscol) (inserted_pairs calls)"
    by (simp add: inserted_pairs_def call)
  show ?case
    unfolding pairs using s ih by auto
qed

lemma distinct_remdups_adj_sorted:
  "sorted xs \<Longrightarrow> distinct (remdups_adj (xs :: int list))"
  by (induction xs rule: remdups_adj.induct) auto

lemma remdups_adj_sort_eq:
  "remdups_adj (sort xs) = sorted_list_of_set (set (xs :: int list))"
proof -
  have "sorted (remdups_adj (sort xs))" by (simp add: sorted_remdups_adj)
  moreover have "distinct (remdups_adj (sort xs))"
    by (simp add: distinct_remdups_adj_sorted)
  moreover have "set (remdups_adj (sort xs)) = set xs" by simp
  ultimately show ?thesis
    by (metis sorted_list_of_set.idem_if_sorted_distinct)
qed

lemma nnz_loop_sum:
  assumes "nnz_temp + int (sum_list (map length ls)) \<le> INT_MAX"
  shows "nnz_loop ls nnz_temp = Some (nnz_temp + int (sum_list (map length ls)))"
  using assms
  by (induction ls arbitrary: nnz_temp) (auto simp: algebra_simps)

lemma sum_list_nth: "sum_list (map f xs) = (\<Sum>r = 0..<length xs. f (xs ! r))"
  by (auto simp: sum_list_sum_nth intro!: sum.cong)

lemma card_pairs_rows:
  fixes P :: "(int \<times> int) set"
  assumes fin: "finite P" and rng: "\<forall>(r, c) \<in> P. 0 \<le> r \<and> r < int L"
  shows "card P = (\<Sum>r = 0..<L. card {c. (int r, c) \<in> P})"
proof -
  have P: "P = (\<Union>r\<in>{0..<L}. (\<lambda>c. (int r, c)) ` {c. (int r, c) \<in> P})"
  proof (rule set_eqI)
    fix p show "p \<in> P \<longleftrightarrow> p \<in> (\<Union>r\<in>{0..<L}. (\<lambda>c. (int r, c)) ` {c. (int r, c) \<in> P})"
    proof (cases p)
      case (Pair r c)
      show ?thesis
      proof
        assume "p \<in> P"
        with rng Pair have "0 \<le> r" "r < int L" by auto
        then have "nat r \<in> {0..<L}" "int (nat r) = r" by auto
        with \<open>p \<in> P\<close> Pair show "p \<in> (\<Union>r\<in>{0..<L}. (\<lambda>c. (int r, c)) ` {c. (int r, c) \<in> P})"
          by force
      next
        assume "p \<in> (\<Union>r\<in>{0..<L}. (\<lambda>c. (int r, c)) ` {c. (int r, c) \<in> P})"
        then show "p \<in> P" by auto
      qed
    qed
  qed
  have finr: "finite {c. (int r, c) \<in> P}" for r
  proof -
    have "{c. (int r, c) \<in> P} \<subseteq> snd ` P" by force
    then show ?thesis using fin by (meson finite_imageI finite_subset)
  qed
  have "card P = card (\<Union>r\<in>{0..<L}. (\<lambda>c. (int r, c)) ` {c. (int r, c) \<in> P})"
    using P by simp
  also have "\<dots> = (\<Sum>r\<in>{0..<L}. card ((\<lambda>c. (int r, c)) ` {c. (int r, c) \<in> P}))"
    by (rule card_UN_disjoint) (use finr in auto)
  also have "\<dots> = (\<Sum>r = 0..<L. card {c. (int r, c) \<in> P})"
    by (rule sum.cong) (auto intro!: card_image inj_onI)
  finally show ?thesis .
qed

text \<open>
  Claim C9. After any sequence of \<^verbatim>\<open>SetElement\<close> calls on a fresh learner (every call
  inside the leading dimension), \<^verbatim>\<open>GetSparsityPattern\<close> returns for each row the
  inserted column indices sorted strictly ascending without duplicates, and
  \<^verbatim>\<open>GetNNZ\<close> then returns the sum of the list lengths, which is the number of
  distinct (row, column) pairs inserted (as long as that number is an \<^verbatim>\<open>int\<close>).
\<close>

theorem sparsity_pattern_sorted_unique:
  assumes run: "SetElements calls (new_learner nrows ncols rm) = Some l"
    and pat: "GetSparsityPattern l = (pattern, l')"
    and small: "int (card (inserted_pairs calls)) \<le> INT_MAX"
  shows "length pattern = nat (if rm then nrows else ncols) \<and>
         (\<forall>r<length pattern.
            pattern ! r = sorted_list_of_set {c. (int r, c) \<in> inserted_pairs calls} \<and>
            sorted_wrt (<) (pattern ! r) \<and>
            set (pattern ! r) = {c. (int r, c) \<in> inserted_pairs calls}) \<and>
         (\<exists>l''. learner_GetNNZ l' = Some (int (sum_list (map length pattern)), l'')) \<and>
         sum_list (map length pattern) = card (inserted_pairs calls)"
proof -
  let ?L = "nat (if rm then nrows else ncols)"
  let ?P = "inserted_pairs calls"
  have len0: "length (row_lists (new_learner nrows ncols rm)) = ?L"
    by (simp add: new_learner_def)
  note s = SetElements_lists [OF run, unfolded len0]
  have lenl: "length (row_lists l) = ?L" using s by simp
  have rng: "\<forall>(r, c) \<in> ?P. 0 \<le> r \<and> r < int ?L" using s by simp
  have sets: "set (row_lists l ! r) = {c. (int r, c) \<in> ?P}" if "r < ?L" for r
    using s that by (simp add: new_learner_def)
  have pattern: "pattern = map (\<lambda>list_iter. remdups_adj (sort list_iter)) (row_lists l)"
    and l': "row_lists l' = pattern"
    using pat by (auto simp: GetSparsityPattern_def Let_def)
  have lenp: "length pattern = ?L" using pattern lenl by simp
  have fin: "finite ?P" by (simp add: inserted_pairs_def)
  have finr: "finite {c. (int r, c) \<in> ?P}" for r
  proof -
    have "{c. (int r, c) \<in> ?P} \<subseteq> snd ` ?P" by force
    then show ?thesis using fin by (meson finite_imageI finite_subset)
  qed
  have row: "pattern ! r = sorted_list_of_set {c. (int r, c) \<in> ?P}" if "r < ?L" for r
    using that lenl sets [OF that] by (simp add: pattern remdups_adj_sort_eq)
  have strict: "sorted_wrt (<) (pattern ! r)" if "r < ?L" for r
    using row [OF that] by (simp add: strict_sorted_iff)
  have setr: "set (pattern ! r) = {c. (int r, c) \<in> ?P}" if "r < ?L" for r
    using row [OF that] finr by simp
  have lenr: "length (pattern ! r) = card {c. (int r, c) \<in> ?P}" if "r < ?L" for r
    using row [OF that] by simp
  have total: "sum_list (map length pattern) = card ?P"
  proof -
    have "sum_list (map length pattern) = (\<Sum>r = 0..<?L. length (pattern ! r))"
      using lenp by (simp add: sum_list_nth)
    also have "\<dots> = (\<Sum>r = 0..<?L. card {c. (int r, c) \<in> ?P})"
      by (rule sum.cong) (use lenr in auto)
    also have "\<dots> = card ?P"
      by (rule card_pairs_rows [symmetric, OF fin rng])
    finally show ?thesis .
  qed
  have "nnz_loop (row_lists l') 0 = Some (0 + int (sum_list (map length (row_lists l'))))"
    by (rule nnz_loop_sum) (use small total l' in simp)
  then have nnz: "\<exists>l''. learner_GetNNZ l' = Some (int (sum_list (map length pattern)), l'')"
    by (simp add: learner_GetNNZ_def l')
  show ?thesis
    using lenp row strict setr nnz total by simp
qed



theorem sparsity_pattern_sorted_unique_witness:
  "SetElements [(0, 2, 1, True), (0, 0, 1, True), (0, 2, 5, False), (1, 1, 1, True)]
       (new_learner 2 3 True)
     = Some \<lparr>m_num_rows = 2, m_num_cols = 3, m_nnz = 0,
             row_lists = [[2, 0, 2], [1]], row_major_format = True\<rparr> \<and>
   GetSparsityPattern \<lparr>m_num_rows = 2, m_num_cols = 3, m_nnz = 0,
             row_lists = [[2, 0, 2], [1]], row_major_format = True\<rparr>
     = ([[0, 2], [1]],
        \<lparr>m_num_rows = 2, m_num_cols = 3, m_nnz = 0,
             row_lists = [[0, 2], [1]], row_major_format = True\<rparr>) \<and>
   int (card (inserted_pairs
       [(0, 2, 1, True), (0, 0, 1, True), (0, 2, 5, False), (1, 1, 1, True)])) \<le> INT_MAX \<and>
   learner_GetNNZ \<lparr>m_num_rows = 2, m_num_cols = 3, m_nnz = 0,
             row_lists = [[0, 2], [1]], row_major_format = True\<rparr>
     = Some (3, \<lparr>m_num_rows = 2, m_num_cols = 3, m_nnz = 3,
             row_lists = [[0, 2], [1]], row_major_format = True\<rparr>) \<and>
   sum_list (map length [[0, 2], [1 :: int]])
     = card (inserted_pairs
       [(0, 2, 1, True), (0, 0, 1, True), (0, 2, 5, False), (1, 1, 1, True)])"
proof -
  let ?calls = "[(0, 2, 1, True), (0, 0, 1, True), (0, 2, 5, False), (1, 1, 1, True)]
                  :: (int \<times> int \<times> real \<times> bool) list"
  have run: "SetElements ?calls (new_learner 2 3 True)
     = Some \<lparr>m_num_rows = 2, m_num_cols = 3, m_nnz = 0,
             row_lists = [[2, 0, 2], [1]], row_major_format = True\<rparr>"
    by (simp add: SetElement_def new_learner_def numeral_2_eq_2 numeral_3_eq_3)
  have pat: "GetSparsityPattern \<lparr>m_num_rows = 2, m_num_cols = 3, m_nnz = 0,
             row_lists = [[2, 0, 2], [1]], row_major_format = True\<rparr>
     = ([[0, 2], [1]],
        \<lparr>m_num_rows = 2, m_num_cols = 3, m_nnz = 0,
             row_lists = [[0, 2], [1]], row_major_format = True\<rparr>)"
    by (simp add: GetSparsityPattern_def Let_def)
  have small: "int (card (inserted_pairs ?calls)) \<le> INT_MAX"
    by (simp add: inserted_pairs_def INT_MAX_def card_insert_if)
  have nnz: "learner_GetNNZ \<lparr>m_num_rows = 2, m_num_cols = 3, m_nnz = 0,
             row_lists = [[0, 2], [1]], row_major_format = True\<rparr>
     = Some (3, \<lparr>m_num_rows = 2, m_num_cols = 3, m_nnz = 3,
             row_lists = [[0, 2], [1]], row_major_format = True\<rparr>)"
    by (simp add: learner_GetNNZ_def INT_MAX_def)
  from sparsity_pattern_sorted_unique [OF run pat small]
  have "sum_list (map length [[0, 2], [1 :: int]]) = card (inserted_pairs ?calls)"
    by blast
  with run pat small nnz show ?thesis by blast
qed

text \<open>
  Claim C2. \<^verbatim>\<open>ChCSR3Matrix::GetNNZ\<close> returns \<^verbatim>\<open>leadIndex[L]\<close> whatever the flags
  say: on the matrix with one element and one reserved hole it answers 2, although one
  slot only is initialized.
\<close>

theorem csr_GetNNZ_counts_holes:
  "GetNNZ holed_matrix = Some 2 \<and> initialized_count holed_matrix = 1"
  by (simp add: GetNNZ_def GetTrailingIndexLength_def csr_leading_dimension_def
      initialized_count_def holed_matrix_def)


section \<open>Fields that the phases of the solver leave alone\<close>

text \<open>
  Congruence rules that keep the simplifier out of the new value of an update until a
  selector asks for it.
\<close>

lemma update_lazy:
  "r = r' \<Longrightarrow> ip_m_update f0 r = ip_m_update f0 r'"
  "r = r' \<Longrightarrow> ip_n_update f1 r = ip_n_update f1 r'"
  "r = r' \<Longrightarrow> solver_call_update f2 r = solver_call_update f2 r'"
  "r = r' \<Longrightarrow> iteration_count_update f3 r = iteration_count_update f3 r'"
  "r = r' \<Longrightarrow> iteration_count_max_update f4 r = iteration_count_max_update f4 r'"
  "r = r' \<Longrightarrow> EQUAL_STEP_LENGTH_update f5 r = EQUAL_STEP_LENGTH_update f5 r'"
  "r = r' \<Longrightarrow> ADAPTIVE_ETA_update f6 r = ADAPTIVE_ETA_update f6 r'"
  "r = r' \<Longrightarrow> ONLY_PREDICT_update f7 r = ONLY_PREDICT_update f7 r'"
  "r = r' \<Longrightarrow> IPtolerances_update f8 r = IPtolerances_update f8 r'"
  "r = r' \<Longrightarrow> IPres_update f9 r = IPres_update f9 r'"
  "r = r' \<Longrightarrow> mu_tolerance_update f10 r = mu_tolerance_update f10 r'"
  "r = r' \<Longrightarrow> KKT_solve_method_update f11 r = KKT_solve_method_update f11 r'"
  "r = r' \<Longrightarrow> ip_x_update f12 r = ip_x_update f12 r'"
  "r = r' \<Longrightarrow> ip_y_update f13 r = ip_y_update f13 r'"
  "r = r' \<Longrightarrow> lam_update f14 r = lam_update f14 r'"
  "r = r' \<Longrightarrow> Dx_update f15 r = Dx_update f15 r'"
  "r = r' \<Longrightarrow> Dy_update f16 r = Dy_update f16 r'"
  "r = r' \<Longrightarrow> Dlam_update f17 r = Dlam_update f17 r'"
  "r = r' \<Longrightarrow> ip_b_update f18 r = ip_b_update f18 r'"
  "r = r' \<Longrightarrow> ip_c_update f19 r = ip_c_update f19 r'"
  "r = r' \<Longrightarrow> rp_update f20 r = rp_update f20 r'"
  "r = r' \<Longrightarrow> rd_update f21 r = rd_update f21 r'"
  "r = r' \<Longrightarrow> rpd_update f22 r = rpd_update f22 r'"
  "r = r' \<Longrightarrow> rpd_corr_update f23 r = rpd_corr_update f23 r'"
  "r = r' \<Longrightarrow> mu_update f24 r = mu_update f24 r'"
  "r = r' \<Longrightarrow> rhs_sol_update f25 r = rhs_sol_update f25 r'"
  "r = r' \<Longrightarrow> sol_update f26 r = sol_update f26 r'"
  "r = r' \<Longrightarrow> BigMat_update f27 r = BigMat_update f27 r'"
  "r = r' \<Longrightarrow> SmallMat_update f28 r = SmallMat_update f28 r'"
  "r = r' \<Longrightarrow> ip_E_update f29 r = ip_E_update f29 r'"
  "r = r' \<Longrightarrow> vectn_update f30 r = vectn_update f30 r'"
  "r = r' \<Longrightarrow> vectm_update f31 r = vectm_update f31 r'"
  "r = r' \<Longrightarrow> sol_chrono_update f32 r = sol_chrono_update f32 r'"
  "r = r' \<Longrightarrow> engine_calls_update f33 r = engine_calls_update f33 r'"
  by simp_all

lemma KKT_kept_pieces:
  "KKT_kept (call_engine eng st) = KKT_kept st"
  "KKT_kept (KKT_STANDARD_assemble sigma st) = KKT_kept st"
  "KKT_kept (KKT_STANDARD_extract st) = KKT_kept st"
  "KKT_kept (KKT_AUGMENTED_assemble cfg sigma st) = KKT_kept st"
  "KKT_kept (KKT_AUGMENTED_extract cfg st) = KKT_kept st"
  "KKT_kept (KKT_NORMAL st) = KKT_kept st"
  by (simp_all add: KKT_kept_def call_engine_def KKT_STANDARD_assemble_def
      KKT_STANDARD_extract_def KKT_AUGMENTED_assemble_def KKT_AUGMENTED_extract_def
      KKT_NORMAL_def Let_def cong: update_lazy)

lemma KKT_kept_KKTsolve: "KKT_kept (KKTsolve eng cfg sigma st) = KKT_kept st"
  by (cases "KKT_solve_method st") (simp_all add: KKTsolve_def KKT_kept_pieces)

lemma KKTsolve_fields:
  "ip_m (KKTsolve eng cfg sigma st) = ip_m st"
  "ip_n (KKTsolve eng cfg sigma st) = ip_n st"
  "solver_call (KKTsolve eng cfg sigma st) = solver_call st"
  "iteration_count (KKTsolve eng cfg sigma st) = iteration_count st"
  "iteration_count_max (KKTsolve eng cfg sigma st) = iteration_count_max st"
  "EQUAL_STEP_LENGTH (KKTsolve eng cfg sigma st) = EQUAL_STEP_LENGTH st"
  "ADAPTIVE_ETA (KKTsolve eng cfg sigma st) = ADAPTIVE_ETA st"
  "ONLY_PREDICT (KKTsolve eng cfg sigma st) = ONLY_PREDICT st"
  "KKT_solve_method (KKTsolve eng cfg sigma st) = KKT_solve_method st"
  "IPtolerances (KKTsolve eng cfg sigma st) = IPtolerances st"
  "IPres (KKTsolve eng cfg sigma st) = IPres st"
  "mu_tolerance (KKTsolve eng cfg sigma st) = mu_tolerance st"
  "mu (KKTsolve eng cfg sigma st) = mu st"
  "ip_x (KKTsolve eng cfg sigma st) = ip_x st"
  "ip_y (KKTsolve eng cfg sigma st) = ip_y st"
  "lam (KKTsolve eng cfg sigma st) = lam st"
  "ip_b (KKTsolve eng cfg sigma st) = ip_b st"
  "ip_c (KKTsolve eng cfg sigma st) = ip_c st"
  "rp (KKTsolve eng cfg sigma st) = rp st"
  "rd (KKTsolve eng cfg sigma st) = rd st"
  "sol_chrono (KKTsolve eng cfg sigma st) = sol_chrono st"
  using KKT_kept_KKTsolve [of eng cfg sigma st] by (simp_all add: KKT_kept_def)

subsection \<open>Lengths\<close>

lemma length_fold_update [simp]:
  "length (fold (\<lambda>i r. r[g i := f i r]) rows r0) = length r0"
  by (induction rows arbitrary: r0) simp_all

lemma length_fold_update2 [simp]:
  "length (fold (\<lambda>i r. (r[g i := f i])[g' i := f' i]) rows r0) = length r0"
  by (induction rows arbitrary: r0) simp_all

lemma length_MatMultiplyClipped [simp]:
  "length (MatMultiplyClipped M v start_row end_row start_col end_col)
     = nat (end_row - start_row + 1)"
  by (simp add: MatMultiplyClipped_def)

lemma length_vec_ops [simp]:
  "length (vec_add v w) = min (length v) (length w)"
  "length (vec_sub v w) = min (length v) (length w)"
  "length (MatrScale a v) = length v"
  "length (MatrAdd_scalar a v) = length v"
  "length (MatrScale_vec w v) = min (length v) (length w)"
  "length (FillElem a v) = length v"
  by (simp_all add: vec_add_def vec_sub_def MatrScale_def MatrAdd_scalar_def MatrScale_vec_def
      FillElem_def)

lemma length_multiplyA:
  "KKT_solve_method st \<noteq> NORMAL \<Longrightarrow> length (multiplyA st v w) = ip_m st"
  by (cases "KKT_solve_method st") (simp_all add: multiplyA_def)

lemma KKTsolve_lengths:
  assumes "length (Dy st) = ip_m st" "length (Dlam st) = ip_m st" "length (rp st) = ip_m st"
  shows "length (Dy (KKTsolve eng cfg sigma st)) = ip_m st \<and>
         length (Dlam (KKTsolve eng cfg sigma st)) = ip_m st"
proof (cases "KKT_solve_method st")
  case STANDARD
  then show ?thesis using assms
    by (simp add: KKTsolve_def KKT_STANDARD_extract_def Let_def call_engine_def
        KKT_STANDARD_assemble_def)
next
  case AUGMENTED
  have a: "KKT_solve_method (call_engine eng (KKT_AUGMENTED_assemble cfg sigma st)) = AUGMENTED"
    "ip_m (call_engine eng (KKT_AUGMENTED_assemble cfg sigma st)) = ip_m st"
    "rp (call_engine eng (KKT_AUGMENTED_assemble cfg sigma st)) = rp st"
    "Dlam (call_engine eng (KKT_AUGMENTED_assemble cfg sigma st)) = Dlam st"
    using AUGMENTED by (simp_all add: call_engine_def KKT_AUGMENTED_assemble_def Let_def)
  show ?thesis using AUGMENTED assms a
    by (simp add: KKTsolve_def KKT_AUGMENTED_extract_def Let_def multiplyA_def E_MatMultiply_def)
next
  case NORMAL
  then show ?thesis using assms by (simp add: KKTsolve_def KKT_NORMAL_def)
qed

lemma solver_frame_pieces:
  "solver_frame (call_engine eng st) = solver_frame st"
  "solver_frame (KKT_STANDARD_assemble sigma st) = solver_frame st"
  "solver_frame (KKT_STANDARD_extract st) = solver_frame st"
  "solver_frame (KKT_AUGMENTED_assemble cfg sigma st) = solver_frame st"
  "solver_frame (KKT_AUGMENTED_extract cfg st) = solver_frame st"
  "solver_frame (KKT_NORMAL st) = solver_frame st"
  "solver_frame (fullupdate_residual cfg st) = solver_frame st"
  "solver_frame (VerifyKKTconditions st) = solver_frame st"
  "solver_frame (make_positive_definite st) = solver_frame st"
  by (simp_all add: solver_frame_def call_engine_def KKT_STANDARD_assemble_def
      KKT_STANDARD_extract_def KKT_AUGMENTED_assemble_def KKT_AUGMENTED_extract_def
      KKT_NORMAL_def fullupdate_residual_def VerifyKKTconditions_def make_positive_definite_def
      Let_def cong: update_lazy)

lemma solver_frame_KKTsolve: "solver_frame (KKTsolve eng cfg sigma st) = solver_frame st"
proof -
  have "KKT_solve_method (call_engine eng (KKT_STANDARD_assemble sigma st)) = KKT_solve_method st"
    "KKT_solve_method (call_engine eng (KKT_AUGMENTED_assemble cfg sigma st)) = KKT_solve_method st"
    using solver_frame_pieces(1) [of eng "KKT_STANDARD_assemble sigma st"]
      solver_frame_pieces(2) [of sigma st]
      solver_frame_pieces(1) [of eng "KKT_AUGMENTED_assemble cfg sigma st"]
      solver_frame_pieces(4) [of cfg sigma st]
    by (simp_all add: solver_frame_def)
  then show ?thesis
    by (cases "KKT_solve_method st") (simp_all add: KKTsolve_def solver_frame_pieces)
qed

lemma solver_frame_iterate: "solver_frame (iterate eng cfg st) = solver_frame st"
proof -
  have k: "solver_frame (KKTsolve eng cfg sigma s) = solver_frame s" for sigma s
    by (rule solver_frame_KKTsolve)
  have p: "solver_frame (snd (iterate_prediction eng cfg s)) = solver_frame s" for s
    using k [of 0 s]
    by (simp add: solver_frame_def iterate_prediction_def Let_def cong: update_lazy)
  have c: "solver_frame (iterate_correction eng cfg mp s) = solver_frame s" for mp s
    using k [of "(mp / mu s) * (mp / mu s) * (mp / mu s)" s]
    by (simp add: solver_frame_def iterate_correction_def Let_def cong: update_lazy)
  show ?thesis by (simp add: iterate_def split_beta p c)
qed

lemma solver_frame_solve_loop:
  "solver_frame (solve_loop eng cfg st) = solver_frame st"
proof (induction eng cfg st rule: solve_loop.induct)
  case (1 eng cfg st)
  show ?case
  proof (cases "iteration_count st < iteration_count_max st")
    case False
    then show ?thesis by (subst solve_loop.simps) simp
  next
    case True
    obtain exit_now st1 where chk: "check_exit_conditions st = (exit_now, st1)"
      by (cases "check_exit_conditions st") auto
    have st1: "st1 = VerifyKKTconditions st"
      using chk by (simp add: check_exit_conditions_def Let_def)
    have f1: "solver_frame st1 = solver_frame st"
      by (simp add: st1 solver_frame_pieces)
    show ?thesis
    proof (cases exit_now)
      case True
      with \<open>iteration_count st < iteration_count_max st\<close> chk f1 show ?thesis
        by (subst solve_loop.simps) simp
    next
      case False
      let ?s2 = "iterate eng cfg st1"
      let ?s3 = "?s2\<lparr>iteration_count := iteration_count ?s2 + 1\<rparr>"
      have ih: "solver_frame (solve_loop eng cfg ?s3) = solver_frame ?s3"
        using "1.IH" [OF True chk [symmetric] refl _ refl] False by simp
      have f3: "solver_frame ?s3 = solver_frame st"
        using solver_frame_iterate [of eng cfg st1] f1 by (simp add: solver_frame_def)
      have "solve_loop eng cfg st = solve_loop eng cfg ?s3"
        using True chk False by (subst solve_loop.simps) (simp add: Let_def)
      then show ?thesis using ih f3 by simp
    qed
  qed
qed


section \<open>Positivity of the iterates\<close>

lemma step_length_bounds:
  assumes pos: "list_all (\<lambda>a. 0 < a) vect" and eta: "0 < eta"
  shows "0 \<le> find_Newton_step_length vect Dvect eta"
    and "i < length vect \<Longrightarrow> Dvect ! i < 0 \<Longrightarrow>
           find_Newton_step_length vect Dvect eta \<le> - eta * vect ! i / Dvect ! i"
proof -
  let ?f = "fold (step_length_row vect Dvect eta) [0..<length vect] 1"
  show "0 \<le> find_Newton_step_length vect Dvect eta"
    by (simp add: find_Newton_step_length_def Let_def)
  assume i: "i < length vect" and neg: "Dvect ! i < 0"
  have vi: "0 < vect ! i" using pos i by (simp add: list_all_length)
  have proposal: "0 < - eta * vect ! i / Dvect ! i"
    using vi neg eta by (simp add: field_simps zero_less_mult_iff)
  have "?f \<le> - eta * vect ! i / Dvect ! i"
    by (rule fold_step_le_proposal) (use i neg in auto)
  then show "find_Newton_step_length vect Dvect eta \<le> - eta * vect ! i / Dvect ! i"
    using proposal by (simp add: find_Newton_step_length_def Let_def)
qed

lemma damped_step_keeps_positive:
  assumes pos: "list_all (\<lambda>a. 0 < a) vect" and eta: "0 < eta" "eta < 1"
    and a: "0 \<le> a" "a \<le> find_Newton_step_length vect Dvect eta"
  shows "list_all (\<lambda>a. 0 < a) (vec_add (MatrScale a Dvect) vect)"
proof -
  have "0 < Dvect ! i * a + vect ! i" if i: "i < length vect" for i
  proof (cases "Dvect ! i < 0")
    case True
    have vi: "0 < vect ! i" using pos i by (simp add: list_all_length)
    have "a \<le> - eta * vect ! i / Dvect ! i"
      using a(2) step_length_bounds(2) [OF pos eta(1) i True] by simp
    then have "a * (- Dvect ! i) \<le> eta * vect ! i"
      using True by (simp add: field_simps)
    moreover have "eta * vect ! i < vect ! i" using vi eta(2) by simp
    ultimately show ?thesis by (simp add: algebra_simps)
  next
    case False
    have vi: "0 < vect ! i" using pos i by (simp add: list_all_length)
    have "0 \<le> Dvect ! i * a" using False a(1) by simp
    then show ?thesis using vi by simp
  qed
  then show ?thesis
    by (simp add: list_all_length vec_add_def MatrScale_def)
qed

lemma corrector_eta_pos: "0 < corrector_eta st"
proof -
  have "0 < exp (- mu st * real (ip_m st)) * (1 / 10) + 9 / (10::real)"
    by (simp add: add_pos_pos)
  then show ?thesis by (simp add: corrector_eta_def)
qed

lemma iterate_prediction_frame:
  assumes "\<not> ONLY_PREDICT st"
  shows "snd (iterate_prediction eng cfg st) = KKTsolve eng cfg 0 st"
  using assms by (simp add: iterate_prediction_def Let_def KKTsolve_fields)

lemma iterate_correction_y_lam:
  "ip_y (iterate_correction eng cfg mu_pred st) =
     (let st1 = KKTsolve eng cfg ((mu_pred / mu st) * (mu_pred / mu st) * (mu_pred / mu st)) st;
          ap = find_Newton_step_length (ip_y st) (Dy st1) (corrector_eta st);
          ad = find_Newton_step_length (lam st) (Dlam st1) (corrector_eta st)
      in vec_add (MatrScale (if EQUAL_STEP_LENGTH st then min ap ad else ap) (Dy st1)) (ip_y st))"
  "lam (iterate_correction eng cfg mu_pred st) =
     (let st1 = KKTsolve eng cfg ((mu_pred / mu st) * (mu_pred / mu st) * (mu_pred / mu st)) st;
          ap = find_Newton_step_length (ip_y st) (Dy st1) (corrector_eta st);
          ad = find_Newton_step_length (lam st) (Dlam st1) (corrector_eta st)
      in vec_add (MatrScale (if EQUAL_STEP_LENGTH st then min ap ad else ad) (Dlam st1)) (lam st))"
  "ip_m (iterate_correction eng cfg mu_pred st) = ip_m st"
  by (simp_all add: iterate_correction_def Let_def KKTsolve_fields corrector_eta_def)


text \<open>
  Claim C4. Positivity is kept by one execution of \<^verbatim>\<open>iterate\<close>: from a state whose
  vectors have the sizes \<^verbatim>\<open>reset_dimensions\<close> gives them and in which every component of
  \<open>y\<close> and of \<open>lam\<close> is positive, a full iteration (prediction and correction, the
  correction damped by a factor \<open>eta < 1\<close>) ends in a state in which every component
  of \<open>y\<close> and of \<open>lam\<close> is positive again, whatever the linear engine returns.
\<close>

theorem iterate_keeps_positive:
  assumes dims: "dimensions_ok st"
    and y: "vec_pos (ip_y st)" and l: "vec_pos (lam st)"
    and full: "\<not> ONLY_PREDICT st"
    and eta: "corrector_eta st < 1"
  shows "vec_pos (ip_y (iterate eng cfg st)) \<and> vec_pos (lam (iterate eng cfg st)) \<and>
         length (ip_y (iterate eng cfg st)) = ip_m st \<and>
         length (lam (iterate eng cfg st)) = ip_m st"
proof -
  define st1 where "st1 = KKTsolve eng cfg 0 st"
  define mu_pred where "mu_pred = fst (iterate_prediction eng cfg st)"
  define sigma where "sigma = (mu_pred / mu st1) * (mu_pred / mu st1) * (mu_pred / mu st1)"
  define st2 where "st2 = KKTsolve eng cfg sigma st1"
  define ap where "ap = find_Newton_step_length (ip_y st) (Dy st2) (corrector_eta st)"
  define ad where "ad = find_Newton_step_length (lam st) (Dlam st2) (corrector_eta st)"
  have it: "iterate eng cfg st = iterate_correction eng cfg mu_pred st1"
    using iterate_prediction_frame [OF full, of eng cfg]
    by (simp add: iterate_def split_beta mu_pred_def st1_def)
  have same: "ip_y st1 = ip_y st" "lam st1 = lam st" "ip_m st1 = ip_m st"
    "EQUAL_STEP_LENGTH st1 = EQUAL_STEP_LENGTH st" "corrector_eta st1 = corrector_eta st"
    by (simp_all add: st1_def KKTsolve_fields corrector_eta_def)
  have len1: "length (Dy st1) = ip_m st1 \<and> length (Dlam st1) = ip_m st1"
    unfolding st1_def using dims KKTsolve_lengths [of st eng cfg 0]
    by (simp add: dimensions_ok_def KKTsolve_fields)
  have rp1: "length (rp st1) = ip_m st1"
    using dims by (simp add: st1_def KKTsolve_fields dimensions_ok_def)
  have len2: "length (Dy st2) = ip_m st \<and> length (Dlam st2) = ip_m st"
    unfolding st2_def using len1 rp1 KKTsolve_lengths [of st1 eng cfg sigma] same by simp
  have ynew: "ip_y (iterate eng cfg st) =
      vec_add (MatrScale (if EQUAL_STEP_LENGTH st then min ap ad else ap) (Dy st2)) (ip_y st)"
    and lnew: "lam (iterate eng cfg st) =
      vec_add (MatrScale (if EQUAL_STEP_LENGTH st then min ap ad else ad) (Dlam st2)) (lam st)"
    by (simp_all add: it iterate_correction_y_lam Let_def same sigma_def st2_def ap_def ad_def)
  have e0: "0 < corrector_eta st" by (rule corrector_eta_pos)
  have ap0: "0 \<le> ap" unfolding ap_def
    by (rule step_length_bounds(1) [OF y [unfolded vec_pos_def] e0])
  have ad0: "0 \<le> ad" unfolding ad_def
    by (rule step_length_bounds(1) [OF l [unfolded vec_pos_def] e0])
  have ypos: "vec_pos (ip_y (iterate eng cfg st))"
    unfolding ynew vec_pos_def
    by (rule damped_step_keeps_positive [OF y [unfolded vec_pos_def] e0 eta])
       (use ap0 ad0 in \<open>auto simp: ap_def\<close>)
  have lpos: "vec_pos (lam (iterate eng cfg st))"
    unfolding lnew vec_pos_def
    by (rule damped_step_keeps_positive [OF l [unfolded vec_pos_def] e0 eta])
       (use ap0 ad0 in \<open>auto simp: ad_def\<close>)
  have leny: "length (ip_y (iterate eng cfg st)) = ip_m st"
    using len2 dims by (simp add: ynew dimensions_ok_def)
  have lenl: "length (lam (iterate eng cfg st)) = ip_m st"
    using len2 dims by (simp add: lnew dimensions_ok_def)
  show ?thesis using ypos lpos leny lenl by simp
qed

theorem iterate_keeps_positive_witness:
  "dimensions_ok example_state \<and> vec_pos (ip_y example_state) \<and> vec_pos (lam example_state) \<and>
   \<not> ONLY_PREDICT example_state \<and> corrector_eta example_state < 1 \<and>
   vec_pos (ip_y (iterate solve_3x3 source_macros example_state)) \<and>
   vec_pos (lam (iterate solve_3x3 source_macros example_state)) \<and>
   length (ip_y (iterate solve_3x3 source_macros example_state)) = ip_m example_state \<and>
   length (lam (iterate solve_3x3 source_macros example_state)) = ip_m example_state"
proof -
  have h: "dimensions_ok example_state" "vec_pos (ip_y example_state)"
    "vec_pos (lam example_state)" "\<not> ONLY_PREDICT example_state"
    "corrector_eta example_state < 1"
    by (simp_all add: example_state_def dimensions_ok_def vec_pos_def corrector_eta_def)
  from iterate_keeps_positive [OF h, of solve_3x3 source_macros] h
  show ?thesis by simp
qed

section \<open>Tolerances\<close>

lemma SetTolerances_reads:
  "ip_m (SetTolerances a b c st) = ip_m st"
  "ip_n (SetTolerances a b c st) = ip_n st"
  "solver_call (SetTolerances a b c st) = solver_call st"
  "iteration_count (SetTolerances a b c st) = iteration_count st"
  "iteration_count_max (SetTolerances a b c st) = iteration_count_max st"
  "EQUAL_STEP_LENGTH (SetTolerances a b c st) = EQUAL_STEP_LENGTH st"
  "ADAPTIVE_ETA (SetTolerances a b c st) = ADAPTIVE_ETA st"
  "ONLY_PREDICT (SetTolerances a b c st) = ONLY_PREDICT st"
  "IPres (SetTolerances a b c st) = IPres st"
  "KKT_solve_method (SetTolerances a b c st) = KKT_solve_method st"
  "ip_x (SetTolerances a b c st) = ip_x st"
  "ip_y (SetTolerances a b c st) = ip_y st"
  "lam (SetTolerances a b c st) = lam st"
  "Dx (SetTolerances a b c st) = Dx st"
  "Dy (SetTolerances a b c st) = Dy st"
  "Dlam (SetTolerances a b c st) = Dlam st"
  "ip_b (SetTolerances a b c st) = ip_b st"
  "ip_c (SetTolerances a b c st) = ip_c st"
  "rp (SetTolerances a b c st) = rp st"
  "rd (SetTolerances a b c st) = rd st"
  "rpd (SetTolerances a b c st) = rpd st"
  "rpd_corr (SetTolerances a b c st) = rpd_corr st"
  "mu (SetTolerances a b c st) = mu st"
  "rhs_sol (SetTolerances a b c st) = rhs_sol st"
  "sol (SetTolerances a b c st) = sol st"
  "BigMat (SetTolerances a b c st) = BigMat st"
  "SmallMat (SetTolerances a b c st) = SmallMat st"
  "ip_E (SetTolerances a b c st) = ip_E st"
  "vectn (SetTolerances a b c st) = vectn st"
  "vectm (SetTolerances a b c st) = vectm st"
  "sol_chrono (SetTolerances a b c st) = sol_chrono st"
  "engine_calls (SetTolerances a b c st) = engine_calls st"
  by (simp_all add: SetTolerances_def)

lemma SetTolerances_updates:
  "(SetTolerances a b c st)\<lparr>ip_m := v0\<rparr> = SetTolerances a b c (st\<lparr>ip_m := v0\<rparr>)"
  "(SetTolerances a b c st)\<lparr>ip_n := v1\<rparr> = SetTolerances a b c (st\<lparr>ip_n := v1\<rparr>)"
  "(SetTolerances a b c st)\<lparr>solver_call := v2\<rparr> = SetTolerances a b c (st\<lparr>solver_call := v2\<rparr>)"
  "(SetTolerances a b c st)\<lparr>iteration_count := v3\<rparr> = SetTolerances a b c (st\<lparr>iteration_count := v3\<rparr>)"
  "(SetTolerances a b c st)\<lparr>iteration_count_max := v4\<rparr> = SetTolerances a b c (st\<lparr>iteration_count_max := v4\<rparr>)"
  "(SetTolerances a b c st)\<lparr>EQUAL_STEP_LENGTH := v5\<rparr> = SetTolerances a b c (st\<lparr>EQUAL_STEP_LENGTH := v5\<rparr>)"
  "(SetTolerances a b c st)\<lparr>ADAPTIVE_ETA := v6\<rparr> = SetTolerances a b c (st\<lparr>ADAPTIVE_ETA := v6\<rparr>)"
  "(SetTolerances a b c st)\<lparr>ONLY_PREDICT := v7\<rparr> = SetTolerances a b c (st\<lparr>ONLY_PREDICT := v7\<rparr>)"
  "(SetTolerances a b c st)\<lparr>IPres := v8\<rparr> = SetTolerances a b c (st\<lparr>IPres := v8\<rparr>)"
  "(SetTolerances a b c st)\<lparr>KKT_solve_method := v9\<rparr> = SetTolerances a b c (st\<lparr>KKT_solve_method := v9\<rparr>)"
  "(SetTolerances a b c st)\<lparr>ip_x := v10\<rparr> = SetTolerances a b c (st\<lparr>ip_x := v10\<rparr>)"
  "(SetTolerances a b c st)\<lparr>ip_y := v11\<rparr> = SetTolerances a b c (st\<lparr>ip_y := v11\<rparr>)"
  "(SetTolerances a b c st)\<lparr>lam := v12\<rparr> = SetTolerances a b c (st\<lparr>lam := v12\<rparr>)"
  "(SetTolerances a b c st)\<lparr>Dx := v13\<rparr> = SetTolerances a b c (st\<lparr>Dx := v13\<rparr>)"
  "(SetTolerances a b c st)\<lparr>Dy := v14\<rparr> = SetTolerances a b c (st\<lparr>Dy := v14\<rparr>)"
  "(SetTolerances a b c st)\<lparr>Dlam := v15\<rparr> = SetTolerances a b c (st\<lparr>Dlam := v15\<rparr>)"
  "(SetTolerances a b c st)\<lparr>ip_b := v16\<rparr> = SetTolerances a b c (st\<lparr>ip_b := v16\<rparr>)"
  "(SetTolerances a b c st)\<lparr>ip_c := v17\<rparr> = SetTolerances a b c (st\<lparr>ip_c := v17\<rparr>)"
  "(SetTolerances a b c st)\<lparr>rp := v18\<rparr> = SetTolerances a b c (st\<lparr>rp := v18\<rparr>)"
  "(SetTolerances a b c st)\<lparr>rd := v19\<rparr> = SetTolerances a b c (st\<lparr>rd := v19\<rparr>)"
  "(SetTolerances a b c st)\<lparr>rpd := v20\<rparr> = SetTolerances a b c (st\<lparr>rpd := v20\<rparr>)"
  "(SetTolerances a b c st)\<lparr>rpd_corr := v21\<rparr> = SetTolerances a b c (st\<lparr>rpd_corr := v21\<rparr>)"
  "(SetTolerances a b c st)\<lparr>mu := v22\<rparr> = SetTolerances a b c (st\<lparr>mu := v22\<rparr>)"
  "(SetTolerances a b c st)\<lparr>rhs_sol := v23\<rparr> = SetTolerances a b c (st\<lparr>rhs_sol := v23\<rparr>)"
  "(SetTolerances a b c st)\<lparr>sol := v24\<rparr> = SetTolerances a b c (st\<lparr>sol := v24\<rparr>)"
  "(SetTolerances a b c st)\<lparr>BigMat := v25\<rparr> = SetTolerances a b c (st\<lparr>BigMat := v25\<rparr>)"
  "(SetTolerances a b c st)\<lparr>SmallMat := v26\<rparr> = SetTolerances a b c (st\<lparr>SmallMat := v26\<rparr>)"
  "(SetTolerances a b c st)\<lparr>ip_E := v27\<rparr> = SetTolerances a b c (st\<lparr>ip_E := v27\<rparr>)"
  "(SetTolerances a b c st)\<lparr>vectn := v28\<rparr> = SetTolerances a b c (st\<lparr>vectn := v28\<rparr>)"
  "(SetTolerances a b c st)\<lparr>vectm := v29\<rparr> = SetTolerances a b c (st\<lparr>vectm := v29\<rparr>)"
  "(SetTolerances a b c st)\<lparr>sol_chrono := v30\<rparr> = SetTolerances a b c (st\<lparr>sol_chrono := v30\<rparr>)"
  "(SetTolerances a b c st)\<lparr>engine_calls := v31\<rparr> = SetTolerances a b c (st\<lparr>engine_calls := v31\<rparr>)"
  by (simp_all add: SetTolerances_def)

lemma SetTolerances_multiply:
  "multiplyA (SetTolerances a b c st) = multiplyA st"
  "multiplyG (SetTolerances a b c st) = multiplyG st"
  "multiplyNegAT (SetTolerances a b c st) = multiplyNegAT st"
  "E_MatMultiply (SetTolerances a b c st) = E_MatMultiply st"
  by (simp_all add: fun_eq_iff multiplyA_def multiplyG_def multiplyNegAT_def E_MatMultiply_def
      SetTolerances_reads cong: KKT_SOLUTION_METHOD.case_cong)

lemma SetTolerances_if:
  "(if p then SetTolerances a b c s else SetTolerances a b c t)
     = SetTolerances a b c (if p then s else t)"
  by simp

lemma SetTolerances_case:
  "(case k of STANDARD \<Rightarrow> SetTolerances a b c s | AUGMENTED \<Rightarrow> SetTolerances a b c t
            | NORMAL \<Rightarrow> SetTolerances a b c u)
     = SetTolerances a b c (case k of STANDARD \<Rightarrow> s | AUGMENTED \<Rightarrow> t | NORMAL \<Rightarrow> u)"
  by (cases k) simp_all

lemmas SetTolerances_push = SetTolerances_reads SetTolerances_updates SetTolerances_multiply
  SetTolerances_if SetTolerances_case

lemma SetTolerances_pieces:
  "call_engine eng (SetTolerances a b c st) = SetTolerances a b c (call_engine eng st)"
  "KKT_STANDARD_assemble sigma (SetTolerances a b c st)
     = SetTolerances a b c (KKT_STANDARD_assemble sigma st)"
  "KKT_STANDARD_extract (SetTolerances a b c st) = SetTolerances a b c (KKT_STANDARD_extract st)"
  "KKT_AUGMENTED_assemble cfg sigma (SetTolerances a b c st)
     = SetTolerances a b c (KKT_AUGMENTED_assemble cfg sigma st)"
  "KKT_AUGMENTED_extract cfg (SetTolerances a b c st)
     = SetTolerances a b c (KKT_AUGMENTED_extract cfg st)"
  "KKT_NORMAL (SetTolerances a b c st) = SetTolerances a b c (KKT_NORMAL st)"
  "make_positive_definite (SetTolerances a b c st)
     = SetTolerances a b c (make_positive_definite st)"
  "fullupdate_residual cfg (SetTolerances a b c st)
     = SetTolerances a b c (fullupdate_residual cfg st)"
  "reset_dimensions cfg n_old m_old (SetTolerances a b c st)
     = SetTolerances a b c (reset_dimensions cfg n_old m_old st)"
  by (simp_all only: call_engine_def KKT_STANDARD_assemble_def KKT_STANDARD_extract_def
      KKT_AUGMENTED_assemble_def KKT_AUGMENTED_extract_def KKT_NORMAL_def
      make_positive_definite_def fullupdate_residual_def reset_dimensions_def
      Let_def SetTolerances_push cong: if_cong KKT_SOLUTION_METHOD.case_cong)

lemma SetTolerances_KKTsolve:
  "KKTsolve eng cfg sigma (SetTolerances a b c st) = SetTolerances a b c (KKTsolve eng cfg sigma st)"
  by (simp only: KKTsolve_def SetTolerances_pieces SetTolerances_push
      cong: KKT_SOLUTION_METHOD.case_cong)

lemma SetTolerances_starting_point:
  "starting_point_Nocedal eng cfg n_old m_old (SetTolerances a b c st)
     = SetTolerances a b c (starting_point_Nocedal eng cfg n_old m_old st)"
  by (simp only: starting_point_Nocedal_def Let_def SetTolerances_pieces SetTolerances_KKTsolve
      SetTolerances_push cong: if_cong)

lemma SetTolerances_initialize:
  "initialize eng cfg sysd (SetTolerances a b c st)
     = SetTolerances a b c (initialize eng cfg sysd st)"
  by (simp only: initialize_def Let_def SetTolerances_pieces SetTolerances_starting_point
      SetTolerances_push cong: if_cong KKT_SOLUTION_METHOD.case_cong)

lemma ip_m_initialize:
  "ip_m (initialize eng cfg sysd st) = CountActiveConstraints sysd"
proof -
  have r: "ip_m (reset_dimensions cfg n_old m_old s) = ip_m s \<and>
           KKT_solve_method (reset_dimensions cfg n_old m_old s) = KKT_solve_method s"
    for n_old m_old s
    by (cases "KKT_solve_method s"; cases "SKIP_CONTACTS_UV cfg"; cases "n_old = ip_n s";
        cases "m_old = ip_m s")
       (simp_all add: reset_dimensions_def Let_def cong: update_lazy)
  have f: "ip_m (fullupdate_residual cfg s) = ip_m s" for s
    using solver_frame_pieces(7) [of cfg s] by (simp add: solver_frame_def)
  have k: "ip_m (KKTsolve eng cfg sigma s) = ip_m s" for sigma s
    by (rule KKTsolve_fields)
  have sp: "ip_m (starting_point_Nocedal eng cfg n_old m_old s) = ip_m s" for n_old m_old s
    by (simp add: starting_point_Nocedal_def Let_def f k cong: update_lazy)
  have pd: "ip_m (make_positive_definite s) = ip_m s" for s
    by (simp add: make_positive_definite_def Let_def)
  have ce: "ip_m (call_engine eng s) = ip_m s" for s
    by (simp add: call_engine_def)
  show ?thesis
    by (cases "KKT_solve_method st")
       (simp_all add: initialize_def Let_def r sp pd ce cong: update_lazy)
qed

text \<open>
  Claim C10. A call of \<^verbatim>\<open>Solve\<close> with at least one constraint overwrites the three
  tolerances with \<open>1e-7\<close>, \<open>1e-8\<close> and \<open>1e-8\<close> before the loop: the result and the final
  state of the call are the same whatever \<^verbatim>\<open>SetTolerances\<close> had stored before, and the
  final state holds the fixed values.
\<close>

theorem Solve_overwrites_tolerances:
  assumes "CountActiveConstraints sysd \<noteq> 0"
  shows "Solve eng cfg sysd (SetTolerances rp_tol rd_tol complementarity_tol st)
           = Solve eng cfg sysd st \<and>
         IPtolerances (snd (Solve eng cfg sysd st))
           = \<lparr>rp_nnorm = 1 / 10 ^ 7, rd_nnorm = 1 / 10 ^ 8\<rparr> \<and>
         mu_tolerance (snd (Solve eng cfg sysd st)) = 1 / 10 ^ 8"
proof -
  let ?st0 = "initialize eng cfg sysd (st\<lparr>solver_call := solver_call st + 1\<rparr>)"
  let ?st1 = "(SetTolerances (1 / 10 ^ 7) (1 / 10 ^ 8) (1 / 10 ^ 8) ?st0)\<lparr>iteration_count := 1\<rparr>"
  have m: "ip_m ?st0 \<noteq> 0" using assms by (simp add: ip_m_initialize)
  have init: "initialize eng cfg sysd
        ((SetTolerances rp_tol rd_tol complementarity_tol st)
          \<lparr>solver_call := solver_call (SetTolerances rp_tol rd_tol complementarity_tol st) + 1\<rparr>)
      = SetTolerances rp_tol rd_tol complementarity_tol ?st0"
    by (simp only: SetTolerances_reads SetTolerances_updates SetTolerances_initialize)
  have over: "SetTolerances (1 / 10 ^ 7) (1 / 10 ^ 8) (1 / 10 ^ 8)
        (SetTolerances rp_tol rd_tol complementarity_tol ?st0)
      = SetTolerances (1 / 10 ^ 7) (1 / 10 ^ 8) (1 / 10 ^ 8) ?st0"
    by (simp add: SetTolerances_def)
  have same: "Solve eng cfg sysd (SetTolerances rp_tol rd_tol complementarity_tol st)
      = Solve eng cfg sysd st"
    unfolding Solve_def Let_def init
    using m by (simp only: SetTolerances_reads over if_False)
  have res: "snd (Solve eng cfg sysd st)
      = generate_solution cfg (VerifyKKTconditions (solve_loop eng cfg ?st1))"
    using m by (simp add: Solve_def Let_def)
  have g: "IPtolerances (generate_solution cfg s) = IPtolerances s \<and>
           mu_tolerance (generate_solution cfg s) = mu_tolerance s" for s
    by (simp add: generate_solution_def Let_def cong: update_lazy)
  have fr: "solver_frame (VerifyKKTconditions (solve_loop eng cfg ?st1)) = solver_frame ?st1"
    by (simp add: solver_frame_pieces solver_frame_solve_loop)
  have "IPtolerances (VerifyKKTconditions (solve_loop eng cfg ?st1)) = IPtolerances ?st1 \<and>
        mu_tolerance (VerifyKKTconditions (solve_loop eng cfg ?st1)) = mu_tolerance ?st1"
    using fr unfolding solver_frame_def by simp
  then have "IPtolerances (snd (Solve eng cfg sysd st))
           = \<lparr>rp_nnorm = 1 / 10 ^ 7, rd_nnorm = 1 / 10 ^ 8\<rparr> \<and>
         mu_tolerance (snd (Solve eng cfg sysd st)) = 1 / 10 ^ 8"
    by (simp add: res g SetTolerances_def)
  with same show ?thesis by simp
qed

theorem Solve_overwrites_tolerances_witness:
  "CountActiveConstraints example_descriptor \<noteq> 0 \<and>
   Solve solve_2x2 source_macros example_descriptor (SetTolerances 1 1 1 example_state)
     = Solve solve_2x2 source_macros example_descriptor example_state \<and>
   IPtolerances (snd (Solve solve_2x2 source_macros example_descriptor example_state))
     = \<lparr>rp_nnorm = 1 / 10 ^ 7, rd_nnorm = 1 / 10 ^ 8\<rparr> \<and>
   mu_tolerance (snd (Solve solve_2x2 source_macros example_descriptor example_state)) = 1 / 10 ^ 8"
proof -
  have h: "CountActiveConstraints example_descriptor \<noteq> 0"
    by (simp add: example_descriptor_def)
  from Solve_overwrites_tolerances [OF h, of solve_2x2 source_macros 1 1 1 example_state] h
  show ?thesis by simp
qed

section \<open>The emitted solution\<close>

lemma fold_copy:
  "length (fold (\<lambda>row_sel s. s[row_sel := f row_sel]) [0..<k] s) = length s \<and>
   (\<forall>i<k. i < length s \<longrightarrow> fold (\<lambda>row_sel s. s[row_sel := f row_sel]) [0..<k] s ! i = f i) \<and>
   (\<forall>j\<ge>k. fold (\<lambda>row_sel s. s[row_sel := f row_sel]) [0..<k] s ! j = s ! j)"
proof (induction k)
  case 0
  show ?case by simp
next
  case (Suc k)
  then show ?case by (auto simp: nth_list_update less_Suc_eq)
qed

lemma fold_shifted:
  "length (fold (\<lambda>row_sel s. s[row_sel + n := f row_sel]) [0..<k] s) = length s \<and>
   (\<forall>i<k. i + n < length s \<longrightarrow>
      fold (\<lambda>row_sel s. s[row_sel + n := f row_sel]) [0..<k] s ! (i + n) = f i) \<and>
   (\<forall>j. j < n \<or> k + n \<le> j \<longrightarrow>
      fold (\<lambda>row_sel s. s[row_sel + n := f row_sel]) [0..<k] s ! j = s ! j)"
proof (induction k)
  case 0
  show ?case by simp
next
  case (Suc k)
  then show ?case by (auto simp: nth_list_update less_Suc_eq)
qed

lemma fold_triplets:
  "length (fold (\<lambda>row_sel s. ((s[n + row_sel * 3 := f row_sel])[n + row_sel * 3 + 1 := 0])
                                   [n + row_sel * 3 + 2 := (0::real)]) [0..<k] s) = length s \<and>
   (\<forall>i<k. n + i * 3 + 2 < length s \<longrightarrow>
      fold (\<lambda>row_sel s. ((s[n + row_sel * 3 := f row_sel])[n + row_sel * 3 + 1 := 0])
                           [n + row_sel * 3 + 2 := 0]) [0..<k] s ! (n + i * 3) = f i \<and>
      fold (\<lambda>row_sel s. ((s[n + row_sel * 3 := f row_sel])[n + row_sel * 3 + 1 := 0])
                           [n + row_sel * 3 + 2 := 0]) [0..<k] s ! (n + i * 3 + 1) = 0 \<and>
      fold (\<lambda>row_sel s. ((s[n + row_sel * 3 := f row_sel])[n + row_sel * 3 + 1 := 0])
                           [n + row_sel * 3 + 2 := 0]) [0..<k] s ! (n + i * 3 + 2) = 0) \<and>
   (\<forall>j. j < n \<or> n + k * 3 \<le> j \<longrightarrow>
      fold (\<lambda>row_sel s. ((s[n + row_sel * 3 := f row_sel])[n + row_sel * 3 + 1 := 0])
                           [n + row_sel * 3 + 2 := 0]) [0..<k] s ! j = s ! j)"
proof (induction k)
  case 0
  show ?case by simp
next
  case (Suc k)
  then show ?case by (auto simp: nth_list_update less_Suc_eq)
qed

lemma reset_dimensions_emitted_size:
  "length (sol_chrono (reset_dimensions cfg n_old m_old st)) = emitted_size cfg (ip_n st) (ip_m st)"
  by (cases "KKT_solve_method st"; cases "SKIP_CONTACTS_UV cfg"; cases "n_old = ip_n st";
      cases "m_old = ip_m st")
     (simp_all add: reset_dimensions_def Let_def Resize_def emitted_size_def cong: update_lazy)

lemma generate_solution_emits:
  assumes len: "length (sol_chrono st) = emitted_size cfg (ip_n st) (ip_m st)"
  shows "emits cfg (ip_n st) (ip_m st) (ip_x st) (lam st) (sol_chrono (generate_solution cfg st))"
proof -
  let ?n = "ip_n st" and ?m = "ip_m st"
  let ?s1 = "fold (\<lambda>row_sel s. s[row_sel := ip_x st ! row_sel]) [0..<?n] (sol_chrono st)"
  note c = fold_copy [of "\<lambda>r. ip_x st ! r" ?n "sol_chrono st"]
  have l1: "length ?s1 = length (sol_chrono st)" using c by simp
  have x1: "?s1 ! i = ip_x st ! i" if "i < ?n" for i
    using c that len by (auto simp: emitted_size_def split: if_splits)
  show ?thesis
  proof (cases "SKIP_CONTACTS_UV cfg")
    case True
    let ?out = "fold (\<lambda>row_sel s. ((s[?n + row_sel * 3 := - lam st ! row_sel])
                  [?n + row_sel * 3 + 1 := 0])[?n + row_sel * 3 + 2 := 0]) [0..<?m] ?s1"
    note t = fold_triplets [of ?n "\<lambda>r. - lam st ! r" ?m ?s1]
    have out: "sol_chrono (generate_solution cfg st) = ?out"
      using True by (simp add: generate_solution_def Let_def)
    have lo: "length ?out = ?n + 3 * ?m"
      using t l1 len True by (simp add: emitted_size_def)
    have xs: "?out ! i = ip_x st ! i" if "i < ?n" for i
      using t that x1 [OF that] by simp
    have ls: "?out ! (?n + 3 * i) = - lam st ! i \<and> ?out ! (?n + 3 * i + 1) = 0 \<and>
              ?out ! (?n + 3 * i + 2) = 0" if "i < ?m" for i
    proof -
      have "?n + i * 3 + 2 < length ?s1" using that l1 len True by (simp add: emitted_size_def)
      with t that show ?thesis by (simp add: mult.commute)
    qed
    show ?thesis
      unfolding out emits_def using True lo xs ls by (simp add: emitted_size_def)
  next
    case False
    let ?out = "fold (\<lambda>row_sel s. s[row_sel + ?n := - lam st ! row_sel]) [0..<?m] ?s1"
    note t = fold_shifted [of ?n "\<lambda>r. - lam st ! r" ?m ?s1]
    have out: "sol_chrono (generate_solution cfg st) = ?out"
      using False by (simp add: generate_solution_def Let_def)
    have lo: "length ?out = ?n + ?m"
      using t l1 len False by (simp add: emitted_size_def)
    have xs: "?out ! i = ip_x st ! i" if "i < ?n" for i
      using t that x1 [OF that] by simp
    have ls: "?out ! (?n + i) = - lam st ! i" if "i < ?m" for i
    proof -
      have "i + ?n < length ?s1" using that l1 len False by (simp add: emitted_size_def)
      with t that show ?thesis by (simp add: add.commute)
    qed
    show ?thesis
      unfolding out emits_def using False lo xs ls by (simp add: emitted_size_def)
  qed
qed


lemma solver_frame_fields:
  assumes "solver_frame s = solver_frame t"
  shows "ip_m s = ip_m t" "ip_n s = ip_n t" "solver_call s = solver_call t"
    "iteration_count_max s = iteration_count_max t"
    "EQUAL_STEP_LENGTH s = EQUAL_STEP_LENGTH t" "ADAPTIVE_ETA s = ADAPTIVE_ETA t"
    "ONLY_PREDICT s = ONLY_PREDICT t" "KKT_solve_method s = KKT_solve_method t"
    "IPtolerances s = IPtolerances t" "mu_tolerance s = mu_tolerance t"
    "sol_chrono s = sol_chrono t"
  using assms by (simp_all add: solver_frame_def)

lemma solver_frame_starting_point:
  "solver_frame (starting_point_Nocedal eng cfg n_old m_old st) = solver_frame st"
proof -
  note f = solver_frame_fields [OF solver_frame_pieces(7)]
  note k = solver_frame_fields [OF solver_frame_KKTsolve]
  show ?thesis
    by (simp add: solver_frame_def starting_point_Nocedal_def Let_def f k cong: update_lazy)
qed

lemma initialize_sizes:
  "ip_n (initialize eng cfg sysd st) = CountActiveVariables sysd \<and>
   ip_m (initialize eng cfg sysd st) = CountActiveConstraints sysd \<and>
   length (sol_chrono (initialize eng cfg sysd st))
     = emitted_size cfg (CountActiveVariables sysd) (CountActiveConstraints sysd)"
proof -
  have r: "ip_m (reset_dimensions cfg n_old m_old s) = ip_m s \<and>
           ip_n (reset_dimensions cfg n_old m_old s) = ip_n s \<and>
           KKT_solve_method (reset_dimensions cfg n_old m_old s) = KKT_solve_method s"
    for n_old m_old s
    by (cases "KKT_solve_method s"; cases "SKIP_CONTACTS_UV cfg"; cases "n_old = ip_n s";
        cases "m_old = ip_m s")
       (simp_all add: reset_dimensions_def Let_def cong: update_lazy)
  note sp = solver_frame_fields [OF solver_frame_starting_point]
  note pd = solver_frame_fields [OF solver_frame_pieces(9)]
  note ce = solver_frame_fields [OF solver_frame_pieces(1)]
  show ?thesis
    by (cases "KKT_solve_method st")
       (simp_all add: initialize_def Let_def r sp pd ce reset_dimensions_emitted_size
          cong: update_lazy)
qed

lemma Solve_through_emission:
  assumes "CountActiveConstraints sysd \<noteq> 0"
  shows "Solve eng cfg sysd st
     = (sol_chrono (generate_solution cfg (state_before_emission eng cfg sysd st)),
        generate_solution cfg (state_before_emission eng cfg sysd st))"
proof -
  have "ip_m (initialize eng cfg sysd (st\<lparr>solver_call := solver_call st + 1\<rparr>)) \<noteq> 0"
    using assms initialize_sizes [of eng cfg sysd "st\<lparr>solver_call := solver_call st + 1\<rparr>"]
    by simp
  then show ?thesis
    by (simp add: Solve_def Let_def state_before_emission_def)
qed

lemma state_before_emission_sizes:
  "ip_n (state_before_emission eng cfg sysd st) = CountActiveVariables sysd"
  "ip_m (state_before_emission eng cfg sysd st) = CountActiveConstraints sysd"
  "length (sol_chrono (state_before_emission eng cfg sysd st))
     = emitted_size cfg (CountActiveVariables sysd) (CountActiveConstraints sysd)"
proof -
  define st0 where "st0 = initialize eng cfg sysd (st\<lparr>solver_call := solver_call st + 1\<rparr>)"
  define st1 where
    "st1 = (SetTolerances (1 / 10 ^ 7) (1 / 10 ^ 8) (1 / 10 ^ 8) st0)\<lparr>iteration_count := 1\<rparr>"
  have b: "state_before_emission eng cfg sysd st = VerifyKKTconditions (solve_loop eng cfg st1)"
    by (simp add: state_before_emission_def st1_def st0_def)
  have i: "ip_n st0 = CountActiveVariables sysd" "ip_m st0 = CountActiveConstraints sysd"
    "length (sol_chrono st0)
       = emitted_size cfg (CountActiveVariables sysd) (CountActiveConstraints sysd)"
    unfolding st0_def using initialize_sizes by blast+
  have fr: "solver_frame (VerifyKKTconditions (solve_loop eng cfg st1)) = solver_frame st1"
    by (simp add: solver_frame_pieces solver_frame_solve_loop)
  have f1: "ip_n st1 = ip_n st0" "ip_m st1 = ip_m st0" "sol_chrono st1 = sol_chrono st0"
    unfolding st1_def by (simp_all add: SetTolerances_def)
  note f3 = solver_frame_fields [OF fr]
  show "ip_n (state_before_emission eng cfg sysd st) = CountActiveVariables sysd"
    "ip_m (state_before_emission eng cfg sysd st) = CountActiveConstraints sysd"
    "length (sol_chrono (state_before_emission eng cfg sysd st))
       = emitted_size cfg (CountActiveVariables sysd) (CountActiveConstraints sysd)"
    using i by (simp_all add: b f3 f1)
qed

lemma generate_solution_keeps:
  "ip_x (generate_solution cfg s) = ip_x s" "lam (generate_solution cfg s) = lam s"
  by (simp_all add: generate_solution_def Let_def cong: update_lazy)

text \<open>
  Claim C8. When there is a constraint, \<^verbatim>\<open>Solve\<close> returns what \<^verbatim>\<open>generate_solution\<close>
  makes of the state the loop left, and the returned vector holds the \<open>x\<close> of that state
  in its first \<open>n\<close> entries and \<open>-lam\<close> of that state in the block of the multipliers:
  with \<^verbatim>\<open>SKIP_CONTACTS_UV\<close> its length is \<open>n + 3 m\<close> and the entries \<open>n + 3 i\<close>,
  \<open>n + 3 i + 1\<close>, \<open>n + 3 i + 2\<close> are \<open>-lam\<^sub>i, 0, 0\<close>; otherwise its length is \<open>n + m\<close> and
  the entry \<open>n + i\<close> is \<open>-lam\<^sub>i\<close>. The emission changes neither \<open>x\<close> nor \<open>lam\<close>.
\<close>

theorem Solve_emits_solution:
  assumes "CountActiveConstraints sysd \<noteq> 0"
  shows "Solve eng cfg sysd st
           = (sol_chrono (generate_solution cfg (state_before_emission eng cfg sysd st)),
              generate_solution cfg (state_before_emission eng cfg sysd st)) \<and>
         emits cfg (CountActiveVariables sysd) (CountActiveConstraints sysd)
           (ip_x (state_before_emission eng cfg sysd st))
           (lam (state_before_emission eng cfg sysd st))
           (fst (Solve eng cfg sysd st)) \<and>
         ip_x (snd (Solve eng cfg sysd st)) = ip_x (state_before_emission eng cfg sysd st) \<and>
         lam (snd (Solve eng cfg sysd st)) = lam (state_before_emission eng cfg sysd st)"
proof -
  note s = state_before_emission_sizes [of eng cfg sysd st]
  have "length (sol_chrono (state_before_emission eng cfg sysd st))
      = emitted_size cfg (ip_n (state_before_emission eng cfg sysd st))
          (ip_m (state_before_emission eng cfg sysd st))"
    by (simp add: s)
  from generate_solution_emits [OF this]
  show ?thesis
    by (simp add: Solve_through_emission [OF assms] generate_solution_keeps s(1,2))
qed

section \<open>The exit test\<close>

lemma check_exit_conditions_iff:
  "fst (check_exit_conditions st) \<longleftrightarrow>
     MatrDot (ip_y st) (lam st) < mu_tolerance st \<and>
     NormTwo (rp st) / real (ip_m st) < rp_nnorm (IPtolerances st) \<and>
     NormTwo (rd st) / real (ip_n st) < rd_nnorm (IPtolerances st)"
  by (simp add: check_exit_conditions_def VerifyKKTconditions_def Let_def)

lemma iteration_count_iterate:
  "iteration_count (iterate eng cfg st) = iteration_count st"
proof -
  have k: "iteration_count (KKTsolve eng cfg sigma s) = iteration_count s" for sigma s
    by (rule KKTsolve_fields)
  have p: "iteration_count (snd (iterate_prediction eng cfg s)) = iteration_count s" for s
    by (simp add: iterate_prediction_def Let_def k cong: update_lazy)
  have c: "iteration_count (iterate_correction eng cfg mp s) = iteration_count s" for mp s
    by (simp add: iterate_correction_def Let_def k cong: update_lazy)
  show ?thesis by (simp add: iterate_def split_beta p c)
qed

text \<open>
  Claim C1, which the code does not meet. In \<^verbatim>\<open>gap_state\<close> the three conditions of the
  exit test hold with \<open>mu = y\<^sup>T lam / m\<close> (the value the state stores), and the iteration
  cap is not reached; \<^verbatim>\<open>check_exit_conditions\<close> compares \<open>y\<^sup>T lam\<close>, not divided by \<open>m\<close>,
  with the tolerance and answers false, so the loop goes on with another iteration.
\<close>

theorem exit_test_uses_undivided_gap:
  "mu gap_state = MatrDot (ip_y gap_state) (lam gap_state) / real (ip_m gap_state) \<and>
   mu gap_state < mu_tolerance gap_state \<and>
   NormTwo (rp gap_state) / real (ip_m gap_state) < rp_nnorm (IPtolerances gap_state) \<and>
   NormTwo (rd gap_state) / real (ip_n gap_state) < rd_nnorm (IPtolerances gap_state) \<and>
   iteration_count gap_state < iteration_count_max gap_state \<and>
   \<not> fst (check_exit_conditions gap_state) \<and>
   solve_loop eng cfg gap_state
     = solve_loop eng cfg ((iterate eng cfg (VerifyKKTconditions gap_state))\<lparr>iteration_count := 2\<rparr>)"
proof -
  have v: "mu gap_state = MatrDot (ip_y gap_state) (lam gap_state) / real (ip_m gap_state)"
    "mu gap_state < mu_tolerance gap_state"
    "NormTwo (rp gap_state) / real (ip_m gap_state) < rp_nnorm (IPtolerances gap_state)"
    "NormTwo (rd gap_state) / real (ip_n gap_state) < rd_nnorm (IPtolerances gap_state)"
    "iteration_count gap_state < iteration_count_max gap_state"
    by (simp_all add: gap_state_def example_state_def MatrDot_def NormTwo_def)
  have gap: "\<not> MatrDot (ip_y gap_state) (lam gap_state) < mu_tolerance gap_state"
    by (simp add: gap_state_def example_state_def MatrDot_def)
  have stay: "\<not> fst (check_exit_conditions gap_state)"
    using gap by (simp add: check_exit_conditions_iff)
  have chk: "check_exit_conditions gap_state = (False, VerifyKKTconditions gap_state)"
    using stay by (simp add: check_exit_conditions_def Let_def)
  have cnt: "iteration_count (iterate eng cfg (VerifyKKTconditions gap_state)) = 1"
    by (simp add: iteration_count_iterate VerifyKKTconditions_def gap_state_def example_state_def)
  have loop: "solve_loop eng cfg gap_state
     = solve_loop eng cfg ((iterate eng cfg (VerifyKKTconditions gap_state))\<lparr>iteration_count := 2\<rparr>)"
    by (subst solve_loop.simps) (simp add: v(5) chk Let_def cnt numeral_2_eq_2)
  show ?thesis using v stay loop by simp
qed

section \<open>The augmented system\<close>

text \<open>
  What the MUMPS version writes before the solve in the \<^verbatim>\<open>AUGMENTED\<close> layout: the
  diagonal of the lower right block and the right-hand side.
\<close>

lemma fold_diagonal:
  "fold (\<lambda>diag_sel M. mat_SetElement (n + diag_sel) (n + diag_sel) (f diag_sel) M) [0..<k] M0
     = (\<lambda>i j. if i = j \<and> n \<le> i \<and> i < n + k then f (i - n) else M0 i j)"
proof (induction k)
  case 0
  show ?case by (simp add: fun_eq_iff)
next
  case (Suc k)
  have "fold (\<lambda>diag_sel M. mat_SetElement (n + diag_sel) (n + diag_sel) (f diag_sel) M)
          [0..<Suc k] M0
        = mat_SetElement (n + k) (n + k) (f k)
            (\<lambda>i j. if i = j \<and> n \<le> i \<and> i < n + k then f (i - n) else M0 i j)"
    by (simp add: Suc)
  also have "\<dots> = (\<lambda>i j. if i = j \<and> n \<le> i \<and> i < n + Suc k then f (i - n) else M0 i j)"
    by (auto simp: mat_SetElement_def fun_eq_iff less_Suc_eq)
  finally show ?case .
qed

lemma KKT_AUGMENTED_assemble_diagonal:
  assumes "i < ip_m st"
  shows "BigMat (KKT_AUGMENTED_assemble cfg sigma st) (ip_n st + i) (ip_n st + i)
           = ip_y st ! i / lam st ! i + (if ADD_COMPLIANCE cfg then ip_E st i i else 0)"
  using assms
  by (cases "ADD_COMPLIANCE cfg"; cases "sigma = 0")
     (simp_all add: KKT_AUGMENTED_assemble_def Let_def fold_diagonal cong: update_lazy)

lemma KKT_AUGMENTED_assemble_rhs:
  assumes "length (rhs_sol st) = ip_n st + ip_m st"
  shows "length (rhs_sol (KKT_AUGMENTED_assemble cfg sigma st)) = ip_n st + ip_m st \<and>
         (\<forall>i<ip_n st. rhs_sol (KKT_AUGMENTED_assemble cfg sigma st) ! i = - rd st ! i) \<and>
         (\<forall>i<ip_m st. rhs_sol (KKT_AUGMENTED_assemble cfg sigma st) ! (ip_n st + i)
                          = - rp st ! i - ip_y st ! i + sigma * mu st / lam st ! i)"
proof -
  define r1 where "r1 = fold (\<lambda>row_sel r. r[row_sel := - rd st ! row_sel]) [0..<ip_n st] (rhs_sol st)"
  define g where "g = (\<lambda>i. - rp st ! i - ip_y st ! i + sigma * mu st / lam st ! i)"
  define r2 where "r2 = fold (\<lambda>row_sel r. r[row_sel + ip_n st := g row_sel]) [0..<ip_m st] r1"
  have res: "rhs_sol (KKT_AUGMENTED_assemble cfg sigma st) = r2"
    by (cases "ADD_COMPLIANCE cfg"; cases "sigma = 0")
       (simp_all add: KKT_AUGMENTED_assemble_def Let_def r1_def r2_def g_def cong: update_lazy)
  note c1 = fold_copy [of "\<lambda>i. - rd st ! i" "ip_n st" "rhs_sol st", folded r1_def]
  note c2 = fold_shifted [of "ip_n st" g "ip_m st" r1, folded r2_def]
  have len: "length r2 = ip_n st + ip_m st" using c1 c2 assms by simp
  have low: "r2 ! i = - rd st ! i" if "i < ip_n st" for i
    using c1 c2 that assms by simp
  have high: "r2 ! (ip_n st + i) = g i" if "i < ip_m st" for i
    using c1 c2 that assms by (simp add: add.commute)
  show ?thesis using len low high by (simp add: res g_def)
qed

lemma fold_shifted_list:
  assumes "length s = n + k"
  shows "fold (\<lambda>row_sel s. s[row_sel + n := f row_sel]) [0..<k] s = take n s @ map f [0..<k]"
proof (rule nth_equalityI)
  note c = fold_shifted [of n f k s]
  show "length (fold (\<lambda>row_sel s. s[row_sel + n := f row_sel]) [0..<k] s)
      = length (take n s @ map f [0..<k])"
    using c assms by simp
  fix i
  assume "i < length (fold (\<lambda>row_sel s. s[row_sel + n := f row_sel]) [0..<k] s)"
  then have i: "i < n + k" using c assms by simp
  show "fold (\<lambda>row_sel s. s[row_sel + n := f row_sel]) [0..<k] s ! i
      = (take n s @ map f [0..<k]) ! i"
  proof (cases "i < n")
    case True
    then show ?thesis using c assms by (simp add: nth_append)
  next
    case False
    then have j: "i - n < k" "(i - n) + n = i" "(i - n) + n < length s"
      using i assms by simp_all
    from c have "\<forall>j<k. j + n < length s \<longrightarrow>
        fold (\<lambda>row_sel s. s[row_sel + n := f row_sel]) [0..<k] s ! (j + n) = f j"
      by blast
    from this [rule_format, OF j(1) j(3)]
    have "fold (\<lambda>row_sel s. s[row_sel + n := f row_sel]) [0..<k] s ! i = f (i - n)"
      by (simp only: j(2))
    then show ?thesis using False i assms by (simp add: nth_append)
  qed
qed

lemma KKT_AUGMENTED_assemble_is_spec:
  assumes "length (rhs_sol st) = ip_n st + ip_m st"
  shows "BigMat (KKT_AUGMENTED_assemble cfg sigma st) = spec_augmented_matrix cfg st"
    and "rhs_sol (KKT_AUGMENTED_assemble cfg sigma st) = spec_augmented_rhs sigma st"
proof -
  show "BigMat (KKT_AUGMENTED_assemble cfg sigma st) = spec_augmented_matrix cfg st"
    by (cases "ADD_COMPLIANCE cfg"; cases "sigma = 0")
       (simp_all add: KKT_AUGMENTED_assemble_def Let_def fold_diagonal spec_augmented_matrix_def
          fun_eq_iff cong: update_lazy)
  have l: "length (fold (\<lambda>row_sel r. r[row_sel := - rd st ! row_sel]) [0..<ip_n st] (rhs_sol st))
      = ip_n st + ip_m st"
    using assms by simp
  have t: "take (ip_n st)
             (fold (\<lambda>row_sel r. r[row_sel := - rd st ! row_sel]) [0..<ip_n st] (rhs_sol st))
         = map (\<lambda>i. - rd st ! i) [0..<ip_n st]"
    using fold_copy [of "\<lambda>i. - rd st ! i" "ip_n st" "rhs_sol st"] assms
    by (simp add: list_eq_iff_nth_eq)
  show "rhs_sol (KKT_AUGMENTED_assemble cfg sigma st) = spec_augmented_rhs sigma st"
    by (cases "ADD_COMPLIANCE cfg"; cases "sigma = 0")
       (simp_all add: KKT_AUGMENTED_assemble_def Let_def spec_augmented_rhs_def
          fold_shifted_list [OF l] t cong: update_lazy)
qed



section \<open>The starting point\<close>

text \<open>
  The clamp of the MUMPS version takes the absolute value: after
  \<^verbatim>\<open>starting_point_Nocedal\<close> every component of \<open>y\<close> and of \<open>lam\<close> is at least 1.
\<close>

lemma fold_pointwise:
  "length (fold (\<lambda>row_sel w. w[row_sel := g (w ! row_sel)]) [0..<k] v) = length v \<and>
   (\<forall>i<length v. fold (\<lambda>row_sel w. w[row_sel := g (w ! row_sel)]) [0..<k] v ! i
                     = (if i < k then g (v ! i) else v ! i))"
proof (induction k)
  case 0
  show ?case by simp
next
  case (Suc k)
  then show ?case by (auto simp: nth_list_update less_Suc_eq)
qed

lemma clamp_abs_ge_1:
  assumes "length v \<le> k"
  shows "list_all (\<lambda>e. 1 \<le> e) (clamp_abs k v)"
proof -
  note p = fold_pointwise [of "\<lambda>e. if \<bar>e\<bar> < 1 then 1 else \<bar>e\<bar>" k v, folded clamp_abs_def]
  have "1 \<le> clamp_abs k v ! i" if "i < length (clamp_abs k v)" for i
    using p that assms by auto
  then show ?thesis by (simp add: list_all_length)
qed

lemma fullupdate_residual_fields:
  "ip_y (fullupdate_residual cfg st) = ip_y st"
  "lam (fullupdate_residual cfg st) = lam st"
  "ip_m (fullupdate_residual cfg st) = ip_m st"
  "KKT_solve_method (fullupdate_residual cfg st) = KKT_solve_method st"
  by (cases "ADD_COMPLIANCE cfg"; simp add: fullupdate_residual_def Let_def cong: update_lazy)+

lemma length_multiplyA_rows:
  "KKT_solve_method s \<noteq> NORMAL \<Longrightarrow> length (multiplyA s v w) = ip_m s"
  by (cases "KKT_solve_method s") (simp_all add: multiplyA_def)

lemma starting_point_Nocedal_clamps:
  assumes "KKT_solve_method st \<noteq> NORMAL" and "length (lam st) = ip_m st"
  shows "list_all (\<lambda>e. 1 \<le> e) (ip_y (starting_point_Nocedal eng cfg n_old m_old st)) \<and>
         list_all (\<lambda>e. 1 \<le> e) (lam (starting_point_Nocedal eng cfg n_old m_old st))"
  using assms
  by (cases "n_old = ip_n st"; cases "m_old = ip_m st"; cases "solver_call st = 0";
      cases "REUSE_OLD_SOLUTIONS cfg")
     (simp_all add: starting_point_Nocedal_def Let_def fullupdate_residual_fields
        KKTsolve_fields clamp_abs_ge_1 length_multiplyA_rows cong: update_lazy)

text \<open>
  What the two versions do to \<open>x\<close>: the MKL \<^verbatim>\<open>Initialize\<close> only resizes it, the MUMPS
  \<^verbatim>\<open>starting_point_Nocedal\<close> fills it with 1 when old solutions are not reused.
\<close>

lemma mkl_KKTsolve_x:
  "ip_x (mkl_KKTsolve eng p st) = ip_x st"
  by (cases "KKT_solve_method st";
      simp add: mkl_KKTsolve_def mkl_KKT_AUGMENTED_assemble_def mkl_KKT_AUGMENTED_extract_def
        mkl_call_engine_def Let_def cong: update_lazy)

lemma mkl_Initialize_load_x:
  "ip_x (mkl_Initialize_load sysd st)
     = (if solver_call st = 0 then Resize (CountActiveVariables sysd) (ip_x st) else ip_x st)"
  by (cases "solver_call st = 0"; cases "KKT_solve_method st")
     (simp_all add: mkl_Initialize_load_def mkl_reset_dimensions_def Let_def cong: update_lazy)

lemma mkl_Initialize_residuals_x:
  "ip_x (mkl_Initialize_residuals st) = ip_x st"
  by (cases "KKT_solve_method st")
     (simp_all add: mkl_Initialize_residuals_def Let_def cong: update_lazy)

lemma mkl_Initialize_x:
  "ip_x (mkl_Initialize eng sysd st)
     = (if solver_call st = 0 then Resize (CountActiveVariables sysd) (ip_x st) else ip_x st)"
  by (simp add: mkl_Initialize_def Let_def mkl_Initialize_residuals_x mkl_KKTsolve_x
        mkl_Initialize_load_x cong: update_lazy)

lemma fullupdate_residual_x:
  "ip_x (fullupdate_residual cfg st) = ip_x st"
  by (cases "ADD_COMPLIANCE cfg"; simp add: fullupdate_residual_def Let_def cong: update_lazy)

lemma starting_point_Nocedal_x:
  assumes "\<not> REUSE_OLD_SOLUTIONS cfg"
  shows "ip_x (starting_point_Nocedal eng cfg n_old m_old st) = replicate (length (ip_x st)) 1"
  using assms
  by (simp add: starting_point_Nocedal_def Let_def fullupdate_residual_x KKTsolve_fields
        FillElem_def cong: update_lazy)

lemma initialize_x:
  assumes "\<not> REUSE_OLD_SOLUTIONS cfg" and "CountActiveConstraints sysd \<noteq> 0"
  shows "ip_x (initialize eng cfg sysd st)
     = replicate (length (ip_x (reset_dimensions cfg (ip_n st) (ip_m st)
          (st\<lparr>ip_n := CountActiveVariables sysd, ip_m := CountActiveConstraints sysd\<rparr>)))) 1"
proof -
  have r: "ip_m (reset_dimensions cfg n_old m_old s) = ip_m s"
    "KKT_solve_method (reset_dimensions cfg n_old m_old s) = KKT_solve_method s"
    for n_old m_old s
    by (cases "KKT_solve_method s"; cases "SKIP_CONTACTS_UV cfg"; cases "n_old = ip_n s";
        cases "m_old = ip_m s";
        simp add: reset_dimensions_def Let_def cong: update_lazy)+
  show ?thesis
    using assms
    by (cases "KKT_solve_method st"; cases "ADD_COMPLIANCE cfg")
       (simp_all add: initialize_def Let_def r starting_point_Nocedal_x
          make_positive_definite_def cong: update_lazy)
qed

text \<open>
  Claim C5, which the MKL version does not meet. On a new object the MKL
  \<^verbatim>\<open>Initialize\<close> leaves \<open>x = 0\<close>, whatever the engine returns: it never fills \<open>x\<close> and
  \<open>lam\<close> with 1 and never sets \<open>y = A x - b\<close>. The MUMPS \<^verbatim>\<open>initialize\<close>, on a new object
  in its first call of \<^verbatim>\<open>Solve\<close> and with the same descriptor, ends with \<open>x = 1\<close>.
\<close>

theorem mkl_Initialize_leaves_x_zero:
  "ip_x (mkl_Initialize eng small_descriptor mkl_fresh_state) = [0] \<and>
   ip_x (initialize eng source_macros small_descriptor (fresh_state\<lparr>solver_call := 1\<rparr>)) = [1]"
proof -
  have a: "ip_x (mkl_Initialize eng small_descriptor mkl_fresh_state) = [0]"
    by (simp add: mkl_Initialize_x mkl_fresh_state_def fresh_state_def small_descriptor_def
          Resize_def)
  have c: "\<not> REUSE_OLD_SOLUTIONS source_macros" "CountActiveConstraints small_descriptor \<noteq> 0"
    by (simp_all add: source_macros_def small_descriptor_def)
  have b: "ip_x (initialize eng source_macros small_descriptor (fresh_state\<lparr>solver_call := 1\<rparr>))
         = [1]"
    unfolding initialize_x [OF c]
    by (simp add: fresh_state_def small_descriptor_def source_macros_def
          reset_dimensions_def Resize_def Let_def)
  show ?thesis using a b by simp
qed

section \<open>The correction phase and \<^verbatim>\<open>ONLY_PREDICT\<close>\<close>

text \<open>
  The field \<open>engine_calls\<close> counts the linear solves. In the layouts that call the
  engine, one execution of the MUMPS \<^verbatim>\<open>iterate\<close> makes two solves, whatever
  \<^verbatim>\<open>ONLY_PREDICT\<close> is; the MKL \<^verbatim>\<open>InteriorPointIterate\<close> makes one when the flag is set.
\<close>

lemma engine_calls_KKTsolve:
  "engine_calls (KKTsolve eng cfg sigma st)
     = (if KKT_solve_method st = NORMAL then engine_calls st else engine_calls st + 1)"
  by (cases "KKT_solve_method st"; cases "ADD_COMPLIANCE cfg"; cases "sigma = 0")
     (simp_all add: KKTsolve_def KKT_STANDARD_assemble_def KKT_STANDARD_extract_def
        KKT_AUGMENTED_assemble_def KKT_AUGMENTED_extract_def KKT_NORMAL_def call_engine_def
        Let_def cong: update_lazy)

lemma engine_calls_iterate_prediction:
  "engine_calls (snd (iterate_prediction eng cfg st))
     = (if KKT_solve_method st = NORMAL then engine_calls st else engine_calls st + 1)"
  by (cases "ONLY_PREDICT st")
     (simp_all add: iterate_prediction_def Let_def engine_calls_KKTsolve KKTsolve_fields
        cong: update_lazy)

lemma method_iterate_prediction:
  "KKT_solve_method (snd (iterate_prediction eng cfg st)) = KKT_solve_method st"
  by (cases "ONLY_PREDICT st")
     (simp_all add: iterate_prediction_def Let_def KKTsolve_fields cong: update_lazy)

lemma engine_calls_iterate_correction:
  "engine_calls (iterate_correction eng cfg mu_pred st)
     = (if KKT_solve_method st = NORMAL then engine_calls st else engine_calls st + 1)"
  by (cases "EQUAL_STEP_LENGTH st")
     (simp_all add: iterate_correction_def Let_def engine_calls_KKTsolve KKTsolve_fields
        cong: update_lazy)

lemma engine_calls_iterate:
  "engine_calls (iterate eng cfg st)
     = (if KKT_solve_method st = NORMAL then engine_calls st else engine_calls st + 2)"
  by (simp add: iterate_def split_beta engine_calls_iterate_correction
        engine_calls_iterate_prediction method_iterate_prediction)

lemma engine_calls_mkl_KKTsolve:
  "engine_calls (mkl_KKTsolve eng p st)
     = (if KKT_solve_method st = AUGMENTED then engine_calls st + 1 else engine_calls st)"
  "KKT_solve_method (mkl_KKTsolve eng p st) = KKT_solve_method st"
  "ONLY_PREDICT (mkl_KKTsolve eng p st) = ONLY_PREDICT st"
  by (cases "KKT_solve_method st";
      simp add: mkl_KKTsolve_def mkl_KKT_AUGMENTED_assemble_def mkl_KKT_AUGMENTED_extract_def
        mkl_call_engine_def Let_def cong: update_lazy)+

lemma engine_calls_mkl_InteriorPointIterate:
  assumes "ONLY_PREDICT st"
  shows "engine_calls (mkl_InteriorPointIterate eng st)
     = (if KKT_solve_method st = AUGMENTED then engine_calls st + 1 else engine_calls st)"
  using assms
  by (simp add: mkl_InteriorPointIterate_def Let_def engine_calls_mkl_KKTsolve
        cong: update_lazy)

text \<open>
  The \<^verbatim>\<open>AUGMENTED\<close> solve and the prediction phase under \<^verbatim>\<open>ONLY_PREDICT\<close>, field by
  field, and the run of one \<^verbatim>\<open>iterate\<close> from \<^verbatim>\<open>only_predict_state\<close> with an exact
  solver.
\<close>

lemma KKT_AUGMENTED_assemble_BigMat:
  assumes "\<not> ADD_COMPLIANCE cfg"
  shows "BigMat (KKT_AUGMENTED_assemble cfg sigma st)
     = (\<lambda>i j. if i = j \<and> ip_n st \<le> i \<and> i < ip_n st + ip_m st
               then ip_y st ! (i - ip_n st) / lam st ! (i - ip_n st) else BigMat st i j)"
  using assms
  by (cases "sigma = 0")
     (simp_all add: KKT_AUGMENTED_assemble_def Let_def fold_diagonal cong: update_lazy)

lemma KKT_AUGMENTED_assemble_fields:
  "ip_n (KKT_AUGMENTED_assemble cfg sigma st) = ip_n st"
  "ip_m (KKT_AUGMENTED_assemble cfg sigma st) = ip_m st"
  "Dx (KKT_AUGMENTED_assemble cfg sigma st) = Dx st"
  "Dy (KKT_AUGMENTED_assemble cfg sigma st) = Dy st"
  "Dlam (KKT_AUGMENTED_assemble cfg sigma st) = Dlam st"
  "rp (KKT_AUGMENTED_assemble cfg sigma st) = rp st"
  "KKT_solve_method (KKT_AUGMENTED_assemble cfg sigma st) = KKT_solve_method st"
  by (cases "sigma = 0"; cases "ADD_COMPLIANCE cfg";
      simp add: KKT_AUGMENTED_assemble_def Let_def cong: update_lazy)+

lemma KKTsolve_AUGMENTED:
  assumes "KKT_solve_method st = AUGMENTED" and "\<not> ADD_COMPLIANCE cfg"
  shows "BigMat (KKTsolve eng cfg sigma st) = BigMat (KKT_AUGMENTED_assemble cfg sigma st)"
    "rhs_sol (KKTsolve eng cfg sigma st)
       = eng (BigMat (KKT_AUGMENTED_assemble cfg sigma st))
             (rhs_sol (KKT_AUGMENTED_assemble cfg sigma st))"
    "Dx (KKTsolve eng cfg sigma st)
       = fold (\<lambda>row_sel d. d[row_sel :=
                  eng (BigMat (KKT_AUGMENTED_assemble cfg sigma st))
                      (rhs_sol (KKT_AUGMENTED_assemble cfg sigma st)) ! row_sel])
              [0..<ip_n st] (Dx st)"
    "Dlam (KKTsolve eng cfg sigma st)
       = fold (\<lambda>row_sel d. d[row_sel :=
                  eng (BigMat (KKT_AUGMENTED_assemble cfg sigma st))
                      (rhs_sol (KKT_AUGMENTED_assemble cfg sigma st)) ! (row_sel + ip_n st)])
              [0..<ip_m st] (Dlam st)"
    "Dy (KKTsolve eng cfg sigma st)
       = vec_add (MatMultiplyClipped (BigMat (KKT_AUGMENTED_assemble cfg sigma st))
           (fold (\<lambda>row_sel d. d[row_sel :=
                     eng (BigMat (KKT_AUGMENTED_assemble cfg sigma st))
                         (rhs_sol (KKT_AUGMENTED_assemble cfg sigma st)) ! row_sel])
                 [0..<ip_n st] (Dx st))
           (int (ip_n st)) (int (ip_n st) + int (ip_m st) - 1) 0 (int (ip_n st) - 1)) (rp st)"
  using assms
  by (simp_all add: KKTsolve_def KKT_AUGMENTED_extract_def call_engine_def multiplyA_def
        Let_def KKT_AUGMENTED_assemble_fields cong: update_lazy)

lemma iterate_prediction_only:
  assumes "ONLY_PREDICT st" and "\<not> EQUAL_STEP_LENGTH st"
  shows "ip_y (snd (iterate_prediction eng cfg st))
       = vec_add (MatrScale (find_Newton_step_length (ip_y st) (Dy (KKTsolve eng cfg 0 st)) 1)
                    (Dy (KKTsolve eng cfg 0 st))) (ip_y st)"
    "lam (snd (iterate_prediction eng cfg st))
       = vec_add (MatrScale (find_Newton_step_length (lam st) (Dlam (KKTsolve eng cfg 0 st)) 1)
                    (Dlam (KKTsolve eng cfg 0 st))) (lam st)"
    "rp (snd (iterate_prediction eng cfg st))
       = MatrScale (1 - find_Newton_step_length (ip_y st) (Dy (KKTsolve eng cfg 0 st)) 1) (rp st)"
    "mu (snd (iterate_prediction eng cfg st)) = fst (iterate_prediction eng cfg st)"
    "fst (iterate_prediction eng cfg st)
       = MatrDot
           (vec_add (MatrScale (find_Newton_step_length (ip_y st) (Dy (KKTsolve eng cfg 0 st)) 1)
                      (Dy (KKTsolve eng cfg 0 st))) (ip_y st))
           (vec_add (MatrScale (find_Newton_step_length (lam st) (Dlam (KKTsolve eng cfg 0 st)) 1)
                      (Dlam (KKTsolve eng cfg 0 st))) (lam st))
         / real (ip_m st)"
    "BigMat (snd (iterate_prediction eng cfg st)) = BigMat (KKTsolve eng cfg 0 st)"
    "rhs_sol (snd (iterate_prediction eng cfg st)) = rhs_sol (KKTsolve eng cfg 0 st)"
    "Dx (snd (iterate_prediction eng cfg st)) = Dx (KKTsolve eng cfg 0 st)"
    "Dlam (snd (iterate_prediction eng cfg st)) = Dlam (KKTsolve eng cfg 0 st)"
    "solver_frame (snd (iterate_prediction eng cfg st)) = solver_frame st"
  using assms
  by (simp_all add: iterate_prediction_def Let_def KKTsolve_fields solver_frame_def
        cong: update_lazy)

lemma iterate_prediction_only_rd:
  assumes "ONLY_PREDICT st" and "\<not> EQUAL_STEP_LENGTH st"
    and "find_Newton_step_length (ip_y st) (Dy (KKTsolve eng cfg 0 st)) 1 = 1"
    and "find_Newton_step_length (lam st) (Dlam (KKTsolve eng cfg 0 st)) 1 = 1"
    and "KKT_solve_method st = AUGMENTED" and "ip_n st = length (rd st)"
  shows "rd (snd (iterate_prediction eng cfg st)) = map (\<lambda>e. 0) (rd st)"
  using assms
  by (simp add: iterate_prediction_def Let_def KKTsolve_fields multiplyG_def MatrScale_def
        vec_add_def MatMultiplyClipped_def map_replicate_const zip_replicate
        cong: update_lazy)

lemma only_predict_run:
  "ip_y (snd (iterate_prediction solve_3x3 source_macros only_predict_state)) = [3 / 7, 10 / 7] \<and>
   lam (snd (iterate_prediction solve_3x3 source_macros only_predict_state)) = [4 / 7, 2 / 7] \<and>
   ip_y (iterate solve_3x3 source_macros only_predict_state) = [173 / 371, 544 / 371] \<and>
   lam (iterate solve_3x3 source_macros only_predict_state) = [264 / 371, 82 / 371]"
proof -
  define s where "s = only_predict_state"
  define P where "P = snd (iterate_prediction solve_3x3 source_macros s)"
  have c: "\<not> ADD_COMPLIANCE source_macros" by (simp add: source_macros_def)
  have f: "KKT_solve_method s = AUGMENTED" "ONLY_PREDICT s" "\<not> EQUAL_STEP_LENGTH s"
    "\<not> ADAPTIVE_ETA s" "ip_n s = 1" "ip_m s = 2"
    "ip_y s = [1, 2]" "lam s = [1, 1]" "rp s = [0, 0]" "rd s = [0]" "mu s = 3 / 2"
    "Dx s = [0]" "Dlam s = [0, 0]" "rhs_sol s = [0, 0, 0]"
    by (simp_all add: s_def only_predict_state_def example_state_def)
  have M: "BigMat s = (\<lambda>i j. if i = 0 \<and> j = 0 then 2
                      else if i = 0 \<and> (j = 1 \<or> j = 2) then - 1
                      else if j = 0 \<and> (i = 1 \<or> i = 2) then 1 else 0)"
    by (simp add: s_def only_predict_state_def example_state_def)
  have r1: "rhs_sol (KKT_AUGMENTED_assemble source_macros 0 s) = [0, - 1, - 2]"
    by (simp add: KKT_AUGMENTED_assemble_def Let_def c f numeral_2_eq_2 cong: update_lazy)
  have so1: "solve_3x3 (BigMat (KKT_AUGMENTED_assemble source_macros 0 s))
               (rhs_sol (KKT_AUGMENTED_assemble source_macros 0 s)) = [- 4 / 7, - 3 / 7, - 5 / 7]"
    by (simp add: r1 KKT_AUGMENTED_assemble_BigMat [OF c] f M solve_3x3_def det3_def Let_def)
  note k1 = KKTsolve_AUGMENTED [OF f(1) c, of solve_3x3 0, unfolded so1]
  have d1: "Dx (KKTsolve solve_3x3 source_macros 0 s) = [- 4 / 7]"
    "Dlam (KKTsolve solve_3x3 source_macros 0 s) = [- 3 / 7, - 5 / 7]"
    by (simp_all add: k1 f numeral_2_eq_2)
  have B1: "BigMat (KKT_AUGMENTED_assemble source_macros 0 s)
      = (\<lambda>i j. if i = j \<and> 1 \<le> i \<and> i < 3 then [1, 2] ! (i - 1) / [1, 1] ! (i - 1)
                else BigMat s i j)"
    by (auto simp: KKT_AUGMENTED_assemble_BigMat [OF c] f fun_eq_iff)
  have dy1: "Dy (KKTsolve solve_3x3 source_macros 0 s) = [- 4 / 7, - 4 / 7]"
    by (simp add: k1(5) f B1 M MatMultiplyClipped_def vec_add_def upto.simps)
  have a1: "find_Newton_step_length (ip_y s) (Dy (KKTsolve solve_3x3 source_macros 0 s)) 1 = 1"
    "find_Newton_step_length (lam s) (Dlam (KKTsolve solve_3x3 source_macros 0 s)) 1 = 1"
    by (simp_all add: dy1 d1 f(7,8))
       (simp_all add: find_Newton_step_length_def step_length_row_def Let_def)
  note p = iterate_prediction_only [OF f(2,3), of solve_3x3 source_macros, folded P_def]
  have yP: "ip_y P = [3 / 7, 10 / 7]" "lam P = [4 / 7, 2 / 7]" "rp P = [0, 0]"
    by (simp_all add: p dy1 d1 f vec_add_def MatrScale_def find_Newton_step_length_def
          step_length_row_def Let_def)
  have muP: "fst (iterate_prediction solve_3x3 source_macros s) = 16 / 49" "mu P = 16 / 49"
    by (simp_all add: p dy1 d1 f vec_add_def MatrScale_def MatrDot_def
          find_Newton_step_length_def step_length_row_def Let_def)
  have rdP: "rd P = [0]"
    using iterate_prediction_only_rd [OF f(2,3) a1 f(1), of ] f(5,10)
    by (simp add: P_def)
  have frP: "KKT_solve_method P = AUGMENTED" "\<not> EQUAL_STEP_LENGTH P" "\<not> ADAPTIVE_ETA P"
    "ip_n P = 1" "ip_m P = 2"
    using solver_frame_fields [OF p(10)] f by simp_all
  have vP: "Dx P = [- 4 / 7]" "Dlam P = [- 3 / 7, - 5 / 7]"
    "rhs_sol P = [- 4 / 7, - 3 / 7, - 5 / 7]"
    "BigMat P = BigMat (KKT_AUGMENTED_assemble source_macros 0 s)"
    by (simp_all add: p d1 k1)
  have r2: "rhs_sol (KKT_AUGMENTED_assemble source_macros 1 P) = [0, 1 / 7, - 2 / 7]"
    by (simp add: KKT_AUGMENTED_assemble_def Let_def c frP yP rdP muP vP(1-3) numeral_2_eq_2
          cong: update_lazy)
  have B2: "BigMat (KKT_AUGMENTED_assemble source_macros 1 P)
      = (\<lambda>i j. if i = j \<and> 1 \<le> i \<and> i < 3 then [3 / 7, 10 / 7] ! (i - 1) / [4 / 7, 2 / 7] ! (i - 1)
                else BigMat P i j)"
    by (auto simp: KKT_AUGMENTED_assemble_BigMat [OF c] frP yP fun_eq_iff)
  have so2: "solve_3x3 (BigMat (KKT_AUGMENTED_assemble source_macros 1 P))
               (rhs_sol (KKT_AUGMENTED_assemble source_macros 1 P))
             = [2 / 53, 52 / 371, - 24 / 371]"
    by (simp add: r2 B2 vP(4) B1 M solve_3x3_def det3_def Let_def)
  note k2 = KKTsolve_AUGMENTED [OF frP(1) c, of solve_3x3 1, unfolded so2]
  have d2: "Dlam (KKTsolve solve_3x3 source_macros 1 P) = [52 / 371, - 24 / 371]"
    by (simp add: k2 frP vP numeral_2_eq_2)
  have dy2: "Dy (KKTsolve solve_3x3 source_macros 1 P) = [2 / 53, 2 / 53]"
    by (simp add: k2(5) frP vP(1) yP B2 vP(4) B1 M MatMultiplyClipped_def vec_add_def upto.simps)
  have eta: "corrector_eta P = 95 / 100"
    by (simp add: corrector_eta_def frP)
  have it: "iterate solve_3x3 source_macros s = iterate_correction solve_3x3 source_macros (16 / 49) P"
    by (simp add: iterate_def split_beta muP(1) P_def)
  have yl: "ip_y (iterate solve_3x3 source_macros s) = [173 / 371, 544 / 371]"
    "lam (iterate solve_3x3 source_macros s) = [264 / 371, 82 / 371]"
    by (simp_all add: it iterate_correction_y_lam Let_def muP(2) eta frP dy2 d2 yP
          vec_add_def MatrScale_def find_Newton_step_length_def step_length_row_def)
  show ?thesis using yP yl by (simp add: P_def s_def)
qed

text \<open>
  Claim C7, which the MUMPS version does not meet. In \<^verbatim>\<open>only_predict_state\<close> the flag
  is set; the prediction phase makes one solve and moves \<open>y\<close> to \<open>(3/7, 10/7)\<close>; the
  whole \<^verbatim>\<open>iterate\<close> makes two solves and ends with \<open>y = (173/371, 544/371)\<close>: the
  correction phase runs after the block guarded by \<^verbatim>\<open>ONLY_PREDICT\<close>. The MKL
  \<^verbatim>\<open>InteriorPointIterate\<close> makes one solve from the same state.
\<close>

theorem iterate_corrects_in_only_predict:
  "ONLY_PREDICT only_predict_state \<and>
   engine_calls only_predict_state = 0 \<and>
   engine_calls (snd (iterate_prediction solve_3x3 source_macros only_predict_state)) = 1 \<and>
   ip_y (snd (iterate_prediction solve_3x3 source_macros only_predict_state)) = [3 / 7, 10 / 7] \<and>
   engine_calls (iterate solve_3x3 source_macros only_predict_state) = 2 \<and>
   ip_y (iterate solve_3x3 source_macros only_predict_state) = [173 / 371, 544 / 371] \<and>
   engine_calls (mkl_InteriorPointIterate solve_3x3 only_predict_state) = 1"
proof -
  have f: "ONLY_PREDICT only_predict_state" "engine_calls only_predict_state = 0"
    "KKT_solve_method only_predict_state = AUGMENTED"
    by (simp_all add: only_predict_state_def example_state_def)
  show ?thesis
    using only_predict_run
    by (simp add: f engine_calls_iterate engine_calls_iterate_prediction
          engine_calls_mkl_InteriorPointIterate)
qed

section \<open>A first call of \<^verbatim>\<open>Solve\<close>\<close>

text \<open>
  A new object with the iteration cap set to 1 by \<^verbatim>\<open>SetMaxIterations\<close>, the descriptor
  \<^verbatim>\<open>small_descriptor\<close> and an exact solver: the starting point is \<open>x = 1\<close>, \<open>y = 2\<close>,
  \<open>lam = 1\<close> with \<open>rp = 0\<close>, \<open>rd = 3\<close>; the affine solve gives \<open>Dlam = 1/3\<close>, the loop makes
  no iteration, and the vector \<open>(1, -4/3, 0, 0)\<close> is returned.
\<close>

lemma initialize_AUGMENTED:
  assumes "KKT_solve_method st = AUGMENTED" and "CountActiveConstraints sysd \<noteq> 0"
    and "\<not> ADD_COMPLIANCE cfg"
  shows "initialize eng cfg sysd st
     = starting_point_Nocedal eng cfg (ip_n st) (ip_m st)
         ((make_positive_definite
             ((reset_dimensions cfg (ip_n st) (ip_m st)
                 (st\<lparr>ip_n := CountActiveVariables sysd, ip_m := CountActiveConstraints sysd\<rparr>))
              \<lparr>BigMat := matrix_form sysd AUGMENTED\<rparr>))
          \<lparr>ip_c := MatrScale (- 1) (f_form sysd), ip_b := MatrScale (- 1) (b_form sysd)\<rparr>)"
proof -
  have r: "ip_m (reset_dimensions cfg n_old m_old s) = ip_m s"
    "KKT_solve_method (reset_dimensions cfg n_old m_old s) = KKT_solve_method s"
    for n_old m_old s
    by (cases "KKT_solve_method s"; cases "SKIP_CONTACTS_UV cfg"; cases "n_old = ip_n s";
        cases "m_old = ip_m s";
        simp add: reset_dimensions_def Let_def cong: update_lazy)+
  note pd = solver_frame_fields [OF solver_frame_pieces(9)]
  show ?thesis
    using assms
    by (simp add: initialize_def Let_def r pd)
qed

lemma starting_point_Nocedal_lam:
  assumes "\<not> REUSE_OLD_SOLUTIONS cfg"
    and "s2 = fullupdate_residual cfg
           (st\<lparr>ip_x := FillElem 1 (ip_x st), lam := FillElem 1 (lam st),
                ip_y := vec_sub (multiplyA st (FillElem 1 (ip_x st)) (ip_y st)) (ip_b st)\<rparr>)"
  shows "lam (starting_point_Nocedal eng cfg n_old m_old st)
     = clamp_abs (ip_m st) (vec_add (lam s2) (Dlam (KKTsolve eng cfg 0 s2)))"
proof -
  have A: "multiplyA (s\<lparr>ip_x := X, lam := L\<rparr>) v w = multiplyA s v w" for s X L v w
    by (cases "KKT_solve_method s") (simp_all add: multiplyA_def)
  show ?thesis
    using assms(1)
    by (simp add: starting_point_Nocedal_def Let_def assms(2) fullupdate_residual_fields
          KKTsolve_fields cong: update_lazy)
       (simp add: A)
qed

lemma fullupdate_residual_values:
  assumes "\<not> ADD_COMPLIANCE cfg"
  shows "rp (fullupdate_residual cfg st)
           = vec_sub (vec_sub (multiplyA st (ip_x st) (rp st)) (ip_y st)) (ip_b st)"
    "rd (fullupdate_residual cfg st)
           = vec_add (vec_add (multiplyG st (ip_x st) (rd st)) (ip_c st))
               (multiplyNegAT st (lam st) (vectn st))"
    "mu (fullupdate_residual cfg st) = MatrDot (ip_y st) (lam st) / real (ip_m st)"
    "BigMat (fullupdate_residual cfg st) = BigMat st"
    "rhs_sol (fullupdate_residual cfg st) = rhs_sol st"
    "Dlam (fullupdate_residual cfg st) = Dlam st"
    "ip_n (fullupdate_residual cfg st) = ip_n st"
proof -
  have m: "multiplyA (s\<lparr>rp := R\<rparr>) v w = multiplyA s v w"
    "multiplyG (s\<lparr>rp := R\<rparr>) v w = multiplyG s v w"
    "multiplyNegAT (s\<lparr>rp := R, rd := D\<rparr>) v w = multiplyNegAT s v w" for s R D v w
    by (cases "KKT_solve_method s"; simp add: multiplyA_def multiplyG_def multiplyNegAT_def)+
  show "rp (fullupdate_residual cfg st)
           = vec_sub (vec_sub (multiplyA st (ip_x st) (rp st)) (ip_y st)) (ip_b st)"
    "rd (fullupdate_residual cfg st)
           = vec_add (vec_add (multiplyG st (ip_x st) (rd st)) (ip_c st))
               (multiplyNegAT st (lam st) (vectn st))"
    "mu (fullupdate_residual cfg st) = MatrDot (ip_y st) (lam st) / real (ip_m st)"
    "BigMat (fullupdate_residual cfg st) = BigMat st"
    "rhs_sol (fullupdate_residual cfg st) = rhs_sol st"
    "Dlam (fullupdate_residual cfg st) = Dlam st"
    "ip_n (fullupdate_residual cfg st) = ip_n st"
    using assms
    by (simp_all add: fullupdate_residual_def Let_def m cong: update_lazy)
qed

lemma emits_one_contact:
  assumes "emits source_macros 1 1 [a] [b] out"
  shows "out = [a, - b, 0, 0]"
proof -
  have l: "length out = Suc (Suc (Suc (Suc 0)))"
    and e: "out ! 0 = a" "out ! Suc 0 = - b" "out ! Suc (Suc 0) = 0"
      "out ! Suc (Suc (Suc 0)) = 0"
    using assms by (simp_all add: emits_def emitted_size_def source_macros_def numeral_eq_Suc)
  show ?thesis
    using l e by (auto simp: list_eq_iff_nth_eq less_Suc_eq)
qed

lemma first_call_start:
  "ip_x (initialize solve_2x2 source_macros small_descriptor
           (fresh_state\<lparr>iteration_count_max := 1, solver_call := 1\<rparr>)) = [1] \<and>
   lam (initialize solve_2x2 source_macros small_descriptor
           (fresh_state\<lparr>iteration_count_max := 1, solver_call := 1\<rparr>)) = [4 / 3] \<and>
   iteration_count_max (initialize solve_2x2 source_macros small_descriptor
           (fresh_state\<lparr>iteration_count_max := 1, solver_call := 1\<rparr>)) = 1"
proof -
  define S where "S = fresh_state\<lparr>iteration_count_max := 1, solver_call := 1\<rparr>"
  define pre where "pre =
    (make_positive_definite
       ((reset_dimensions source_macros (ip_n S) (ip_m S)
           (S\<lparr>ip_n := CountActiveVariables small_descriptor,
               ip_m := CountActiveConstraints small_descriptor\<rparr>))
        \<lparr>BigMat := matrix_form small_descriptor AUGMENTED\<rparr>))
    \<lparr>ip_c := MatrScale (- 1) (f_form small_descriptor),
      ip_b := MatrScale (- 1) (b_form small_descriptor)\<rparr>"
  define s2 where "s2 = fullupdate_residual source_macros
           (pre\<lparr>ip_x := FillElem 1 (ip_x pre), lam := FillElem 1 (lam pre),
                ip_y := vec_sub (multiplyA pre (FillElem 1 (ip_x pre)) (ip_y pre)) (ip_b pre)\<rparr>)"
  have c: "\<not> ADD_COMPLIANCE source_macros" "\<not> REUSE_OLD_SOLUTIONS source_macros"
    "CountActiveConstraints small_descriptor \<noteq> 0" "KKT_solve_method S = AUGMENTED"
    by (simp_all add: source_macros_def small_descriptor_def S_def fresh_state_def)
  have init: "initialize solve_2x2 source_macros small_descriptor S
      = starting_point_Nocedal solve_2x2 source_macros (ip_n S) (ip_m S) pre"
    unfolding pre_def by (rule initialize_AUGMENTED [OF c(4) c(3) c(1)])
  have p: "KKT_solve_method pre = AUGMENTED" "ip_n pre = 1" "ip_m pre = 1"
    "ip_x pre = [0]" "ip_y pre = [0]" "lam pre = [0]" "ip_b pre = [- 1]" "ip_c pre = [3]"
    "rp pre = [0]" "rd pre = [0]" "vectn pre = [0]" "Dlam pre = [0]" "rhs_sol pre = [0, 0]"
    "iteration_count_max pre = 1"
    by (simp_all add: pre_def S_def fresh_state_def small_descriptor_def source_macros_def
          reset_dimensions_def make_positive_definite_def Resize_def MatrScale_def Let_def)
  have P: "BigMat pre 0 0 = 1" "BigMat pre 0 (Suc 0) = - 1" "BigMat pre (Suc 0) 0 = 1"
    "BigMat pre (Suc 0) (Suc 0) = 0"
    by (simp_all add: pre_def S_def fresh_state_def small_descriptor_def source_macros_def
          reset_dimensions_def make_positive_definite_def Resize_def MatrScale_def Let_def)
  have x1: "ip_x (initialize solve_2x2 source_macros small_descriptor S) = [1]"
    by (simp add: init starting_point_Nocedal_x [OF c(2)] p)
  have cap: "iteration_count_max (initialize solve_2x2 source_macros small_descriptor S) = 1"
    using solver_frame_fields(4) [OF solver_frame_starting_point,
            of solve_2x2 source_macros "ip_n S" "ip_m S" pre]
    by (simp add: init p)
  have y2: "ip_y s2 = [2]" "lam s2 = [1]" "ip_m s2 = 1" "KKT_solve_method s2 = AUGMENTED"
    by (simp_all add: s2_def fullupdate_residual_fields p P FillElem_def multiplyA_def
          MatMultiplyClipped_def vec_sub_def)
  have v2: "rp s2 = [0]" "rd s2 = [3]" "ip_n s2 = 1" "Dlam s2 = [0]" "rhs_sol s2 = [0, 0]"
    by (simp_all add: s2_def fullupdate_residual_values [OF c(1)] p P FillElem_def
          multiplyA_def multiplyG_def multiplyNegAT_def MatMultiplyClipped_def vec_sub_def
          vec_add_def)
  have B2: "BigMat s2 = BigMat pre"
    by (simp add: s2_def fullupdate_residual_values [OF c(1)])
  have len: "length (rhs_sol s2) = ip_n s2 + ip_m s2"
    by (simp add: v2 y2)
  note a = KKT_AUGMENTED_assemble_is_spec [OF len, of source_macros 0]
  have r: "spec_augmented_rhs 0 s2 = [- 3, - 2]"
    by (simp add: spec_augmented_rhs_def v2 y2)
  have M: "spec_augmented_matrix source_macros s2 0 0 = 1"
    "spec_augmented_matrix source_macros s2 0 (Suc 0) = - 1"
    "spec_augmented_matrix source_macros s2 (Suc 0) 0 = 1"
    "spec_augmented_matrix source_macros s2 (Suc 0) (Suc 0) = 2"
    by (simp_all add: spec_augmented_matrix_def v2 y2 B2 P c(1))
  have so: "solve_2x2 (spec_augmented_matrix source_macros s2) [- 3, - 2] = [- 8 / 3, 1 / 3]"
    by (simp add: solve_2x2_def Let_def M)
  have dl: "Dlam (KKTsolve solve_2x2 source_macros 0 s2) = [1 / 3]"
    by (simp add: KKTsolve_AUGMENTED(4) [OF y2(4) c(1)] a r so v2 y2)
  have l1: "lam (initialize solve_2x2 source_macros small_descriptor S) = [4 / 3]"
    unfolding init
    by (simp add: starting_point_Nocedal_lam [OF c(2) s2_def] dl y2 p vec_add_def clamp_abs_def)
  show ?thesis using x1 l1 cap by (simp add: S_def)
qed

theorem Solve_emits_solution_witness:
  "CountActiveConstraints small_descriptor \<noteq> 0 \<and>
   ip_x (state_before_emission solve_2x2 source_macros small_descriptor
           (fresh_state\<lparr>iteration_count_max := 1\<rparr>)) = [1] \<and>
   lam (state_before_emission solve_2x2 source_macros small_descriptor
           (fresh_state\<lparr>iteration_count_max := 1\<rparr>)) = [4 / 3] \<and>
   fst (Solve solve_2x2 source_macros small_descriptor (fresh_state\<lparr>iteration_count_max := 1\<rparr>))
     = [1, - (4 / 3), 0, 0]"
proof -
  define st0 where "st0 = initialize solve_2x2 source_macros small_descriptor
           (fresh_state\<lparr>iteration_count_max := 1, solver_call := 1\<rparr>)"
  define st1 where
    "st1 = (SetTolerances (1 / 10 ^ 7) (1 / 10 ^ 8) (1 / 10 ^ 8) st0)\<lparr>iteration_count := 1\<rparr>"
  have h: "CountActiveConstraints small_descriptor \<noteq> 0"
    "CountActiveVariables small_descriptor = 1" "CountActiveConstraints small_descriptor = 1"
    by (simp_all add: small_descriptor_def)
  have f0: "ip_x st0 = [1]" "lam st0 = [4 / 3]" "iteration_count_max st0 = 1"
    using first_call_start by (simp_all add: st0_def)
  have S: "(fresh_state\<lparr>iteration_count_max := 1\<rparr>)
             \<lparr>solver_call := solver_call (fresh_state\<lparr>iteration_count_max := 1\<rparr>) + 1\<rparr>
           = fresh_state\<lparr>iteration_count_max := 1, solver_call := 1\<rparr>"
    by (simp add: fresh_state_def)
  have stop: "solve_loop solve_2x2 source_macros st1 = st1"
    by (subst solve_loop.simps) (simp add: st1_def SetTolerances_def f0)
  have b: "state_before_emission solve_2x2 source_macros small_descriptor
             (fresh_state\<lparr>iteration_count_max := 1\<rparr>) = VerifyKKTconditions st1"
    unfolding state_before_emission_def S st0_def [symmetric] st1_def [symmetric] stop ..
  have xb: "ip_x (VerifyKKTconditions st1) = [1]" "lam (VerifyKKTconditions st1) = [4 / 3]"
    by (simp_all add: VerifyKKTconditions_def st1_def SetTolerances_def f0)
  from Solve_emits_solution [OF h(1), of solve_2x2 source_macros
         "fresh_state\<lparr>iteration_count_max := 1\<rparr>", THEN conjunct2, THEN conjunct1]
  have "emits source_macros 1 1 [1] [4 / 3]
          (fst (Solve solve_2x2 source_macros small_descriptor
                  (fresh_state\<lparr>iteration_count_max := 1\<rparr>)))"
    by (simp only: b xb h(2,3))
  from emits_one_contact [OF this] h(1) xb [folded b] show ?thesis
    by simp
qed

end
